theory Spec2Isabelle
  imports Main
begin

section \<open>Python values the estimation engine works with\<close>

text \<open>
  The module \<^verbatim>\<open>mlens/parallel/estimation.py\<close> is embedded function by function.
  An exception is a value: every function that can raise returns a sum whose left
  side is the exception. Only instances of Python's \<^verbatim>\<open>Exception\<close> are modelled
  (what \<^verbatim>\<open>except Exception\<close> catches); an exception has its class and its message.
  A module-level function whose Python name starts with an underscore has the prefix
  \<open>priv_\<close> here (\<^verbatim>\<open>_fit_est\<close> is \<open>priv_fit_est\<close>, next to \<^verbatim>\<open>fit_est\<close>), and a
  method of \<^verbatim>\<open>BaseEstimator\<close> the prefix \<open>BaseEstimator_\<close>.
\<close>

datatype exc_class =
    FitFailedError
  | PredictFailedError
  | NotFittedError
  | ParallelProcessingError
  | FileNotFoundError
  | TypeError
  | AttributeError
  | IndexError
  | ValueError
  | KeyError
  | OtherException string

datatype py_exc = PyExc (exc_class_of: exc_class) (exc_msg: string)

datatype warn_class = FitFailedWarning | PredictFailedWarning | ParallelProcessingWarning

datatype py_warning = PyWarning (warn_class_of: warn_class) (warn_msg: string)

fun class_name :: "exc_class \<Rightarrow> string" where
  "class_name FitFailedError = ''FitFailedError''"
| "class_name PredictFailedError = ''PredictFailedError''"
| "class_name NotFittedError = ''NotFittedError''"
| "class_name ParallelProcessingError = ''ParallelProcessingError''"
| "class_name FileNotFoundError = ''FileNotFoundError''"
| "class_name TypeError = ''TypeError''"
| "class_name AttributeError = ''AttributeError''"
| "class_name IndexError = ''IndexError''"
| "class_name ValueError = ''ValueError''"
| "class_name KeyError = ''KeyError''"
| "class_name (OtherException n) = n"

text \<open>\<^verbatim>\<open>'%r' % e\<close> of an exception with one string argument (the quoting of a message
  that itself holds a quote or a backslash is not modelled).\<close>

definition repr_exc :: "py_exc \<Rightarrow> string" where
  "repr_exc e = class_name (exc_class_of e) @ ''('' @ [CHR 0x27] @ exc_msg e @ [CHR 0x27] @ '')''"

text \<open>\<^verbatim>\<open>'%s' % v\<close> where \<open>v\<close> is a string or \<^verbatim>\<open>None\<close>.\<close>

fun py_str :: "string option \<Rightarrow> string" where
  "py_str None = ''None''"
| "py_str (Some s) = s"

definition digit_char :: "nat \<Rightarrow> char" where
  "digit_char d = char_of (48 + d)"

fun show_nat :: "nat \<Rightarrow> string" where
  "show_nat n = (if n < 10 then [digit_char n] else show_nat (n div 10) @ [digit_char (n mod 10)])"

declare show_nat.simps [simp del]

text \<open>\<^verbatim>\<open>'%i' % n\<close> of an integer.\<close>

definition show_int :: "int \<Rightarrow> string" where
  "show_int i = (if i < 0 then CHR ''-'' # show_nat (nat (- i)) else show_nat (nat i))"

subsection \<open>The \<^verbatim>\<open>%\<close> operator on strings\<close>

text \<open>
  \<^verbatim>\<open>fmt % args\<close>: every conversion specifier of the format takes one argument, from
  left to right. Python raises \<^verbatim>\<open>TypeError\<close> when the arguments run out before the
  specifiers do, and when arguments are left over at the end. A right operand that is not
  a tuple is one argument. The arguments are given already rendered (by \<open>py_str\<close>,
  \<open>show_int\<close>, \<open>repr_exc\<close>), so the model decides how many arguments a format takes and
  where each one lands.
\<close>

definition fmt_flag :: "char \<Rightarrow> bool" where
  "fmt_flag c = (c \<in> set ''#0- +.123456789'')"

function py_format :: "string \<Rightarrow> string list \<Rightarrow> py_exc + string" where
  "py_format [] [] = Inr []"
| "py_format [] (a # as) =
     Inl (PyExc TypeError ''not all arguments converted during string formatting'')"
| "py_format (c # cs) as =
     (if c \<noteq> CHR ''%'' then map_sum id ((#) c) (py_format cs as)
      else (case dropWhile fmt_flag cs of
              [] \<Rightarrow> Inl (PyExc ValueError ''incomplete format'')
            | t # rest \<Rightarrow>
                if t = CHR ''%'' then map_sum id ((#) (CHR ''%'')) (py_format rest as)
                else (case as of
                        [] \<Rightarrow> Inl (PyExc TypeError ''not enough arguments for format string'')
                      | a # as' \<Rightarrow> map_sum id ((@) a) (py_format rest as'))))"
  by pat_completeness auto

lemma length_dropWhile_Cons: "dropWhile P cs = t # rest \<Longrightarrow> length rest < length cs"
proof -
  assume h: "dropWhile P cs = t # rest"
  have "length (dropWhile P cs) \<le> length cs" by (rule length_dropWhile_le)
  with h show ?thesis by simp
qed

termination py_format
  by (relation "measure (\<lambda>(f, as). length f)") (auto dest: length_dropWhile_Cons)

declare py_format.simps [simp del]

subsection \<open>Message prefix and paths\<close>

text \<open>\<^verbatim>\<open>_name(layer_name, case)\<close>: the prefix of an error or warning message.\<close>

definition priv_name :: "string option \<Rightarrow> string option \<Rightarrow> py_exc + string" where
  "priv_name layer_name cse =
     (if layer_name = None \<and> cse = None then Inr ''''
      else if layer_name \<noteq> None \<and> cse \<noteq> None
        then py_format ''[%s | %s ] '' [py_str layer_name, py_str cse]
      else if cse = None then py_format ''[%s] '' [py_str layer_name]
      else py_format ''[%s] '' [py_str cse])"

text \<open>\<^verbatim>\<open>os.path.join(a, b)\<close> with two components (POSIX): an absolute \<open>b\<close> replaces
  \<open>a\<close>; otherwise \<open>b\<close> is appended, after a separator unless \<open>a\<close> is empty or ends
  with one.\<close>

definition path_join :: "string \<Rightarrow> string \<Rightarrow> string" where
  "path_join a b =
     (if b \<noteq> [] \<and> hd b = CHR ''/'' then b
      else if a = [] \<or> last a = CHR ''/'' then a @ b
      else a @ ''/'' @ b)"

section \<open>Arrays\<close>

text \<open>
  A two-dimensional array is the list of its rows, a one-dimensional array a list.
  \<^verbatim>\<open>x[idx]\<close> with an integer index array takes the rows named by \<open>idx\<close> in order; an
  index counts from the end when negative and raises \<^verbatim>\<open>IndexError\<close> out of range.
\<close>

definition np_index :: "nat \<Rightarrow> int \<Rightarrow> py_exc + nat" where
  "np_index n i =
     (if 0 \<le> i \<and> i < int n then Inr (nat i)
      else if - int n \<le> i \<and> i < 0 then Inr (nat (i + int n))
      else Inl (PyExc IndexError ''index out of bounds''))"

fun np_take :: "'a list \<Rightarrow> int list \<Rightarrow> py_exc + 'a list" where
  "np_take x [] = Inr []"
| "np_take x (i # is) =
     (case np_index (length x) i of
        Inl e \<Rightarrow> Inl e
      | Inr j \<Rightarrow> (case np_take x is of Inl e \<Rightarrow> Inl e | Inr r \<Rightarrow> Inr (x ! j # r)))"

text \<open>An index specification of the task list: one range \<^verbatim>\<open>(a, b)\<close> or a sequence of
  ranges \<^verbatim>\<open>((a0, b0), (a1, b1), ...)\<close>. \<^verbatim>\<open>None\<close> is \<open>None\<close> of the option type.\<close>

datatype idx_spec = Range int int | Ranges "(int \<times> int) list"

text \<open>\<^verbatim>\<open>np.arange(t0, t1)\<close> on integers.\<close>

definition np_arange :: "int \<Rightarrow> int \<Rightarrow> int list" where
  "np_arange t0 t1 = [t0..t1 - 1]"

text \<open>The index array \<^verbatim>\<open>_slice_array\<close> builds: \<^verbatim>\<open>idx[0]\<close> of an empty sequence raises.\<close>

fun build_index :: "idx_spec \<Rightarrow> py_exc + int list" where
  "build_index (Ranges []) = Inl (PyExc IndexError ''tuple index out of range'')"
| "build_index (Ranges rs) = Inr (concat (map (\<lambda>(t0, t1). np_arange t0 t1) rs))"
| "build_index (Range a b) = Inr (np_arange a b)"

text \<open>\<^verbatim>\<open>_slice_array(x, y, idx)\<close>: the rows of \<open>x\<close>, the entries of \<open>y\<close> when there is a
  \<open>y\<close>, and the index array. \<^verbatim>\<open>np.asarray\<close> changes no value.\<close>

definition priv_slice_array ::
  "'a list \<Rightarrow> 'b list option \<Rightarrow> idx_spec option
     \<Rightarrow> py_exc + ('a list \<times> 'b list option \<times> int list option)" where
  "priv_slice_array x y idx =
     (case idx of
        None \<Rightarrow> Inr (x, y, None)
      | Some spec \<Rightarrow>
          (case build_index spec of
             Inl e \<Rightarrow> Inl e
           | Inr ix \<Rightarrow>
               (case np_take x ix of
                  Inl e \<Rightarrow> Inl e
                | Inr x' \<Rightarrow>
                    (case y of
                       None \<Rightarrow> Inr (x', None, Some ix)
                     | Some yv \<Rightarrow>
                         (case np_take yv ix of
                            Inl e \<Rightarrow> Inl e
                          | Inr y' \<Rightarrow> Inr (x', Some y', Some ix))))))"


section \<open>Results, warnings and the cache\<close>

text \<open>
  A function that can also warn returns its outcome (the exception or the value) together
  with the warnings it has emitted, in order; warnings emitted before an exception are
  kept. \<open>res_bind\<close> is sequencing: an exception ends the run.
\<close>

type_synonym 'r res = "(py_exc + 'r) \<times> py_warning list"

definition exc_bind :: "py_exc + 'a \<Rightarrow> ('a \<Rightarrow> py_exc + 'b) \<Rightarrow> py_exc + 'b" where
  "exc_bind m f = (case m of Inl e \<Rightarrow> Inl e | Inr v \<Rightarrow> f v)"

definition res_return :: "'r \<Rightarrow> 'r res" where
  "res_return v = (Inr v, [])"

definition res_raise :: "py_exc \<Rightarrow> 'r res" where
  "res_raise e = (Inl e, [])"

definition res_warn :: "py_warning \<Rightarrow> unit res" where
  "res_warn w = (Inr (), [w])"

definition res_lift :: "py_exc + 'r \<Rightarrow> 'r res" where
  "res_lift m = (m, [])"

definition res_bind :: "'a res \<Rightarrow> ('a \<Rightarrow> 'b res) \<Rightarrow> 'b res" where
  "res_bind m f =
     (case m of
        (Inl e, ws) \<Rightarrow> (Inl e, ws)
      | (Inr v, ws) \<Rightarrow> (case f v of (r, ws') \<Rightarrow> (r, ws @ ws')))"

section \<open>Learnable instances\<close>

text \<open>
  A prediction is a one-dimensional array (\<^verbatim>\<open>len(p.shape) == 1\<close>) or a two-dimensional one.
  A transformer has \<^verbatim>\<open>fit(x, y)\<close>, which returns the fitted transformer, and
  \<^verbatim>\<open>transform(x)\<close>; \<open>tr_class\<close> is the text of \<^verbatim>\<open>'%s' % tr.__class__\<close>. An estimator has
  \<^verbatim>\<open>fit(x, y)\<close> and the methods \<^verbatim>\<open>getattr(est, attr)\<close> reads (\<^verbatim>\<open>predict\<close>,
  \<^verbatim>\<open>predict_proba\<close>); a method the object lacks is the \<^verbatim>\<open>AttributeError\<close> it raises.
  The engine never looks inside an instance, so each capability is a function that
  returns a value or raises.
\<close>

datatype 'a ndarray = Arr1 "'a list" | Arr2 "'a list list"

datatype 'a transformer =
  Transformer (tr_class: string)
    (tr_fit: "'a list list \<Rightarrow> 'a list option \<Rightarrow> py_exc + 'a transformer")
    (tr_transform: "'a list list \<Rightarrow> py_exc + 'a list list")

datatype 'a estimator =
  Estimator
    (est_fit: "'a list list \<Rightarrow> 'a list option \<Rightarrow> py_exc + 'a estimator")
    (est_method: "string \<Rightarrow> 'a list list \<Rightarrow> py_exc + 'a ndarray")

section \<open>Fault-wrapped stage functions\<close>

text \<open>\<^verbatim>\<open>_fit_tr\<close>: the \<^verbatim>\<open>except Exception\<close> branch formats the message and raises
  \<^verbatim>\<open>FitFailedError\<close>; the function has no \<^verbatim>\<open>raise_on_exception\<close> parameter.\<close>

definition priv_fit_tr ::
  "'a list list \<Rightarrow> 'a list option \<Rightarrow> 'a transformer \<Rightarrow> string \<Rightarrow> string option \<Rightarrow> string option
     \<Rightarrow> py_exc + 'a transformer" where
  "priv_fit_tr x y tr tr_name cse layer_name =
     (case tr_fit tr x y of
        Inr fitted \<Rightarrow> Inr fitted
      | Inl e \<Rightarrow>
          exc_bind (priv_name layer_name cse) (\<lambda>s.
          exc_bind (py_format ''%sFitting transformer [%s] failed. Details:\<newline>%r''
                      [s, tr_name, repr_exc e]) (\<lambda>msg.
          Inl (PyExc FitFailedError msg))))"

text \<open>\<^verbatim>\<open>_transform_tr\<close>.\<close>

definition priv_transform_tr ::
  "'a list list \<Rightarrow> 'a transformer \<Rightarrow> string \<Rightarrow> string option \<Rightarrow> string option
     \<Rightarrow> py_exc + 'a list list" where
  "priv_transform_tr x tr tr_name cse layer_name =
     (case tr_transform tr x of
        Inr x' \<Rightarrow> Inr x'
      | Inl e \<Rightarrow>
          exc_bind (priv_name layer_name cse) (\<lambda>s.
          exc_bind (py_format
                      ''%sTransformation with transformer [%s] of type (%s) failed. Details:\<newline>%r''
                      [s, tr_name, tr_class tr, repr_exc e]) (\<lambda>msg.
          Inl (PyExc FitFailedError msg))))"

text \<open>\<^verbatim>\<open>_fit_est\<close>: raises when \<^verbatim>\<open>raise_on_exception\<close> is set; otherwise it warns and
  falls off the end of the function, which returns \<^verbatim>\<open>None\<close>.\<close>

definition priv_fit_est ::
  "'a list list \<Rightarrow> 'a list option \<Rightarrow> 'a estimator \<Rightarrow> bool \<Rightarrow> string \<Rightarrow> string option
     \<Rightarrow> string option \<Rightarrow> 'a estimator option res" where
  "priv_fit_est x y est raise_on_exception inst_name cse layer_name =
     (case est_fit est x y of
        Inr fitted \<Rightarrow> res_return (Some fitted)
      | Inl e \<Rightarrow>
          res_bind (res_lift (priv_name layer_name cse)) (\<lambda>s.
          if raise_on_exception then
            res_bind (res_lift (py_format ''%sCould not fit estimator '%s'. Details:\<newline>%r''
                                  [s, inst_name, repr_exc e])) (\<lambda>msg.
            res_raise (PyExc FitFailedError msg))
          else
            res_bind (res_lift (py_format
                ''%sCould not fit estimator '%s'. Will drop from ensemble. Details:\<newline>%r''
                [s, inst_name, repr_exc e])) (\<lambda>msg.
            res_bind (res_warn (PyWarning FitFailedWarning msg)) (\<lambda>_.
            res_return None))))"

text \<open>\<^verbatim>\<open>_predict_est\<close>. \<open>call_attr\<close> is the expression \<^verbatim>\<open>getattr(est, attr)(x)\<close> inside the
  \<^verbatim>\<open>try\<close>: \<open>est\<close> is \<^verbatim>\<open>None\<close> when \<^verbatim>\<open>_fit_est\<close> returned \<^verbatim>\<open>None\<close>, and then \<^verbatim>\<open>getattr\<close> raises
  \<^verbatim>\<open>AttributeError\<close>.\<close>

definition call_attr :: "'a estimator option \<Rightarrow> string \<Rightarrow> 'a list list \<Rightarrow> py_exc + 'a ndarray" where
  "call_attr est attr x =
     (case est of
        None \<Rightarrow> Inl (PyExc AttributeError ''NoneType object has no attribute'')
      | Some e \<Rightarrow> est_method e attr x)"

definition priv_predict_est ::
  "'a list list \<Rightarrow> 'a estimator option \<Rightarrow> bool \<Rightarrow> string \<Rightarrow> string option \<Rightarrow> string option
     \<Rightarrow> string \<Rightarrow> 'a ndarray option res" where
  "priv_predict_est x est raise_on_exception inst_name cse name attr =
     (case call_attr est attr x of
        Inr p \<Rightarrow> res_return (Some p)
      | Inl e \<Rightarrow>
          res_bind (res_lift (priv_name name cse)) (\<lambda>s.
          if raise_on_exception then
            res_bind (res_lift (py_format
                ''%sCould not call '%s' with estimator '%s'. Details:\<newline>%r''
                [s, attr, inst_name, repr_exc e])) (\<lambda>msg.
            res_raise (PyExc PredictFailedError msg))
          else
            res_bind (res_lift (py_format
                ''%sCould not call '%s' with estimator '%s'. Predictions set to 0. Details:\<newline>%r''
                [s, attr, inst_name, repr_exc e])) (\<lambda>msg.
            res_bind (res_warn (PyWarning PredictFailedWarning msg)) (\<lambda>_.
            res_return None))))"

section \<open>The cache store\<close>

text \<open>
  What a worker pickles: the list of fitted \<open>(name, transformer)\<close> steps of a case, or
  the tuple \<open>(inst_name, est, idx, s)\<close> of an estimator, where \<open>est\<close> is \<^verbatim>\<open>None\<close> when
  \<^verbatim>\<open>_fit_est\<close> returned \<^verbatim>\<open>None\<close>, \<open>idx\<close> is \<open>(tei, col)\<close> and \<open>s\<close> the score or \<^verbatim>\<open>None\<close>.
\<close>

datatype 'a payload =
    TransPayload "(string \<times> 'a transformer) list"
  | EstPayload string "'a estimator option" "idx_spec option \<times> int" "'a option"

type_synonym 'a cache = "string \<rightharpoonup> 'a payload"

text \<open>
  Modelled from the spec: \<^verbatim>\<open>pickle_save\<close> and \<^verbatim>\<open>pickle_load\<close> of \<^verbatim>\<open>mlens.utils\<close> are not
  among the sources. The spec's cache store is a key to blob store with
  \<^verbatim>\<open>save(key, payload)\<close>, \<^verbatim>\<open>load(key)\<close>, which fails with a not-found condition if the key is
  absent, and \<^verbatim>\<open>exists(key)\<close>; the file system under the cache directory is a map from
  paths to payloads, and \<^verbatim>\<open>os.path.exists\<close> asks whether the path is in it.
\<close>

definition pickle_save :: "'a payload \<Rightarrow> string \<Rightarrow> 'a cache \<Rightarrow> 'a cache" where
  "pickle_save obj f c = c(f \<mapsto> obj)"

definition pickle_load :: "'a cache \<Rightarrow> string \<Rightarrow> py_exc + 'a payload" where
  "pickle_load c f =
     (case c f of
        None \<Rightarrow> Inl (PyExc FileNotFoundError (''No such file or directory: '' @ f))
      | Some obj \<Rightarrow> Inr obj)"

definition path_exists :: "'a cache \<Rightarrow> string \<Rightarrow> bool" where
  "path_exists c f = (c f \<noteq> None)"

section \<open>The wait protocol\<close>

definition error_msg :: string where
  "error_msg = ''The file %s cannot be found after %i seconds of waiting. Check that time to fit transformers is sufficiently fast to complete fitting before fitting estimators. Consider reducing the preprocessing intensity in the ensemble, or increase the '__lim__' attribute to wait extend period of waiting on transformation to complete. Details:\<newline>%r''"

text \<open>
  The \<^verbatim>\<open>while not os.path.exists(dir)\<close> loop of \<^verbatim>\<open>_load_trans\<close>. \<open>ex k\<close> is what
  \<^verbatim>\<open>os.path.exists(dir)\<close> answers after \<open>k\<close> sleeps: other workers write the file system
  while this one waits. \<open>err\<close> is the value of \<^verbatim>\<open>error_msg % msg\<close> and \<open>wmsg\<close> the text of
  the warning. The loop returns the number of sleeps after which it saw the file.

  Time is counted in whole seconds: \<open>now\<close> is the sum of the sleeps so far and \<open>ts\<close> the sum
  at the last \<^verbatim>\<open>ts = time_()\<close>. \<^verbatim>\<open>sleep(s)\<close> raises \<^verbatim>\<open>ValueError\<close> on a negative length and
  otherwise returns no sooner than \<open>s\<close> seconds later. The clock that \<^verbatim>\<open>time_()\<close> reads runs
  on between the statements, so the reading after the sleep lies strictly after
  \<open>now + s\<close>, and before \<open>now + s + 1\<close> as long as the statements around the sleeps take less
  than a second in all: \<^verbatim>\<open>time_() - ts > lim\<close>, for whole \<open>s\<close> and \<open>lim\<close>, holds exactly when
  \<open>now + s - ts \<ge> lim\<close>. With \<open>s = 0\<close> and \<open>lim > 0\<close> only the time of the statements
  themselves brings the clock to the limit, after a number of passes that the code does not
  determine; this time is not modelled, and the model gives \<open>None\<close> (no result) for a file
  that never appears, where the code ends like a wait with a positive \<open>s\<close>. Not returning is
  \<open>None\<close> as well: the function is partial.
\<close>

partial_function (option) load_trans_wait ::
  "(nat \<Rightarrow> bool) \<Rightarrow> int \<Rightarrow> int \<Rightarrow> py_exc + string \<Rightarrow> py_exc + string
     \<Rightarrow> nat \<Rightarrow> int \<Rightarrow> int \<Rightarrow> bool \<Rightarrow> py_warning list \<Rightarrow> ((py_exc + nat) \<times> py_warning list) option" where
  "load_trans_wait ex s lim err wmsg k now ts raise_on_exception ws =
     (if ex k then Some (Inr k, ws)
      else if s < 0 then Some (Inl (PyExc ValueError ''sleep length must be non-negative''), ws)
      else if now + s - ts \<ge> lim then
        (if raise_on_exception then
           Some (exc_bind err (\<lambda>m. Inl (PyExc ParallelProcessingError m)), ws)
         else
           (case wmsg of
              Inl e \<Rightarrow> Some (Inl e, ws)
            | Inr m \<Rightarrow>
                load_trans_wait ex s lim err wmsg (Suc k) (now + s) (now + s) True
                  (ws @ [PyWarning ParallelProcessingWarning m])))
      else load_trans_wait ex s lim err wmsg (Suc k) (now + s) ts raise_on_exception ws)"

text \<open>
  \<^verbatim>\<open>_load_trans(dir, case, ivals, raise_on_exception)\<close>. \<open>fs k\<close> is the file system after
  \<open>k\<close> sleeps of this worker. The result is the payload and the number of sleeps the call
  took, so that the caller continues in the file system \<open>fs k\<close>.
\<close>

definition priv_load_trans ::
  "(nat \<Rightarrow> 'a cache) \<Rightarrow> string \<Rightarrow> string option \<Rightarrow> int \<times> int \<Rightarrow> bool
     \<Rightarrow> ('a payload \<times> nat) res option" where
  "priv_load_trans fs dir cse ivals raise_on_exception =
     (let s = fst ivals; lim = snd ivals in
      case pickle_load (fs 0) dir of
        Inr obj \<Rightarrow> Some (Inr (obj, 0), [])
      | Inl exc \<Rightarrow>
          if exc_class_of exc \<noteq> FileNotFoundError \<and> exc_class_of exc \<noteq> TypeError
          then Some (Inl exc, [])
          else
            let msg = exc_msg exc; err = py_format error_msg [msg] in
            if raise_on_exception then
              Some (exc_bind err (\<lambda>m. Inl (PyExc ParallelProcessingError m)), [])
            else
              (case load_trans_wait (\<lambda>k. path_exists (fs k) dir) s lim err
                      (py_format ''Transformer %s not found in cache (%s). Will check every %.1f seconds for %i seconds before aborting. ''
                         [py_str cse, dir, show_int s @ ''.0'', show_int lim])
                      0 0 0 False [] of
                 None \<Rightarrow> None
               | Some (Inl e, ws) \<Rightarrow> Some (Inl e, ws)
               | Some (Inr k, ws) \<Rightarrow>
                   Some (exc_bind (pickle_load (fs k) dir) (\<lambda>obj. Inr (obj, k)), ws)))"

section \<open>Writing into the prediction matrix\<close>

text \<open>
  The prediction matrix is the list of its rows, all of one length; \<open>n_cols\<close> is
  \<^verbatim>\<open>pred.shape[1]\<close>. A list of rows does not record the width of a matrix without rows:
  the model reads every such matrix as of shape \<open>(0, 0)\<close>, so that a column index into it
  raises \<^verbatim>\<open>IndexError\<close>, where an array of shape \<open>(0, c)\<close> with \<open>c > 0\<close> takes the empty
  assignment and writes nothing. The results below are about matrices with rows. An assignment
  \<^verbatim>\<open>pred[rows, col] = p\<close> checks every index (\<^verbatim>\<open>IndexError\<close>), broadcasts \<open>p\<close> to the number
  of rows indexed (equal length, or length one; \<^verbatim>\<open>ValueError\<close> otherwise) and writes cell
  by cell in index order, so that for a row named twice the last value stands.
\<close>

definition n_cols :: "'a list list \<Rightarrow> nat" where
  "n_cols m = (case m of [] \<Rightarrow> 0 | r # _ \<Rightarrow> length r)"

definition set_cell :: "'a list list \<Rightarrow> nat \<Rightarrow> nat \<Rightarrow> 'a \<Rightarrow> 'a list list" where
  "set_cell m r c v = m[r := (m ! r)[c := v]]"

fun np_index_all :: "nat \<Rightarrow> int list \<Rightarrow> py_exc + nat list" where
  "np_index_all n [] = Inr []"
| "np_index_all n (i # is) =
     exc_bind (np_index n i) (\<lambda>j. exc_bind (np_index_all n is) (\<lambda>js. Inr (j # js)))"

definition np_broadcast :: "'b list \<Rightarrow> nat \<Rightarrow> py_exc + 'b list" where
  "np_broadcast p m =
     (if length p = m then Inr p
      else if length p = 1 then Inr (replicate m (hd p))
      else Inl (PyExc ValueError ''shape mismatch: value array could not be broadcast''))"

text \<open>\<^verbatim>\<open>pred[ix, col] = v\<close> for an index array \<open>ix\<close>, a column \<open>col\<close> and a one-dimensional \<open>v\<close>.\<close>

definition np_set_col :: "'a list list \<Rightarrow> int list \<Rightarrow> int \<Rightarrow> 'a list \<Rightarrow> py_exc + 'a list list" where
  "np_set_col pm ix col v =
     exc_bind (np_index_all (length pm) ix) (\<lambda>rs.
     exc_bind (np_index (n_cols pm) col) (\<lambda>c.
     exc_bind (np_broadcast v (length ix)) (\<lambda>vs.
     Inr (fold (\<lambda>(r, a) m. set_cell m r c a) (zip rs vs) pm))))"

text \<open>\<^verbatim>\<open>pred[np.ix_(ix, cols)] = v\<close> for a two-dimensional \<open>v\<close> with one column per entry of
  \<open>cols\<close>.\<close>

definition np_set_block ::
  "'a list list \<Rightarrow> int list \<Rightarrow> int list \<Rightarrow> 'a list list \<Rightarrow> py_exc + 'a list list" where
  "np_set_block pm ix cols v =
     exc_bind (np_index_all (length pm) ix) (\<lambda>rs.
     exc_bind (np_index_all (n_cols pm) cols) (\<lambda>cs.
     exc_bind (np_broadcast v (length ix)) (\<lambda>vrows.
     Inr (fold (\<lambda>(r, vrow) m. fold (\<lambda>(c, a) m'. set_cell m' r c a) (zip cs vrow) m)
            (zip rs vrows) pm))))"

text \<open>
  The writeback of a fold, which \<^verbatim>\<open>fit_est\<close> (lines 516 to 523) and \<^verbatim>\<open>predict_fold_est\<close>
  (lines 448 to 455) spell out in the same statements: \<^verbatim>\<open>rebase = X.shape[0] - pred.shape[0]\<close>,
  \<^verbatim>\<open>tei -= rebase\<close>, then the assignment by the number of dimensions of \<open>p\<close>. \<open>pred\<close> is
  \<^verbatim>\<open>None\<close> when the caller passed no matrix, \<open>tei\<close> is \<^verbatim>\<open>None\<close> when \<^verbatim>\<open>_slice_array\<close> got no
  index, and \<open>p\<close> is \<^verbatim>\<open>None\<close> when \<^verbatim>\<open>_predict_est\<close> warned instead of raising: reading
  \<^verbatim>\<open>.shape\<close> of \<^verbatim>\<open>None\<close> raises \<^verbatim>\<open>AttributeError\<close>, and \<^verbatim>\<open>None -= rebase\<close> raises \<^verbatim>\<open>TypeError\<close>.
\<close>

definition write_fold_pred ::
  "nat \<Rightarrow> 'a list list option \<Rightarrow> int list option \<Rightarrow> int \<Rightarrow> 'a ndarray option
     \<Rightarrow> py_exc + 'a list list" where
  "write_fold_pred x_rows pred tei col p =
     (case pred of
        None \<Rightarrow> Inl (PyExc AttributeError ''NoneType object has no attribute shape'')
      | Some pm \<Rightarrow>
          let rebase = int x_rows - int (length pm) in
          (case tei of
             None \<Rightarrow> Inl (PyExc TypeError ''unsupported operand type(s) for -='')
           | Some ix \<Rightarrow>
               let ix' = map (\<lambda>i. i - rebase) ix in
               (case p of
                  None \<Rightarrow> Inl (PyExc AttributeError ''NoneType object has no attribute shape'')
                | Some (Arr1 v) \<Rightarrow> np_set_col pm ix' col v
                | Some (Arr2 v) \<Rightarrow>
                    np_set_block pm ix' (np_arange col (col + int (n_cols v))) v)))"

text \<open>The writeback of \<^verbatim>\<open>predict_est\<close> (lines 425 to 428): \<^verbatim>\<open>pred[:, col] = p\<close> over all
  rows.\<close>

definition write_full_pred :: "'a list list \<Rightarrow> int \<Rightarrow> 'a ndarray option \<Rightarrow> py_exc + 'a list list" where
  "write_full_pred pm col p =
     (case p of
        None \<Rightarrow> Inl (PyExc AttributeError ''NoneType object has no attribute shape'')
      | Some (Arr1 v) \<Rightarrow> np_set_col pm (np_arange 0 (int (length pm))) col v
      | Some (Arr2 v) \<Rightarrow>
          np_set_block pm (np_arange 0 (int (length pm)))
            (np_arange col (col + int (n_cols v))) v)"

section \<open>Stage functions\<close>

text \<open>The loop \<^verbatim>\<open>for tr_name, tr in tr_list: x = _transform_tr(x, tr, tr_name, case, name)\<close>.\<close>

fun transform_loop ::
  "'a list list \<Rightarrow> (string \<times> 'a transformer) list \<Rightarrow> string option \<Rightarrow> string option
     \<Rightarrow> py_exc + 'a list list" where
  "transform_loop x [] cse name = Inr x"
| "transform_loop x ((tr_name, tr) # rest) cse name =
     exc_bind (priv_transform_tr x tr tr_name cse name) (\<lambda>x'. transform_loop x' rest cse name)"

text \<open>\<^verbatim>\<open>predict_est\<close>: the raising flag passed to \<^verbatim>\<open>_predict_est\<close> is the constant
  \<^verbatim>\<open>True\<close>. The result is the prediction matrix after the write.\<close>

definition predict_est ::
  "string option \<Rightarrow> (string \<times> 'a transformer) list \<Rightarrow> string \<Rightarrow> 'a estimator option
     \<Rightarrow> 'a list list \<Rightarrow> 'a list list \<Rightarrow> int \<Rightarrow> string option \<Rightarrow> string \<Rightarrow> 'a list list res" where
  "predict_est cse tr_list inst_name est xtest pred col name attr =
     res_bind (res_lift (transform_loop xtest tr_list cse name)) (\<lambda>x.
     res_bind (priv_predict_est x est True inst_name cse name attr) (\<lambda>p.
     res_lift (write_full_pred pred col p)))"

text \<open>\<^verbatim>\<open>predict_fold_est\<close>, with \<open>idx = (tei, col)\<close>.\<close>

definition predict_fold_est ::
  "string option \<Rightarrow> (string \<times> 'a transformer) list \<Rightarrow> string \<Rightarrow> 'a estimator option
     \<Rightarrow> 'a list list \<Rightarrow> 'a list list \<Rightarrow> idx_spec option \<times> int \<Rightarrow> string option \<Rightarrow> string
     \<Rightarrow> 'a list list res" where
  "predict_fold_est cse tr_list inst_name est xtest pred idx name attr =
     (let tei = fst idx; col = snd idx in
      res_bind (res_lift (priv_slice_array xtest (None :: 'a list option) tei)) (\<lambda>(x, _, tei').
      res_bind (res_lift (transform_loop x tr_list cse name)) (\<lambda>x'.
      res_bind (priv_predict_est x' est True inst_name cse name attr) (\<lambda>p.
      res_lift (write_fold_pred (length xtest) (Some pred) tei' col p)))))"

text \<open>The loop of \<^verbatim>\<open>fit_trans\<close>; \<open>n\<close> is \<^verbatim>\<open>len(inst)\<close>.\<close>

fun fit_trans_loop ::
  "nat \<Rightarrow> 'a list list \<Rightarrow> 'a list option \<Rightarrow> (string \<times> 'a transformer) list \<Rightarrow> string option
     \<Rightarrow> string option \<Rightarrow> (string \<times> 'a transformer) list
     \<Rightarrow> py_exc + (string \<times> 'a transformer) list" where
  "fit_trans_loop n x y [] cse name out = Inr out"
| "fit_trans_loop n x y ((tr_name, tr) # rest) cse name out =
     exc_bind (priv_fit_tr x y tr tr_name cse name) (\<lambda>tr'.
     exc_bind (if n > 1 then priv_transform_tr x tr' tr_name cse name else Inr x) (\<lambda>x'.
     fit_trans_loop n x' y rest cse name (out @ [(tr_name, tr')])))"

text \<open>\<^verbatim>\<open>fit_trans\<close>: the result is the file system after \<^verbatim>\<open>pickle_save(out, f)\<close>.\<close>

definition fit_trans ::
  "string \<Rightarrow> string option \<Rightarrow> (string \<times> 'a transformer) list \<Rightarrow> 'a list list \<Rightarrow> 'a list option
     \<Rightarrow> idx_spec option \<Rightarrow> string option \<Rightarrow> 'a cache \<Rightarrow> py_exc + 'a cache" where
  "fit_trans dir cse inst X y idx name cache =
     exc_bind (priv_slice_array X y idx) (\<lambda>(x, y', _).
     exc_bind (fit_trans_loop (length inst) x y' inst cse name []) (\<lambda>out.
     exc_bind (py_format ''%s__t'' [py_str cse]) (\<lambda>k.
     Inr (pickle_save (TransPayload out) (path_join dir k) cache))))"

text \<open>\<^verbatim>\<open>s = scorer(z, p)\<close> inside \<^verbatim>\<open>try ... except Exception: s = None\<close>; calling a scorer
  that is \<^verbatim>\<open>None\<close> raises \<^verbatim>\<open>TypeError\<close>, which the \<^verbatim>\<open>except\<close> catches as well.\<close>

definition call_scorer ::
  "('a list option \<Rightarrow> 'a ndarray \<Rightarrow> py_exc + 'a) option \<Rightarrow> 'a list option \<Rightarrow> 'a ndarray option
     \<Rightarrow> 'a option" where
  "call_scorer scorer z p =
     (case scorer of
        None \<Rightarrow> None
      | Some f \<Rightarrow>
          (case p of
             None \<Rightarrow> None
           | Some pv \<Rightarrow> (case f z pv of Inl e \<Rightarrow> None | Inr s \<Rightarrow> Some s)))"

text \<open>
  The prediction block of \<^verbatim>\<open>fit_est\<close> (lines 504 to 534), for the fitted estimator \<open>est\<close>
  and the transformer list: with a test index the task slices, transforms, predicts, writes
  the fold into \<open>pred\<close> and scores it, and keeps \<open>(tei, col)\<close> for the cache; without one
  it keeps \<open>(None, col)\<close> and no score. The result is the prediction matrix, the index kept
  and the score.
\<close>

definition fit_est_predict ::
  "'a list list \<Rightarrow> 'a list option \<Rightarrow> 'a list list option \<Rightarrow> idx_spec option \<Rightarrow> int
     \<Rightarrow> 'a estimator option \<Rightarrow> bool \<Rightarrow> string \<Rightarrow> string option \<Rightarrow> string option \<Rightarrow> string
     \<Rightarrow> ('a list option \<Rightarrow> 'a ndarray \<Rightarrow> py_exc + 'a) option \<Rightarrow> (string \<times> 'a transformer) list
     \<Rightarrow> ('a list list option \<times> (idx_spec option \<times> int) \<times> 'a option) res" where
  "fit_est_predict X y pred tei col est raise_on_exception inst_name cse name attr scorer tr_list =
     (if tei \<noteq> None then
        res_bind (res_lift (priv_slice_array X y tei)) (\<lambda>(x2, z2, tei').
        res_bind (res_lift (transform_loop x2 tr_list cse name)) (\<lambda>x3.
        res_bind (priv_predict_est x3 est raise_on_exception inst_name cse name attr) (\<lambda>p.
        res_bind (res_lift (write_fold_pred (length X) pred tei' col p)) (\<lambda>pred'.
        res_return (Some pred', (tei, col), call_scorer scorer z2 p)))))
      else res_return (pred, (None, col), None))"

text \<open>
  \<^verbatim>\<open>fit_est\<close> from the transformer list on: \<open>x\<close> and \<open>z\<close> are the training slice,
  \<open>idx = (tri, tei, col)\<close>. The result is the file system after \<^verbatim>\<open>pickle_save\<close> and the
  prediction matrix, which the task has written in place when \<open>tei\<close> is given.
\<close>

definition fit_est_from ::
  "'a cache \<Rightarrow> string \<Rightarrow> string option \<Rightarrow> string \<Rightarrow> 'a estimator \<Rightarrow> 'a list list \<Rightarrow> 'a list option
     \<Rightarrow> 'a list list option \<Rightarrow> idx_spec option \<times> idx_spec option \<times> int \<Rightarrow> bool \<Rightarrow> string option
     \<Rightarrow> string \<Rightarrow> ('a list option \<Rightarrow> 'a ndarray \<Rightarrow> py_exc + 'a) option
     \<Rightarrow> (string \<times> 'a transformer) list \<Rightarrow> 'a list list \<Rightarrow> 'a list option
     \<Rightarrow> ('a cache \<times> 'a list list option) res" where
  "fit_est_from cache dir cse inst_name inst X y pred idx raise_on_exception name attr scorer
       tr_list x z =
     (let tei = fst (snd idx); col = snd (snd idx) in
      res_bind (res_lift (transform_loop x tr_list cse name)) (\<lambda>x1.
      res_bind (priv_fit_est x1 z inst raise_on_exception inst_name cse name) (\<lambda>est.
      res_bind (fit_est_predict X y pred tei col est raise_on_exception inst_name cse name attr
                  scorer tr_list) (\<lambda>(pred', idx', s).
      res_bind (res_lift (py_format ''%s__%s__e'' [py_str cse, inst_name])) (\<lambda>k.
      res_return (pickle_save (EstPayload inst_name est idx' s) (path_join dir k) cache, pred'))))))"

text \<open>
  \<^verbatim>\<open>fit_est\<close>. \<open>fs k\<close> is the file system after \<open>k\<close> sleeps of this task; the task
  continues in the file system in which \<^verbatim>\<open>_load_trans\<close> returned. A payload under the
  transformer key that is not a list of steps cannot be unpacked by
  \<^verbatim>\<open>for tr_name, tr in tr_list\<close> (\<^verbatim>\<open>ValueError\<close>).
\<close>

definition fit_est ::
  "(nat \<Rightarrow> 'a cache) \<Rightarrow> string \<Rightarrow> string option \<Rightarrow> string \<Rightarrow> 'a estimator \<Rightarrow> 'a list list
     \<Rightarrow> 'a list option \<Rightarrow> 'a list list option \<Rightarrow> idx_spec option \<times> idx_spec option \<times> int \<Rightarrow> bool
     \<Rightarrow> bool \<Rightarrow> string option \<Rightarrow> int \<times> int \<Rightarrow> string
     \<Rightarrow> ('a list option \<Rightarrow> 'a ndarray \<Rightarrow> py_exc + 'a) option
     \<Rightarrow> ('a cache \<times> 'a list list option) res option" where
  "fit_est fs dir cse inst_name inst X y pred idx raise_on_exception preprocess name ivals attr
       scorer =
     (case priv_slice_array X y (fst idx) of
        Inl e \<Rightarrow> Some (Inl e, [])
      | Inr (x, z, _) \<Rightarrow>
          if preprocess then
            (case py_format ''%s__t'' [py_str cse] of
               Inl e \<Rightarrow> Some (Inl e, [])
             | Inr k \<Rightarrow>
                 (case priv_load_trans fs (path_join dir k) cse ivals raise_on_exception of
                    None \<Rightarrow> None
                  | Some (Inl e, ws) \<Rightarrow> Some (Inl e, ws)
                  | Some (Inr (TransPayload tr_list, n), ws) \<Rightarrow>
                      Some (res_bind (Inr (), ws) (\<lambda>_.
                        fit_est_from (fs n) dir cse inst_name inst X y pred idx raise_on_exception
                          name attr scorer tr_list x z))
                  | Some (Inr (EstPayload a b c d, n), ws) \<Rightarrow>
                      Some (Inl (PyExc ValueError ''not enough values to unpack''), ws)))
          else
            Some (fit_est_from (fs 0) dir cse inst_name inst X y pred idx raise_on_exception
                    name attr scorer [] x z))"

section \<open>Assembling fitted instances from the cache\<close>

text \<open>
  An entry of the task lists \<^verbatim>\<open>self.t\<close> and \<^verbatim>\<open>self.e\<close>:
  \<open>(case, tri, tei, instance_list)\<close>. An entry of \<^verbatim>\<open>layer.estimators_\<close>:
  \<open>(case, (inst_name, est, (tei, col)))\<close>, the pickled tuple without its last component.
\<close>

type_synonym 'a tr_entry =
  "string option \<times> idx_spec option \<times> idx_spec option \<times> (string \<times> 'a transformer) list"

type_synonym 'a est_entry =
  "string option \<times> idx_spec option \<times> idx_spec option \<times> (string \<times> 'a estimator) list"

type_synonym 'a fitted_est =
  "string option \<times> (string \<times> 'a estimator option \<times> (idx_spec option \<times> int))"

text \<open>
  \<^verbatim>\<open>_assemble(dir, instance_list, 't')\<close>: \<^verbatim>\<open>None\<close> for no list, else one
  \<open>(case, pickle_load(...))\<close> per entry. The model keeps the loaded list of steps; a
  payload of the other kind under the key is refused here with \<^verbatim>\<open>TypeError\<close>, where
  Python would carry the ill-shaped value on.
\<close>

fun assemble_t_loop ::
  "'a cache \<Rightarrow> string \<Rightarrow> 'a tr_entry list
     \<Rightarrow> py_exc + (string option \<times> (string \<times> 'a transformer) list) list" where
  "assemble_t_loop cache dir [] = Inr []"
| "assemble_t_loop cache dir (tup # rest) =
     exc_bind (py_format ''%s__%s'' [py_str (fst tup), ''t'']) (\<lambda>k.
     exc_bind (pickle_load cache (path_join dir k)) (\<lambda>obj.
       (case obj of
          TransPayload steps \<Rightarrow>
            exc_bind (assemble_t_loop cache dir rest) (\<lambda>r. Inr ((fst tup, steps) # r))
        | EstPayload a b c d \<Rightarrow> Inl (PyExc TypeError ''not a list of transformer steps''))))"

definition priv_assemble_t ::
  "'a cache \<Rightarrow> string \<Rightarrow> 'a tr_entry list option
     \<Rightarrow> py_exc + (string option \<times> (string \<times> 'a transformer) list) list option" where
  "priv_assemble_t cache dir instance_list =
     (case instance_list of
        None \<Rightarrow> Inr None
      | Some l \<Rightarrow> exc_bind (assemble_t_loop cache dir l) (\<lambda>r. Inr (Some r)))"

text \<open>
  \<^verbatim>\<open>_assemble(dir, instance_list, 'e')\<close>: the two nested loops, appending to \<^verbatim>\<open>ests_\<close>
  and \<^verbatim>\<open>scores_\<close>. Every key of the task list is loaded; nothing looks at the estimator
  that was pickled.
\<close>

fun assemble_e_inner ::
  "'a cache \<Rightarrow> string \<Rightarrow> string option \<Rightarrow> (string \<times> 'a estimator) list
     \<Rightarrow> 'a fitted_est list \<times> (string \<times> 'a option) list
     \<Rightarrow> py_exc + ('a fitted_est list \<times> (string \<times> 'a option) list)" where
  "assemble_e_inner cache dir tup0 [] acc = Inr acc"
| "assemble_e_inner cache dir tup0 (etup # rest) acc =
     exc_bind (py_format ''%s__%s__%s'' [py_str tup0, fst etup, ''e'']) (\<lambda>k.
     exc_bind (pickle_load cache (path_join dir k)) (\<lambda>loaded.
       (case loaded of
          TransPayload steps \<Rightarrow> Inl (PyExc TypeError ''not an estimator tuple'')
        | EstPayload inst_name est idx s \<Rightarrow>
            exc_bind (if tup0 \<noteq> None then py_format ''%s___'' [py_str tup0] else Inr ''___'')
              (\<lambda>cse.
            assemble_e_inner cache dir tup0 rest
              (fst acc @ [(tup0, (inst_name, est, idx))], snd acc @ [(cse @ fst etup, s)])))))"

fun assemble_e_loop ::
  "'a cache \<Rightarrow> string \<Rightarrow> 'a est_entry list
     \<Rightarrow> 'a fitted_est list \<times> (string \<times> 'a option) list
     \<Rightarrow> py_exc + ('a fitted_est list \<times> (string \<times> 'a option) list)" where
  "assemble_e_loop cache dir [] acc = Inr acc"
| "assemble_e_loop cache dir (tup # rest) acc =
     exc_bind (assemble_e_inner cache dir (fst tup) (snd (snd (snd tup))) acc) (\<lambda>acc'.
     assemble_e_loop cache dir rest acc')"

definition priv_assemble_e ::
  "'a cache \<Rightarrow> string \<Rightarrow> 'a est_entry list
     \<Rightarrow> py_exc + ('a fitted_est list \<times> (string \<times> 'a option) list)" where
  "priv_assemble_e cache dir instance_list = assemble_e_loop cache dir instance_list ([], [])"

section \<open>Score aggregation\<close>

text \<open>
  \<^verbatim>\<open>s.split(sep)\<close> for a non-empty separator, \<^verbatim>\<open>sep.join(parts)\<close> and \<^verbatim>\<open>sub in s\<close>.
  \<open>split_from\<close> carries the characters of the current part, last first.
\<close>

fun split_from :: "string \<Rightarrow> string \<Rightarrow> string \<Rightarrow> string list" where
  "split_from sep cur [] = [rev cur]"
| "split_from sep cur (c # cs) =
     (if take (length sep) (c # cs) = sep
      then rev cur # split_from sep [] (drop (length sep - 1) cs)
      else split_from sep (c # cur) cs)"

definition py_split :: "string \<Rightarrow> string \<Rightarrow> string list" where
  "py_split s sep = split_from sep [] s"

fun py_join :: "string \<Rightarrow> string list \<Rightarrow> string" where
  "py_join sep [] = []"
| "py_join sep [p] = p"
| "py_join sep (p # ps) = p @ sep @ py_join sep ps"

fun py_contains :: "string \<Rightarrow> string \<Rightarrow> bool" where
  "py_contains sub [] = (sub = [])"
| "py_contains sub (c # cs) = (take (length sub) (c # cs) = sub \<or> py_contains sub cs)"

text \<open>\<^verbatim>\<open>case_name, est_name = k.split('___')\<close>: unpacking needs exactly two parts.\<close>

definition split_key :: "string \<Rightarrow> py_exc + (string \<times> string)" where
  "split_key k =
     (case py_split k ''___'' of
        [a, b] \<Rightarrow> Inr (a, b)
      | _ \<Rightarrow> Inl (PyExc ValueError ''wrong number of values to unpack''))"

text \<open>\<^verbatim>\<open>np.mean\<close> and \<^verbatim>\<open>np.std\<close> on numbers are parameters of the model: floating point
  arithmetic is not modelled.\<close>

record 'a numpy =
  np_mean :: "'a list \<Rightarrow> 'a"
  np_std :: "'a list \<Rightarrow> 'a"

text \<open>
  \<^verbatim>\<open>_mean_score(v, raise_, k, layer_name)\<close>. \<^verbatim>\<open>np.mean\<close> of a list that holds \<^verbatim>\<open>None\<close> raises
  \<^verbatim>\<open>TypeError\<close> (it adds, or divides, \<^verbatim>\<open>None\<close>). After the warning the function falls off its
  end and returns \<^verbatim>\<open>None\<close>.
\<close>

definition priv_mean_score ::
  "'a numpy \<Rightarrow> 'a option list \<Rightarrow> bool \<Rightarrow> string \<Rightarrow> string option \<Rightarrow> ('a \<times> 'a) option res" where
  "priv_mean_score np v raise k layer_name =
     (if None \<in> set v then
        res_bind (res_lift (priv_name layer_name None)) (\<lambda>s.
        res_bind (res_lift (py_format ''%sCould not score instance %s. Details\<newline>%r''
           [s, k, repr_exc (PyExc TypeError ''unsupported operand type(s)'')])) (\<lambda>msg.
        if raise then res_raise (PyExc ParallelProcessingError msg)
        else res_bind (res_warn (PyWarning ParallelProcessingWarning msg)) (\<lambda>_. res_return None)))
      else res_return (Some (np_mean np (map the v), np_std np (map the v))))"

text \<open>A \<^verbatim>\<open>dict\<close> keeps its keys in insertion order: \<^verbatim>\<open>d[k] = v\<close> replaces the value of a
  key in place, or appends the key.\<close>

fun dict_set :: "('k \<times> 'v) list \<Rightarrow> 'k \<Rightarrow> 'v \<Rightarrow> ('k \<times> 'v) list" where
  "dict_set [] k v = [(k, v)]"
| "dict_set ((k', v') # d) k v = (if k' = k then (k, v) # d else (k', v') # dict_set d k v)"

text \<open>The first loop of \<^verbatim>\<open>_build_scores\<close>, over \<^verbatim>\<open>s[:n_pred]\<close>.\<close>

fun scores_shell ::
  "(string \<times> 'a option) list \<Rightarrow> (string \<times> 'a option list) list
     \<Rightarrow> py_exc + (string \<times> 'a option list) list" where
  "scores_shell [] scores = Inr scores"
| "scores_shell ((k, v) # rest) scores =
     exc_bind (split_key k) (\<lambda>(case_name, est_name).
     exc_bind (if case_name = '''' then Inr est_name
               else py_format ''%s__%s'' [case_name, est_name]) (\<lambda>name.
     scores_shell rest (dict_set scores name [])))"

text \<open>The second loop, over \<^verbatim>\<open>s[n_pred:]\<close>; \<^verbatim>\<open>scores[name].append(v)\<close> raises \<^verbatim>\<open>KeyError\<close>
  for a name the first loop has not put in.\<close>

fun scores_populate ::
  "(string \<times> 'a option) list \<Rightarrow> (string \<times> 'a option list) list
     \<Rightarrow> py_exc + (string \<times> 'a option list) list" where
  "scores_populate [] scores = Inr scores"
| "scores_populate ((k, v) # rest) scores =
     exc_bind (split_key k) (\<lambda>(case_name, est_name0).
     let est_name = py_join ''__'' (butlast (py_split est_name0 ''__'')) in
     exc_bind (if \<not> py_contains ''__'' case_name then Inr est_name
               else py_format ''%s__%s'' [hd (py_split case_name ''__''), est_name]) (\<lambda>name.
     (case map_of scores name of
        None \<Rightarrow> Inl (PyExc KeyError name)
      | Some l \<Rightarrow> scores_populate rest (dict_set scores name (l @ [v])))))"

text \<open>The third loop: \<^verbatim>\<open>scores[k] = _mean_score(v, self.raise_, k, self.name)\<close> for every
  item, in the order of the keys.\<close>

fun scores_aggregate ::
  "'a numpy \<Rightarrow> bool \<Rightarrow> string option \<Rightarrow> (string \<times> 'a option list) list
     \<Rightarrow> (string \<times> ('a \<times> 'a) option) list res" where
  "scores_aggregate np raise name [] = res_return []"
| "scores_aggregate np raise name ((k, v) # rest) =
     res_bind (priv_mean_score np v raise k name) (\<lambda>m.
     res_bind (scores_aggregate np raise name rest) (\<lambda>r.
     res_return ((k, m) # r)))"

text \<open>\<^verbatim>\<open>BaseEstimator._build_scores(s)\<close>, given \<^verbatim>\<open>self.layer.n_pred\<close>, \<^verbatim>\<open>self.raise_\<close> and
  \<^verbatim>\<open>self.name\<close>.\<close>

definition BaseEstimator_build_scores ::
  "'a numpy \<Rightarrow> nat \<Rightarrow> bool \<Rightarrow> string option \<Rightarrow> (string \<times> 'a option) list
     \<Rightarrow> (string \<times> ('a \<times> 'a) option) list res" where
  "BaseEstimator_build_scores np n_pred raise name s =
     res_bind (res_lift (scores_shell (take n_pred s) [])) (\<lambda>shell.
     res_bind (res_lift (scores_populate (drop n_pred s) shell)) (\<lambda>scores.
     scores_aggregate np raise name scores))"

section \<open>The execution engine\<close>

text \<open>
  What \<^verbatim>\<open>layer.estimators_\<close> can hold for \<^verbatim>\<open>_check_fitted\<close>: a list, tuple or set
  (\<open>PySeq\<close>), a \<^verbatim>\<open>dict\<close> whose values have a length (\<open>PyDict\<close>), or anything else
  (\<open>PyOther\<close>).
\<close>

datatype 'e py_coll = PySeq "'e list" | PyDict "(string \<times> 'e list) list" | PyOther

text \<open>
  The layer, as far as the engine reads and writes it. An attribute the layer does not have
  yet is \<open>None\<close> of the outer option; \<open>layer_preprocessing = Some None\<close> is
  \<^verbatim>\<open>preprocessing_ = None\<close>. \<^verbatim>\<open>ival\<close> and \<^verbatim>\<open>lim\<close> are in whole seconds (the defaults of
  \<^verbatim>\<open>getattr\<close> are for a layer without them). \<^verbatim>\<open>verbose\<close> only selects what is printed and
  is left out. \<^verbatim>\<open>cls\<close> is a string object: \<open>layer_cls\<close> is its text, and
  \<open>layer_cls_interned\<close> says whether the object is the interned one, which is the object a
  literal of the same text denotes (a string built at run time is another object with the
  same text).
\<close>

record 'a layer =
  layer_raise_on_exception :: bool
  layer_name :: "string option"
  layer_proba :: bool
  layer_scorer :: "('a list option \<Rightarrow> 'a ndarray \<Rightarrow> py_exc + 'a) option"
  layer_ival :: int
  layer_lim :: int
  layer_n_pred :: nat
  layer_n_prep :: nat
  layer_cls :: string
  layer_cls_interned :: bool
  layer_estimators :: "'a fitted_est py_coll option"
  layer_preprocessing :: "(string option \<times> (string \<times> 'a transformer) list) list option option"
  layer_scores :: "(string \<times> ('a \<times> 'a) option) list option"

text \<open>The slots of \<^verbatim>\<open>BaseEstimator\<close>. \<^verbatim>\<open>__init__\<close> copies the layer's parameters;
  \<^verbatim>\<open>_format_instance_list\<close> and \<^verbatim>\<open>_get_col_id\<close> are abstract, so their results \<open>e\<close>, \<open>t\<close>
  and \<open>c\<close> are given.\<close>

record 'a base_estimator =
  be_layer :: "'a layer"
  be_raise :: bool
  be_name :: "string option"
  be_proba :: bool
  be_scorer :: "('a list option \<Rightarrow> 'a ndarray \<Rightarrow> py_exc + 'a) option"
  be_ivals :: "int \<times> int"
  be_e :: "'a est_entry list"
  be_t :: "'a tr_entry list option"
  be_c :: "(string option \<times> string) \<rightharpoonup> int"
  be_dual :: bool

definition BaseEstimator_init ::
  "'a layer \<Rightarrow> 'a est_entry list \<Rightarrow> 'a tr_entry list option
     \<Rightarrow> ((string option \<times> string) \<rightharpoonup> int) \<Rightarrow> bool \<Rightarrow> 'a base_estimator" where
  "BaseEstimator_init layer e t c dual =
     \<lparr> be_layer = layer,
       be_raise = layer_raise_on_exception layer,
       be_name = layer_name layer,
       be_proba = layer_proba layer,
       be_scorer = layer_scorer layer,
       be_ivals = (layer_ival layer, layer_lim layer),
       be_e = e, be_t = t, be_c = c, be_dual = dual \<rparr>"

text \<open>\<^verbatim>\<open>BaseEstimator._assemble(dir)\<close>: the layer with the loaded lists, and the score table
  when there is a scorer and \<^verbatim>\<open>self.layer.cls is not 'full'\<close>. The test compares objects:
  \<^verbatim>\<open>cls\<close> is the object of the literal when its text is \<^verbatim>\<open>full\<close> and it is interned.\<close>

definition BaseEstimator_assemble ::
  "'a numpy \<Rightarrow> 'a base_estimator \<Rightarrow> 'a cache \<Rightarrow> string \<Rightarrow> 'a layer res" where
  "BaseEstimator_assemble np self cache dir =
     res_bind (res_lift (priv_assemble_t cache dir (be_t self))) (\<lambda>prep.
     res_bind (res_lift (priv_assemble_e cache dir (be_e self))) (\<lambda>(ests, s).
     let layer1 = (be_layer self)\<lparr> layer_preprocessing := Some prep,
                                   layer_estimators := Some (PySeq ests) \<rparr> in
     if be_scorer self \<noteq> None
          \<and> \<not> (layer_cls layer1 = ''full'' \<and> layer_cls_interned layer1) then
       res_bind (BaseEstimator_build_scores np (layer_n_pred layer1) (be_raise self)
                   (be_name self) s) (\<lambda>tbl.
       res_return (layer1\<lparr> layer_scores := Some tbl \<rparr>))
     else res_return layer1))"

text \<open>The dispatcher \<^verbatim>\<open>parallel(delayed(f)(...) for ...)\<close> is modelled as running the tasks
  one after the other in the order of the generator; the first exception ends the call.
  \<open>ores_bind\<close> sequences tasks that may also not return.\<close>

definition ores_bind :: "'a res option \<Rightarrow> ('a \<Rightarrow> 'b res option) \<Rightarrow> 'b res option" where
  "ores_bind m f =
     (case m of
        None \<Rightarrow> None
      | Some (Inl e, ws) \<Rightarrow> Some (Inl e, ws)
      | Some (Inr v, ws) \<Rightarrow> (case f v of None \<Rightarrow> None | Some (r, ws') \<Rightarrow> Some (r, ws @ ws')))"

text \<open>The first wave of the dual mode: one \<^verbatim>\<open>fit_trans\<close> per entry of \<^verbatim>\<open>self.t\<close>.\<close>

fun fit_trans_tasks ::
  "string \<Rightarrow> 'a list list \<Rightarrow> 'a list option \<Rightarrow> string option \<Rightarrow> 'a tr_entry list \<Rightarrow> 'a cache
     \<Rightarrow> py_exc + 'a cache" where
  "fit_trans_tasks dir X y name [] cache = Inr cache"
| "fit_trans_tasks dir X y name ((cse, tri, tei, instance_list) # rest) cache =
     exc_bind (fit_trans dir cse instance_list X y tri name cache) (\<lambda>cache'.
     fit_trans_tasks dir X y name rest cache')"

text \<open>The second wave: one \<^verbatim>\<open>fit_est\<close> per instance of every entry of \<^verbatim>\<open>self.e\<close>, with
  \<^verbatim>\<open>pred=P if tei is not None else None\<close> and the column \<^verbatim>\<open>self.c[case, inst_name]\<close>
  (\<^verbatim>\<open>KeyError\<close> when the map has none). The state is the file system and \<open>P\<close>; while a task
  waits, no other task runs, so its file system stays as it is.\<close>

fun fit_est_insts ::
  "'a base_estimator \<Rightarrow> string \<Rightarrow> 'a list list \<Rightarrow> 'a list option \<Rightarrow> string option \<Rightarrow> idx_spec option
     \<Rightarrow> idx_spec option \<Rightarrow> (string \<times> 'a estimator) list \<Rightarrow> 'a cache \<times> 'a list list
     \<Rightarrow> ('a cache \<times> 'a list list) res option" where
  "fit_est_insts self dir X y cse tri tei [] st = Some (res_return st)"
| "fit_est_insts self dir X y cse tri tei ((inst_name, inst) # rest) st =
     (case be_c self (cse, inst_name) of
        None \<Rightarrow> Some (res_raise (PyExc KeyError inst_name))
      | Some col \<Rightarrow>
          ores_bind
            (fit_est (\<lambda>k. fst st) dir cse inst_name inst X y
               (if tei \<noteq> None then Some (snd st) else None) (tri, tei, col) (be_raise self)
               (be_t self \<noteq> None) (be_name self) (be_ivals self)
               (if \<not> be_proba self then ''predict'' else ''predict_proba'') (be_scorer self))
            (\<lambda>(cache', pred').
               fit_est_insts self dir X y cse tri tei rest
                 (cache', case pred' of None \<Rightarrow> snd st | Some P' \<Rightarrow> P')))"

fun fit_est_tasks ::
  "'a base_estimator \<Rightarrow> string \<Rightarrow> 'a list list \<Rightarrow> 'a list option \<Rightarrow> 'a est_entry list
     \<Rightarrow> 'a cache \<times> 'a list list \<Rightarrow> ('a cache \<times> 'a list list) res option" where
  "fit_est_tasks self dir X y [] st = Some (res_return st)"
| "fit_est_tasks self dir X y ((cse, tri, tei, instance_list) # rest) st =
     ores_bind (fit_est_insts self dir X y cse tri tei instance_list st) (\<lambda>st'.
     fit_est_tasks self dir X y rest st')"

text \<open>
  The combined mode. \<^verbatim>\<open>_wrap\<close> turns every transformer entry into an entry with the one
  pseudo instance \<^verbatim>\<open>'__trans__'\<close>. \<^verbatim>\<open>_fit(**kwargs)\<close> selects \<^verbatim>\<open>fit_trans\<close> for that name and
  \<^verbatim>\<open>fit_est\<close> otherwise, and passes the keyword arguments the selected function names. The
  keyword arguments \<^verbatim>\<open>fit\<close> gives have no \<^verbatim>\<open>attr\<close>, which \<^verbatim>\<open>fit_est\<close> requires: the call of
  \<^verbatim>\<open>fit_est\<close> raises \<^verbatim>\<open>TypeError\<close>.
\<close>

datatype 'a py_instance = TrInst "(string \<times> 'a transformer) list" | EstInst "'a estimator"

definition priv_wrap ::
  "'a tr_entry list
     \<Rightarrow> (string option \<times> idx_spec option \<times> idx_spec option \<times> (string \<times> 'a py_instance) list) list" where
  "priv_wrap folded_list =
     map (\<lambda>(cse, tri, tei, instance_list). (cse, tri, None, [(''__trans__'', TrInst instance_list)]))
       folded_list"

definition priv_fit ::
  "string \<Rightarrow> string option \<Rightarrow> string \<Rightarrow> 'a py_instance \<Rightarrow> 'a list list \<Rightarrow> 'a list option
     \<Rightarrow> idx_spec option \<Rightarrow> string option \<Rightarrow> 'a cache \<Rightarrow> py_exc + 'a cache" where
  "priv_fit dir cse inst_name inst X y idx name cache =
     (if inst_name = ''__trans__'' then
        (case inst of
           TrInst steps \<Rightarrow> fit_trans dir cse steps X y idx name cache
         | EstInst est \<Rightarrow> Inl (PyExc TypeError ''object is not iterable''))
      else Inl (PyExc TypeError ''fit_est() missing 1 required positional argument: attr''))"

fun fit_tasks_insts ::
  "'a base_estimator \<Rightarrow> string \<Rightarrow> 'a list list \<Rightarrow> 'a list option \<Rightarrow> string option \<Rightarrow> idx_spec option
     \<Rightarrow> (string \<times> 'a py_instance) list \<Rightarrow> 'a cache \<Rightarrow> py_exc + 'a cache" where
  "fit_tasks_insts self dir X y cse tri [] cache = Inr cache"
| "fit_tasks_insts self dir X y cse tri ((inst_name, inst) # rest) cache =
     exc_bind (if inst_name \<noteq> ''__trans__''
               then (case be_c self (cse, inst_name) of
                       None \<Rightarrow> Inl (PyExc KeyError inst_name) | Some col \<Rightarrow> Inr ())
               else Inr ()) (\<lambda>_.
     exc_bind (priv_fit dir cse inst_name inst X y tri (layer_name (be_layer self)) cache)
       (\<lambda>cache'.
     fit_tasks_insts self dir X y cse tri rest cache'))"

fun fit_tasks ::
  "'a base_estimator \<Rightarrow> string \<Rightarrow> 'a list list \<Rightarrow> 'a list option
     \<Rightarrow> (string option \<times> idx_spec option \<times> idx_spec option \<times> (string \<times> 'a py_instance) list) list
     \<Rightarrow> 'a cache \<Rightarrow> py_exc + 'a cache" where
  "fit_tasks self dir X y [] cache = Inr cache"
| "fit_tasks self dir X y ((cse, tri, tei, inst_list) # rest) cache =
     exc_bind (fit_tasks_insts self dir X y cse tri inst_list cache) (\<lambda>cache'.
     fit_tasks self dir X y rest cache')"

text \<open>
  \<^verbatim>\<open>BaseEstimator.fit(X, y, P, dir, parallel)\<close>: \<open>y\<close> loses its leading rows when it is longer
  than \<open>X\<close>; the tasks run; the layer is assembled from the cache. The result is the layer,
  the prediction matrix and the file system.
\<close>

definition BaseEstimator_fit ::
  "'a numpy \<Rightarrow> 'a base_estimator \<Rightarrow> 'a list list \<Rightarrow> 'a list \<Rightarrow> 'a list list \<Rightarrow> string \<Rightarrow> 'a cache
     \<Rightarrow> ('a layer \<times> 'a list list \<times> 'a cache) res option" where
  "BaseEstimator_fit np self X y P dir cache =
     (let preprocess = (be_t self \<noteq> None);
          y1 = (if length y > length X then drop (length y - length X) y else y) in
      ores_bind
        (if be_dual self then
           ores_bind
             (if preprocess
              then Some (res_lift (fit_trans_tasks dir X (Some y1) (be_name self)
                                     (the (be_t self)) cache))
              else Some (res_return cache)) (\<lambda>cache1.
           fit_est_tasks self dir X (Some y1) (be_e self) (cache1, P))
         else
           (case be_t self of
              None \<Rightarrow> Some (res_raise (PyExc TypeError ''NoneType object is not iterable''))
            | Some t \<Rightarrow>
                Some (res_bind
                  (res_lift (fit_tasks self dir X (Some y1)
                     (priv_wrap t @ map (\<lambda>(cse, tri, tei, l). (cse, tri, tei, map (\<lambda>(n, e). (n, EstInst e)) l))
                                      (be_e self)) cache))
                  (\<lambda>cache'. res_return (cache', P)))))
        (\<lambda>(cache2, P2).
           Some (res_bind (BaseEstimator_assemble np self cache2 dir) (\<lambda>layer'.
                 res_return (layer', P2, cache2)))))"

text \<open>
  \<^verbatim>\<open>BaseEstimator._check_fitted()\<close>.
  Modelled from the spec: \<^verbatim>\<open>check_is_fitted\<close> of \<^verbatim>\<open>mlens.utils\<close> is not among the sources;
  the spec's \<^verbatim>\<open>NotFitted\<close> is "predict/transform invoked before any successful fit", so
  it raises \<^verbatim>\<open>NotFittedError\<close> for a layer that has no \<^verbatim>\<open>estimators_\<close> attribute.
\<close>

definition check_is_fitted :: "'a layer \<Rightarrow> py_exc + unit" where
  "check_is_fitted layer =
     (if layer_estimators layer = None
      then Inl (PyExc NotFittedError ''This instance is not fitted yet'')
      else Inr ())"

definition BaseEstimator_check_fitted :: "'a base_estimator \<Rightarrow> py_exc + unit" where
  "BaseEstimator_check_fitted self =
     exc_bind (check_is_fitted (be_layer self)) (\<lambda>_.
     (case the (layer_estimators (be_layer self)) of
        PyOther \<Rightarrow> Inr ()
      | coll \<Rightarrow>
          let empty = (case coll of
                         PySeq l \<Rightarrow> length l = 0
                       | PyDict d \<Rightarrow> list_ex (\<lambda>b. b) (map (\<lambda>e. length e = 0) (map snd d))
                       | PyOther \<Rightarrow> False) in
          if empty
          then Inl (PyExc NotFittedError ''Cannot predict as no estimators weresuccessfully fitted.'')
          else Inr ()))"

text \<open>
  \<^verbatim>\<open>BaseEstimator._retrieve(s)\<close>. Slicing works on a list; a \<^verbatim>\<open>dict\<close> or another object
  under \<^verbatim>\<open>estimators_\<close> raises \<^verbatim>\<open>TypeError\<close>. \<^verbatim>\<open>dict(pairs)\<close> keeps the last value of a key.
\<close>

definition BaseEstimator_retrieve ::
  "'a base_estimator \<Rightarrow> string
     \<Rightarrow> py_exc + ((string option \<rightharpoonup> (string \<times> 'a transformer) list) option \<times> 'a fitted_est list)" where
  "BaseEstimator_retrieve self s =
     (let n_pred = layer_n_pred (be_layer self);
          n_prep = max (layer_n_prep (be_layer self)) 1 in
      if s = ''full'' \<or> s = ''fold'' then
        (case layer_estimators (be_layer self) of
           Some (PySeq l) \<Rightarrow>
             (case layer_preprocessing (be_layer self) of
                None \<Rightarrow> Inl (PyExc AttributeError ''layer has no attribute preprocessing_'')
              | Some None \<Rightarrow>
                  Inr (None, if s = ''full'' then take n_pred l else drop n_pred l)
              | Some (Some pp) \<Rightarrow>
                  Inr (Some (map_of (rev (if s = ''full'' then take n_prep pp else drop n_prep pp))),
                       if s = ''full'' then take n_pred l else drop n_pred l))
         | Some other \<Rightarrow> Inl (PyExc TypeError ''unhashable type: slice'')
         | None \<Rightarrow> Inl (PyExc AttributeError ''layer has no attribute estimators_''))
      else Inl (PyExc ValueError ''Argument not understood. Only full and fold are acceptable argument values.''))"

text \<open>The tasks of \<^verbatim>\<open>predict\<close>: \<^verbatim>\<open>tr_list=prep[case] if prep is not None else []\<close>, with
  \<^verbatim>\<open>KeyError\<close> for a case \<open>prep\<close> does not have.\<close>

definition prep_for ::
  "(string option \<rightharpoonup> (string \<times> 'a transformer) list) option \<Rightarrow> string option
     \<Rightarrow> py_exc + (string \<times> 'a transformer) list" where
  "prep_for prep cse =
     (case prep of
        None \<Rightarrow> Inr []
      | Some d \<Rightarrow> (case d cse of None \<Rightarrow> Inl (PyExc KeyError (py_str cse)) | Some l \<Rightarrow> Inr l))"

fun predict_tasks ::
  "'a base_estimator \<Rightarrow> (string option \<rightharpoonup> (string \<times> 'a transformer) list) option \<Rightarrow> string
     \<Rightarrow> 'a list list \<Rightarrow> 'a fitted_est list \<Rightarrow> 'a list list \<Rightarrow> 'a list list res" where
  "predict_tasks self prep attr X [] P = res_return P"
| "predict_tasks self prep attr X ((cse, (inst_name, est, (u, col))) # rest) P =
     res_bind (res_lift (prep_for prep cse)) (\<lambda>tr_list.
     res_bind (predict_est cse tr_list inst_name est X P col (be_name self) attr) (\<lambda>P'.
     predict_tasks self prep attr X rest P'))"

text \<open>\<^verbatim>\<open>BaseEstimator.predict(X, P, parallel)\<close>.\<close>

definition BaseEstimator_predict ::
  "'a base_estimator \<Rightarrow> 'a list list \<Rightarrow> 'a list list \<Rightarrow> 'a list list res" where
  "BaseEstimator_predict self X P =
     res_bind (res_lift (BaseEstimator_check_fitted self)) (\<lambda>_.
     res_bind (res_lift (BaseEstimator_retrieve self ''full'')) (\<lambda>(prep, ests).
     predict_tasks self prep (if \<not> be_proba self then ''predict'' else ''predict_proba'') X ests P))"

fun transform_tasks ::
  "'a base_estimator \<Rightarrow> (string option \<rightharpoonup> (string \<times> 'a transformer) list) option \<Rightarrow> string
     \<Rightarrow> 'a list list \<Rightarrow> 'a fitted_est list \<Rightarrow> 'a list list \<Rightarrow> 'a list list res" where
  "transform_tasks self prep attr X [] P = res_return P"
| "transform_tasks self prep attr X ((cse, (est_name, est, idx)) # rest) P =
     res_bind (res_lift (prep_for prep cse)) (\<lambda>tr_list.
     res_bind (predict_fold_est cse tr_list est_name est X P idx (be_name self) attr) (\<lambda>P'.
     transform_tasks self prep attr X rest P'))"

text \<open>\<^verbatim>\<open>BaseEstimator.transform(X, P, parallel)\<close>.\<close>

definition BaseEstimator_transform ::
  "'a base_estimator \<Rightarrow> 'a list list \<Rightarrow> 'a list list \<Rightarrow> 'a list list res" where
  "BaseEstimator_transform self X P =
     res_bind (res_lift (BaseEstimator_check_fitted self)) (\<lambda>_.
     res_bind (res_lift (BaseEstimator_retrieve self ''fold'')) (\<lambda>(prep, ests).
     transform_tasks self prep (if \<not> be_proba self then ''predict'' else ''predict_proba'') X ests P))"

section \<open>Instances and a layer for concrete runs\<close>

text \<open>An estimator whose \<^verbatim>\<open>fit\<close> raises; an estimator whose \<^verbatim>\<open>fit\<close> returns a fitted
  estimator whose \<^verbatim>\<open>predict\<close> raises; a layer with the non-raising policy and no scorer; and
  stand-ins for \<^verbatim>\<open>np.mean\<close> and \<^verbatim>\<open>np.std\<close>.\<close>

definition failing_estimator :: "int estimator" where
  "failing_estimator =
     Estimator (\<lambda>x y. Inl (PyExc ValueError ''cannot fit''))
               (\<lambda>a x. Inl (PyExc ValueError ''cannot predict''))"

definition failing_predictor :: "int estimator" where
  "failing_predictor =
     Estimator
       (\<lambda>x y. Inr (Estimator (\<lambda>x y. Inl (PyExc ValueError ''refit''))
                               (\<lambda>a x. Inl (PyExc ValueError ''cannot predict''))))
       (\<lambda>a x. Inl (PyExc ValueError ''cannot predict''))"

definition example_layer :: "int layer" where
  "example_layer =
     \<lparr> layer_raise_on_exception = False, layer_name = Some ''layer-1'', layer_proba = False,
       layer_scorer = None, layer_ival = 1, layer_lim = 600, layer_n_pred = 1, layer_n_prep = 0,
       layer_cls = ''stack'', layer_cls_interned = True, layer_estimators = None, layer_preprocessing = None,
       layer_scores = None \<rparr>"

definition example_numpy :: "int numpy" where
  "example_numpy = \<lparr> np_mean = (\<lambda>v. 0), np_std = (\<lambda>v. 0) \<rparr>"

text \<open>A transformer whose \<^verbatim>\<open>fit\<close> returns a fitted transformer that leaves the data as it
  is, and an estimator whose \<^verbatim>\<open>fit\<close> returns a fitted estimator that predicts 7 for every
  row.\<close>

definition fitted_identity :: "int transformer" where
  "fitted_identity =
     Transformer ''Identity'' (\<lambda>x y. Inl (PyExc ValueError ''refit'')) (\<lambda>x. Inr x)"


definition fitted_constant :: "int estimator" where
  "fitted_constant =
     Estimator (\<lambda>x y. Inl (PyExc ValueError ''refit'')) (\<lambda>a x. Inr (Arr1 (map (\<lambda>r. 7) x)))"


text \<open>A fitted estimator whose \<^verbatim>\<open>predict\<close> raises, and an engine over a fitted layer with
  the non-raising policy: two estimators fitted on all data and on one fold each, behind a
  preprocessing case fitted on all data and on the fold.\<close>

definition broken_predictor :: "int estimator" where
  "broken_predictor =
     Estimator (\<lambda>x y. Inl (PyExc ValueError ''refit'')) (\<lambda>a x. Inl (PyExc ValueError ''cannot predict''))"

definition fitted_layer :: "int layer" where
  "fitted_layer =
     example_layer
       \<lparr> layer_n_pred := 2, layer_n_prep := 1,
         layer_estimators := Some (PySeq
           [(Some ''case-1'', (''good'', Some fitted_constant, (None, 0))),
            (Some ''case-1'', (''bad'', Some broken_predictor, (None, 1))),
            (Some ''case-1__0'', (''good'', Some fitted_constant, (Some (Range 0 1), 0))),
            (Some ''case-1__0'', (''bad'', Some broken_predictor, (Some (Range 0 1), 1)))]),
         layer_preprocessing := Some (Some
           [(Some ''case-1'', [(''id'', fitted_identity)]),
            (Some ''case-1__0'', [(''id'', fitted_identity)])]) \<rparr>"

definition fitted_engine :: "int base_estimator" where
  "fitted_engine = BaseEstimator_init fitted_layer [] None Map.empty True"

text \<open>Estimators for runs of the fold writeback: the fitted one predicts the first feature of
  every row; another predicts two columns, the first feature and its successor; the third
  is the unfitted estimator whose \<^verbatim>\<open>fit\<close> returns the first.\<close>

definition fitted_echo :: "int estimator" where
  "fitted_echo =
     Estimator (\<lambda>x y. Inl (PyExc ValueError ''refit'')) (\<lambda>a x. Inr (Arr1 (map hd x)))"

definition fitted_pair :: "int estimator" where
  "fitted_pair =
     Estimator (\<lambda>x y. Inl (PyExc ValueError ''refit''))
               (\<lambda>a x. Inr (Arr2 (map (\<lambda>r. [hd r, hd r + 1]) x)))"

definition echo_estimator :: "int estimator" where
  "echo_estimator =
     Estimator (\<lambda>x y. Inr fitted_echo) (\<lambda>a x. Inl (PyExc ValueError ''not fitted''))"

section \<open>The slice engine\<close>

lemma np_take_in_range:
  "list_all (\<lambda>i. 0 \<le> i \<and> i < int (length x)) ix \<Longrightarrow> np_take x ix = Inr (map (\<lambda>i. x ! nat i) ix)"
  by (induction ix) (simp_all add: np_index_def)

lemma upto_in_range:
  "0 \<le> a \<Longrightarrow> b \<le> int n \<Longrightarrow> list_all (\<lambda>i. 0 \<le> i \<and> i < int n) [a..b - 1]"
  by (simp add: list_all_iff)

lemma ranges_in_range:
  "list_all (\<lambda>(a, b). 0 \<le> a \<and> b \<le> int n) rs
     \<Longrightarrow> list_all (\<lambda>i. 0 \<le> i \<and> i < int n) (concat (map (\<lambda>(t0, t1). np_arange t0 t1) rs))"
  by (induction rs) (auto simp: np_arange_def list_all_iff)

lemma slice_in_range:
  assumes "build_index spec = Inr ix"
    and "list_all (\<lambda>i. 0 \<le> i \<and> i < int (length x)) ix"
    and "case y of None \<Rightarrow> True | Some yv \<Rightarrow> length yv = length x"
  shows "priv_slice_array x y (Some spec)
           = Inr (map (\<lambda>i. x ! nat i) ix, map_option (\<lambda>yv. map (\<lambda>i. yv ! nat i) ix) y, Some ix)"
  using assms by (cases y) (simp_all add: priv_slice_array_def np_take_in_range)

lemma map_nth_upto:
  "0 \<le> a \<Longrightarrow> b \<le> int (length x) \<Longrightarrow>
     map (\<lambda>i. x ! nat i) [a..b - 1] = take (nat (b - a)) (drop (nat a) x)"
proof (induction "nat (b - a)" arbitrary: a)
  case 0
  then show ?case by simp
next
  case (Suc n)
  then have ab: "a < b" and n: "n = nat (b - (a + 1))" by linarith+
  have step: "[a..b - 1] = a # [a + 1..b - 1]" using ab by (simp add: upto_rec1)
  have "map (\<lambda>i. x ! nat i) [a + 1..b - 1] = take n (drop (nat (a + 1)) x)"
    using Suc.hyps(1) [OF n] Suc.prems n by simp
  moreover have "nat (a + 1) = Suc (nat a)" using Suc.prems by simp
  moreover have "nat a < length x" using Suc.prems ab by linarith
  moreover have "nat (b - a) = Suc n" using Suc.hyps(2) by simp
  ultimately show ?case
    by (simp add: step Cons_nth_drop_Suc [symmetric])
qed

text \<open>
  Claim C5. \<^verbatim>\<open>_slice_array\<close> with \<^verbatim>\<open>idx=None\<close> returns \<open>x\<close> (and \<open>y\<close>) unchanged. With one
  range \<open>(a, b)\<close> inside the array it returns exactly the rows \<open>a, ..., b - 1\<close> of \<open>x\<close> in
  order, which is the segment of \<open>b - a\<close> rows starting at row \<open>a\<close>. With a non-empty
  sequence of ranges inside the array it returns the rows of the first range, then those
  of the second, and so on. \<open>y\<close>, when given with as many entries as \<open>x\<close> has rows, is
  sliced at the same indices, and the third component is the index array.
\<close>

theorem slice_array_rows:
  fixes x :: "'a list" and y :: "'b list option"
  shows "priv_slice_array x y None = Inr (x, y, None)
    \<and> ((case y of None \<Rightarrow> True | Some yv \<Rightarrow> length yv = length x) \<and> 0 \<le> a \<and> b \<le> int (length x)
        \<longrightarrow> priv_slice_array x y (Some (Range a b))
              = Inr (map (\<lambda>i. x ! nat i) [a..b - 1],
                     map_option (\<lambda>yv. map (\<lambda>i. yv ! nat i) [a..b - 1]) y, Some [a..b - 1])
          \<and> map (\<lambda>i. x ! nat i) [a..b - 1] = take (nat (b - a)) (drop (nat a) x))
    \<and> ((case y of None \<Rightarrow> True | Some yv \<Rightarrow> length yv = length x) \<and> rs \<noteq> []
          \<and> list_all (\<lambda>(a, b). 0 \<le> a \<and> b \<le> int (length x)) rs
        \<longrightarrow> priv_slice_array x y (Some (Ranges rs))
              = Inr (concat (map (\<lambda>(a, b). map (\<lambda>i. x ! nat i) [a..b - 1]) rs),
                     map_option (\<lambda>yv. concat (map (\<lambda>(a, b). map (\<lambda>i. yv ! nat i) [a..b - 1]) rs)) y,
                     Some (concat (map (\<lambda>(a, b). [a..b - 1]) rs))))"
proof (intro conjI impI)
  show "priv_slice_array x y None = Inr (x, y, None)"
    by (simp add: priv_slice_array_def)
next
  assume h: "(case y of None \<Rightarrow> True | Some yv \<Rightarrow> length yv = length x) \<and> 0 \<le> a \<and> b \<le> int (length x)"
  have bi: "build_index (Range a b) = Inr [a..b - 1]" by (simp add: np_arange_def)
  have r: "list_all (\<lambda>i. 0 \<le> i \<and> i < int (length x)) [a..b - 1]"
    using h by (simp add: upto_in_range)
  have yl: "case y of None \<Rightarrow> True | Some yv \<Rightarrow> length yv = length x" using h by simp
  from slice_in_range [OF bi r yl]
  show "priv_slice_array x y (Some (Range a b))
          = Inr (map (\<lambda>i. x ! nat i) [a..b - 1],
                 map_option (\<lambda>yv. map (\<lambda>i. yv ! nat i) [a..b - 1]) y, Some [a..b - 1])"
    by simp
  from h show "map (\<lambda>i. x ! nat i) [a..b - 1] = take (nat (b - a)) (drop (nat a) x)"
    by (simp add: map_nth_upto)
next
  assume h: "(case y of None \<Rightarrow> True | Some yv \<Rightarrow> length yv = length x) \<and> rs \<noteq> []
          \<and> list_all (\<lambda>(a, b). 0 \<le> a \<and> b \<le> int (length x)) rs"
  let ?ix = "concat (map (\<lambda>(t0, t1). np_arange t0 t1) rs)"
  have b: "build_index (Ranges rs) = Inr ?ix" using h by (cases rs) simp_all
  have ix: "?ix = concat (map (\<lambda>(a, b). [a..b - 1]) rs)"
    by (simp add: np_arange_def)
  have m: "map f ?ix = concat (map (\<lambda>(a, b). map f [a..b - 1]) rs)" for f :: "int \<Rightarrow> 'c"
    by (simp add: np_arange_def map_concat comp_def case_prod_unfold)
  have r: "list_all (\<lambda>i. 0 \<le> i \<and> i < int (length x)) ?ix"
    using h by (simp add: ranges_in_range)
  have yl: "case y of None \<Rightarrow> True | Some yv \<Rightarrow> length yv = length x" using h by simp
  from slice_in_range [OF b r yl]
  have "priv_slice_array x y (Some (Ranges rs))
          = Inr (map (\<lambda>i. x ! nat i) ?ix, map_option (\<lambda>yv. map (\<lambda>i. yv ! nat i) ?ix) y, Some ?ix)"
    by simp
  then show "priv_slice_array x y (Some (Ranges rs))
              = Inr (concat (map (\<lambda>(a, b). map (\<lambda>i. x ! nat i) [a..b - 1]) rs),
                     map_option (\<lambda>yv. concat (map (\<lambda>(a, b). map (\<lambda>i. yv ! nat i) [a..b - 1]) rs)) y,
                     Some (concat (map (\<lambda>(a, b). [a..b - 1]) rs)))"
    by (simp add: m ix [symmetric])
qed

theorem slice_array_rows_witness:
  "priv_slice_array [10, 11, 12, 13, 14, 15, 16, 17 :: int] (Some [0, 1, 0, 1, 0, 1, 0, 1 :: int])
       (Some (Range 2 5))
     = Inr ([12, 13, 14], Some [0, 1, 0], Some [2, 3, 4])
   \<and> priv_slice_array [10, 11, 12, 13, 14, 15, 16, 17 :: int] (Some [0, 1, 0, 1, 0, 1, 0, 1 :: int])
       (Some (Ranges [(0, 2), (5, 7)]))
     = Inr ([10, 11, 15, 16], Some [0, 1, 1, 0], Some [0, 1, 5, 6])"
  using slice_array_rows [of "[10, 11, 12, 13, 14, 15, 16, 17 :: int]"
      "Some [0, 1, 0, 1, 0, 1, 0, 1 :: int]" 2 5 "[(0, 2), (5, 7)]"]
  by (simp add: upto_rec1)

section \<open>Sequencing and message formatting\<close>

lemma exc_bind_simps:
  "exc_bind (Inl e) f = Inl e"
  "exc_bind (Inr v) f = f v"
  by (simp_all add: exc_bind_def)

lemma res_bind_simps:
  "res_bind (Inl e, ws) f = (Inl e, ws)"
  "res_bind (Inr v, ws) f = (case f v of (r, ws') \<Rightarrow> (r, ws @ ws'))"
  "res_bind (res_raise e) f = res_raise e"
  "res_bind (res_return v) f = f v"
  "res_bind (res_lift (Inl e)) f = (Inl e, [])"
  "res_bind (res_lift (Inr v)) f = f v"
  by (simp_all add: res_bind_def res_raise_def res_return_def res_lift_def split: prod.splits)

lemma res_bind_warn:
  "res_bind (res_warn w) f = (case f () of (r, ws') \<Rightarrow> (r, w # ws'))"
  by (simp add: res_bind_def res_warn_def split: prod.splits)

lemma priv_name_ok: "\<exists>s. priv_name lname cse = Inr s"
  by (cases lname; cases cse) (simp_all add: priv_name_def py_format.simps fmt_flag_def)

lemma fmt_fit_tr:
  "\<exists>m. py_format ''%sFitting transformer [%s] failed. Details:\<newline>%r'' [s, n, r] = Inr m"
  by (simp add: py_format.simps fmt_flag_def)

lemma fmt_transform_tr:
  "\<exists>m. py_format
          ''%sTransformation with transformer [%s] of type (%s) failed. Details:\<newline>%r''
          [s, n, c, r] = Inr m"
  by (simp add: py_format.simps fmt_flag_def)



lemma fmt_predict_raise:
  "\<exists>m. py_format ''%sCould not call '%s' with estimator '%s'. Details:\<newline>%r'' [s, a, n, r]
        = Inr m"
  by (simp add: py_format.simps fmt_flag_def)

lemma fmt_predict_warn:
  "\<exists>m. py_format
          ''%sCould not call '%s' with estimator '%s'. Predictions set to 0. Details:\<newline>%r''
          [s, a, n, r] = Inr m"
  by (simp add: py_format.simps fmt_flag_def)

lemma fmt_key_t: "py_format ''%s__t'' [c] = Inr (c @ ''__t'')"
  by (simp add: py_format.simps fmt_flag_def)

lemma fmt_key_e: "py_format ''%s__%s__e'' [c, n] = Inr (c @ ''__'' @ n @ ''__e'')"
  by (simp add: py_format.simps fmt_flag_def)

lemma fmt_key_suffix: "py_format ''%s__%s'' [c, x] = Inr (c @ ''__'' @ x)"
  by (simp add: py_format.simps fmt_flag_def)



lemma fmt_error_msg:
  "py_format error_msg [m] = Inl (PyExc TypeError ''not enough arguments for format string'')"
  by (simp add: error_msg_def py_format.simps fmt_flag_def)

section \<open>Transformer failures\<close>

lemma priv_fit_tr_fails:
  assumes "tr_fit tr x y = Inl e"
  shows "\<exists>msg. priv_fit_tr x y tr tr_name cse lname = Inl (PyExc FitFailedError msg)"
proof -
  obtain s where s: "priv_name lname cse = Inr s" using priv_name_ok by blast
  obtain m where m: "py_format ''%sFitting transformer [%s] failed. Details:\<newline>%r''
      [s, tr_name, repr_exc e] = Inr m" using fmt_fit_tr by blast
  show ?thesis using assms by (simp add: priv_fit_tr_def s m exc_bind_simps)
qed

lemma priv_transform_tr_fails:
  assumes "tr_transform tr x = Inl e"
  shows "\<exists>msg. priv_transform_tr x tr tr_name cse lname = Inl (PyExc FitFailedError msg)"
proof -
  obtain s where s: "priv_name lname cse = Inr s" using priv_name_ok by blast
  obtain m where m: "py_format
      ''%sTransformation with transformer [%s] of type (%s) failed. Details:\<newline>%r''
      [s, tr_name, tr_class tr, repr_exc e] = Inr m" using fmt_transform_tr by blast
  show ?thesis using assms by (simp add: priv_transform_tr_def s m exc_bind_simps)
qed

lemma priv_transform_tr_class:
  "priv_transform_tr x tr tr_name cse lname = Inl e \<Longrightarrow> exc_class_of e = FitFailedError"
proof (cases "tr_transform tr x")
  case (Inl a)
  assume "priv_transform_tr x tr tr_name cse lname = Inl e"
  with priv_transform_tr_fails [OF Inl, of tr_name cse lname] show ?thesis by auto
next
  case (Inr b)
  assume "priv_transform_tr x tr tr_name cse lname = Inl e"
  with Inr show ?thesis by (simp add: priv_transform_tr_def)
qed

lemma transform_loop_class:
  "transform_loop x trs cse name = Inl e \<Longrightarrow> exc_class_of e = FitFailedError"
proof (induction trs arbitrary: x)
  case Nil
  then show ?case by simp
next
  case (Cons a trs)
  obtain n tr where a: "a = (n, tr)" by (cases a)
  show ?case
  proof (cases "priv_transform_tr x tr n cse name")
    case (Inl e')
    with Cons.prems a show ?thesis
      by (auto simp: exc_bind_simps dest: priv_transform_tr_class)
  next
    case (Inr x')
    with Cons.prems a Cons.IH [of x'] show ?thesis by (simp add: exc_bind_simps)
  qed
qed

text \<open>
  Claim C4. A transformer whose \<^verbatim>\<open>fit\<close> raises makes \<^verbatim>\<open>_fit_tr\<close> raise \<^verbatim>\<open>FitFailedError\<close>, and
  one whose \<^verbatim>\<open>transform\<close> raises makes \<^verbatim>\<open>_transform_tr\<close> raise \<^verbatim>\<open>FitFailedError\<close>: neither
  wrapper has a raising flag or a warning branch. In the stage that does carry the flag,
  \<^verbatim>\<open>fit_est\<close> from its transformer list on, a first transformer that fails on the training
  slice ends the task with the same \<^verbatim>\<open>FitFailedError\<close> and no warning for either value of
  \<^verbatim>\<open>raise_on_exception\<close>, and a failing fit of the first transformer ends \<^verbatim>\<open>fit_trans\<close>
  with \<^verbatim>\<open>FitFailedError\<close>.
\<close>

theorem transformer_failure_always_raises:
  "(tr_fit tr x y = Inl e \<longrightarrow>
      (\<exists>msg. priv_fit_tr x y tr tr_name cse lname = Inl (PyExc FitFailedError msg)))
   \<and> (tr_transform tr x = Inl e \<longrightarrow>
      (\<exists>msg. priv_transform_tr x tr tr_name cse lname = Inl (PyExc FitFailedError msg)))
   \<and> (tr_transform tr x = Inl e \<longrightarrow>
      (\<exists>msg. \<forall>raise_on_exception.
         fit_est_from cache dir cse inst_name inst X y pred idx raise_on_exception lname
           attr scorer ((tr_name, tr) # rest) x z
         = (Inl (PyExc FitFailedError msg), [])))
   \<and> (tr_fit tr X y = Inl e \<longrightarrow>
      (\<exists>msg. fit_trans dir cse ((tr_name, tr) # rest) X y None lname cache
         = Inl (PyExc FitFailedError msg)))"
proof (intro conjI impI)
  assume "tr_fit tr x y = Inl e"
  then show "\<exists>msg. priv_fit_tr x y tr tr_name cse lname = Inl (PyExc FitFailedError msg)"
    by (rule priv_fit_tr_fails)
next
  assume "tr_transform tr x = Inl e"
  then show "\<exists>msg. priv_transform_tr x tr tr_name cse lname = Inl (PyExc FitFailedError msg)"
    by (rule priv_transform_tr_fails)
next
  assume "tr_transform tr x = Inl e"
  from priv_transform_tr_fails [OF this, of tr_name cse lname]
  obtain msg where "priv_transform_tr x tr tr_name cse lname = Inl (PyExc FitFailedError msg)"
    by blast
  then have "\<forall>raise_on_exception.
         fit_est_from cache dir cse inst_name inst X y pred idx raise_on_exception lname
           attr scorer ((tr_name, tr) # rest) x z
         = (Inl (PyExc FitFailedError msg), [])"
    by (simp add: fit_est_from_def exc_bind_simps res_bind_simps Let_def)
  then show "\<exists>msg. \<forall>raise_on_exception.
         fit_est_from cache dir cse inst_name inst X y pred idx raise_on_exception lname
           attr scorer ((tr_name, tr) # rest) x z
         = (Inl (PyExc FitFailedError msg), [])" by blast
next
  assume "tr_fit tr X y = Inl e"
  from priv_fit_tr_fails [OF this, of tr_name cse lname]
  obtain msg where "priv_fit_tr X y tr tr_name cse lname = Inl (PyExc FitFailedError msg)"
    by blast
  then have "fit_trans dir cse ((tr_name, tr) # rest) X y None lname cache
         = Inl (PyExc FitFailedError msg)"
    by (simp add: fit_trans_def priv_slice_array_def exc_bind_simps)
  then show "\<exists>msg. fit_trans dir cse ((tr_name, tr) # rest) X y None lname cache
         = Inl (PyExc FitFailedError msg)" by blast
qed

theorem transformer_failure_always_raises_witness:
  "(\<exists>msg. priv_fit_tr [[1 :: int]] (Some [1])
       (Transformer ''Scaler'' (\<lambda>x y. Inl (PyExc ValueError ''bad'')) (\<lambda>x. Inl (PyExc ValueError ''bad'')))
       ''sc'' (Some ''case-1'') (Some ''layer-1'') = Inl (PyExc FitFailedError msg))
   \<and> (\<exists>msg. priv_transform_tr [[1 :: int]]
       (Transformer ''Scaler'' (\<lambda>x y. Inl (PyExc ValueError ''bad'')) (\<lambda>x. Inl (PyExc ValueError ''bad'')))
       ''sc'' (Some ''case-1'') (Some ''layer-1'') = Inl (PyExc FitFailedError msg))
   \<and> (\<exists>msg. \<forall>raise_on_exception.
         fit_est_from Map.empty ''dir'' (Some ''case-1'') ''ols''
           (Estimator (\<lambda>x y. Inl (PyExc ValueError ''no'')) (\<lambda>a x. Inl (PyExc ValueError ''no'')))
           [[1 :: int]] (Some [1]) None (None, None, 0) raise_on_exception (Some ''layer-1'')
           ''predict'' None
           [(''sc'', Transformer ''Scaler'' (\<lambda>x y. Inl (PyExc ValueError ''bad''))
                       (\<lambda>x. Inl (PyExc ValueError ''bad'')))]
           [[1]] (Some [1])
         = (Inl (PyExc FitFailedError msg), []))
   \<and> (\<exists>msg. fit_trans ''dir'' (Some ''case-1'')
           [(''sc'', Transformer ''Scaler'' (\<lambda>x y. Inl (PyExc ValueError ''bad''))
                       (\<lambda>x. Inl (PyExc ValueError ''bad'')))]
           [[1 :: int]] (Some [1]) None (Some ''layer-1'') Map.empty
         = Inl (PyExc FitFailedError msg))"
  using transformer_failure_always_raises [of
      "Transformer ''Scaler'' (\<lambda>x y. Inl (PyExc ValueError ''bad'')) (\<lambda>x. Inl (PyExc ValueError ''bad''))"
      "[[1 :: int]]" "Some [1]" "PyExc ValueError ''bad''" "''sc''" "Some ''case-1''"
      "Some ''layer-1''" "Map.empty" "''dir''" "''ols''"
      "Estimator (\<lambda>x y. Inl (PyExc ValueError ''no'')) (\<lambda>a x. Inl (PyExc ValueError ''no''))"
      "[[1 :: int]]" None "(None, None, 0)" "''predict''" None "[]" "Some [1]"]
  by simp

section \<open>Failing predictions in predict and transform\<close>

lemma priv_predict_est_raises:
  assumes "call_attr est attr x = Inl e"
  shows "\<exists>msg. priv_predict_est x est True inst_name cse name attr
           = (Inl (PyExc PredictFailedError msg), [])"
proof -
  obtain s where s: "priv_name name cse = Inr s" using priv_name_ok by blast
  obtain m where m: "py_format ''%sCould not call '%s' with estimator '%s'. Details:\<newline>%r''
      [s, attr, inst_name, repr_exc e] = Inr m" using fmt_predict_raise by blast
  show ?thesis
    by (simp add: priv_predict_est_def assms s m res_bind_simps res_raise_def)
qed

lemma priv_predict_est_warns:
  assumes "call_attr est attr x = Inl e"
  shows "\<exists>msg. priv_predict_est x est False inst_name cse name attr
           = (Inr None, [PyWarning PredictFailedWarning msg])"
proof -
  obtain s where s: "priv_name name cse = Inr s" using priv_name_ok by blast
  obtain m where m: "py_format
      ''%sCould not call '%s' with estimator '%s'. Predictions set to 0. Details:\<newline>%r''
      [s, attr, inst_name, repr_exc e] = Inr m" using fmt_predict_warn by blast
  show ?thesis
    by (simp add: priv_predict_est_def assms s m res_bind_simps res_bind_warn res_return_def)
qed

lemma check_fitted_flag:
  "BaseEstimator_check_fitted
     (self\<lparr>be_raise := r, be_layer := (be_layer self)\<lparr>layer_raise_on_exception := r'\<rparr>\<rparr>)
   = BaseEstimator_check_fitted self"
  by (simp add: BaseEstimator_check_fitted_def check_is_fitted_def)

lemma retrieve_flag:
  "BaseEstimator_retrieve
     (self\<lparr>be_raise := r, be_layer := (be_layer self)\<lparr>layer_raise_on_exception := r'\<rparr>\<rparr>) s
   = BaseEstimator_retrieve self s"
  by (simp add: BaseEstimator_retrieve_def Let_def split: option.split py_coll.split)

lemma predict_tasks_flag:
  "predict_tasks
     (self\<lparr>be_raise := r, be_layer := (be_layer self)\<lparr>layer_raise_on_exception := r'\<rparr>\<rparr>)
     prep attr X ests P
   = predict_tasks self prep attr X ests P"
proof (induction ests arbitrary: P)
  case Nil
  show ?case by simp
next
  case (Cons a ests)
  obtain cse inst_name est u col where a: "a = (cse, (inst_name, est, (u, col)))"
    by (cases a) auto
  have "predict_tasks
     (self\<lparr>be_raise := r, be_layer := (be_layer self)\<lparr>layer_raise_on_exception := r'\<rparr>\<rparr>)
     prep attr X ests = predict_tasks self prep attr X ests"
    by (rule ext) (rule Cons.IH)
  then show ?case unfolding a by simp
qed

lemma transform_tasks_flag:
  "transform_tasks
     (self\<lparr>be_raise := r, be_layer := (be_layer self)\<lparr>layer_raise_on_exception := r'\<rparr>\<rparr>)
     prep attr X ests P
   = transform_tasks self prep attr X ests P"
proof (induction ests arbitrary: P)
  case Nil
  show ?case by simp
next
  case (Cons a ests)
  obtain cse est_name est idx where a: "a = (cse, (est_name, est, idx))"
    by (cases a) auto
  have "transform_tasks
     (self\<lparr>be_raise := r, be_layer := (be_layer self)\<lparr>layer_raise_on_exception := r'\<rparr>\<rparr>)
     prep attr X ests = transform_tasks self prep attr X ests"
    by (rule ext) (rule Cons.IH)
  then show ?case unfolding a by simp
qed

lemma res_bind_assoc:
  "res_bind (res_bind m f) g = res_bind m (\<lambda>x. res_bind (f x) g)"
  by (cases m; cases "fst m")
     (auto simp: res_bind_def split: prod.splits sum.splits)

lemma res_bind_return: "res_bind (res_return a) f = f a"
  by (simp add: res_bind_def res_return_def split: prod.splits)

lemma predict_tasks_append:
  "predict_tasks self prep attr X (pre @ rest) P
     = res_bind (predict_tasks self prep attr X pre P) (\<lambda>P'. predict_tasks self prep attr X rest P')"
proof (induction pre arbitrary: P)
  case Nil
  show ?case by (simp add: res_bind_return)
next
  case (Cons a pre)
  obtain cse inst_name est u col where a: "a = (cse, (inst_name, est, (u, col)))"
    by (cases a) auto
  have ih: "predict_tasks self prep attr X (pre @ rest)
     = (\<lambda>P. res_bind (predict_tasks self prep attr X pre P) (\<lambda>P'. predict_tasks self prep attr X rest P'))"
    by (rule ext) (rule Cons.IH)
  show ?case unfolding a by (simp add: ih res_bind_assoc)
qed

lemma transform_tasks_append:
  "transform_tasks self prep attr X (pre @ rest) P
     = res_bind (transform_tasks self prep attr X pre P) (\<lambda>P'. transform_tasks self prep attr X rest P')"
proof (induction pre arbitrary: P)
  case Nil
  show ?case by (simp add: res_bind_return)
next
  case (Cons a pre)
  obtain cse est_name est idx where a: "a = (cse, (est_name, est, idx))"
    by (cases a) auto
  have ih: "transform_tasks self prep attr X (pre @ rest)
     = (\<lambda>P. res_bind (transform_tasks self prep attr X pre P) (\<lambda>P'. transform_tasks self prep attr X rest P'))"
    by (rule ext) (rule Cons.IH)
  show ?case unfolding a by (simp add: ih res_bind_assoc)
qed

lemma predict_est_raises:
  assumes "transform_loop xtest tr_list cse name = Inr x" and "call_attr est attr x = Inl e"
  shows "\<exists>msg. predict_est cse tr_list inst_name est xtest pred col name attr
               = (Inl (PyExc PredictFailedError msg), [])"
proof -
  obtain msg where
    "priv_predict_est x est True inst_name cse name attr = (Inl (PyExc PredictFailedError msg), [])"
    using priv_predict_est_raises assms by blast
  with assms have "predict_est cse tr_list inst_name est xtest pred col name attr
               = (Inl (PyExc PredictFailedError msg), [])"
    by (simp add: predict_est_def res_bind_simps)
  then show ?thesis by blast
qed

lemma predict_fold_est_raises:
  fixes xtest :: "'a list list"
  assumes "priv_slice_array xtest (None :: 'a list option) (fst idx) = Inr (x0, u, t)"
    and "transform_loop x0 tr_list cse name = Inr x" and "call_attr est attr x = Inl e"
  shows "\<exists>msg. predict_fold_est cse tr_list inst_name est xtest pred idx name attr
               = (Inl (PyExc PredictFailedError msg), [])"
proof -
  obtain msg where
    "priv_predict_est x est True inst_name cse name attr = (Inl (PyExc PredictFailedError msg), [])"
    using priv_predict_est_raises assms by blast
  with assms have "predict_fold_est cse tr_list inst_name est xtest pred idx name attr
               = (Inl (PyExc PredictFailedError msg), [])"
    by (simp add: predict_fold_est_def res_bind_simps Let_def)
  then show ?thesis by blast
qed

lemma predict_tasks_raises:
  assumes "predict_tasks self prep attr X pre P = (Inr P1, ws1)"
    and "prep_for prep cse = Inr trs"
    and "transform_loop X trs cse (be_name self) = Inr x"
    and "call_attr est attr x = Inl e"
  shows "\<exists>msg. predict_tasks self prep attr X (pre @ (cse, (inst_name, est, (u, col))) # rest) P
           = (Inl (PyExc PredictFailedError msg), ws1)"
proof -
  obtain msg where m: "predict_est cse trs inst_name est X P1 col (be_name self) attr
               = (Inl (PyExc PredictFailedError msg), [])"
    using predict_est_raises [OF assms(3,4)] by blast
  show ?thesis
    by (simp add: predict_tasks_append assms(1,2) res_bind_simps res_lift_def m)
qed

lemma transform_tasks_raises:
  fixes X :: "'a list list"
  assumes "transform_tasks self prep attr X pre P = (Inr P1, ws1)"
    and "prep_for prep cse = Inr trs"
    and "priv_slice_array X (None :: 'a list option) (fst idx) = Inr (x0, u, t)"
    and "transform_loop x0 trs cse (be_name self) = Inr x"
    and "call_attr est attr x = Inl e"
  shows "\<exists>msg. transform_tasks self prep attr X (pre @ (cse, (inst_name, est, idx)) # rest) P
           = (Inl (PyExc PredictFailedError msg), ws1)"
proof -
  obtain msg where m: "predict_fold_est cse trs inst_name est X P1 idx (be_name self) attr
               = (Inl (PyExc PredictFailedError msg), [])"
    using predict_fold_est_raises [OF assms(3,4,5)] by blast
  show ?thesis
    by (simp add: transform_tasks_append assms(1,2) res_bind_simps res_lift_def m)
qed

lemma res_bind_quiet:
  "snd m = [] \<Longrightarrow> (\<And>v. snd (f v) = []) \<Longrightarrow> snd (res_bind m f) = []"
  by (cases m; cases "fst m") (auto simp: res_bind_def split: prod.splits sum.splits)

lemma res_quiet:
  "snd (res_return a) = []" "snd (res_raise e) = []" "snd (res_lift m) = []"
  by (simp_all add: res_return_def res_raise_def res_lift_def split: sum.splits)

lemma priv_predict_est_quiet: "snd (priv_predict_est x est True inst_name cse name attr) = []"
  by (auto simp: priv_predict_est_def intro!: res_bind_quiet res_quiet split: sum.splits)

lemma predict_est_quiet: "snd (predict_est cse tr_list inst_name est xtest pred col name attr) = []"
  unfolding predict_est_def
  by (intro res_bind_quiet res_quiet priv_predict_est_quiet)

lemma predict_fold_est_quiet:
  "snd (predict_fold_est cse tr_list inst_name est xtest pred idx name attr) = []"
  unfolding predict_fold_est_def Let_def
  by (intro res_bind_quiet res_quiet priv_predict_est_quiet)
     (auto intro!: res_bind_quiet res_quiet priv_predict_est_quiet)

lemma predict_tasks_quiet: "snd (predict_tasks self prep attr X ests P) = []"
proof (induction ests arbitrary: P)
  case Nil
  show ?case by (simp add: res_quiet)
next
  case (Cons a ests)
  obtain cse inst_name est u col where a: "a = (cse, (inst_name, est, (u, col)))"
    by (cases a) auto
  show ?case unfolding a predict_tasks.simps
    by (intro res_bind_quiet res_quiet predict_est_quiet Cons.IH)
qed

lemma transform_tasks_quiet: "snd (transform_tasks self prep attr X ests P) = []"
proof (induction ests arbitrary: P)
  case Nil
  show ?case by (simp add: res_quiet)
next
  case (Cons a ests)
  obtain cse est_name est idx where a: "a = (cse, (est_name, est, idx))"
    by (cases a) auto
  show ?case unfolding a transform_tasks.simps
    by (intro res_bind_quiet res_quiet predict_fold_est_quiet Cons.IH)
qed

lemma public_quiet:
  "snd (BaseEstimator_predict self X P) = []" "snd (BaseEstimator_transform self X P) = []"
  unfolding BaseEstimator_predict_def BaseEstimator_transform_def
  by (intro res_bind_quiet res_quiet; auto intro!: res_bind_quiet res_quiet predict_tasks_quiet transform_tasks_quiet)+


lemma predict_tasks_some_raise:
  assumes "prep_for prep cse = Inr trs"
    and "transform_loop X trs cse (be_name self) = Inr x"
    and "call_attr est attr x = Inl e"
  shows "\<exists>e'. predict_tasks self prep attr X (pre @ (cse, (inst_name, est, (u, col))) # rest) P
           = (Inl e', [])"
proof -
  obtain r ws where pr: "predict_tasks self prep attr X pre P = (r, ws)"
    by (cases "predict_tasks self prep attr X pre P")
  have ws: "ws = []" using predict_tasks_quiet [of self prep attr X pre P] pr by simp
  show ?thesis
  proof (cases r)
    case (Inl e0)
    then show ?thesis by (simp add: predict_tasks_append pr ws res_bind_simps)
  next
    case (Inr P1)
    with pr ws predict_tasks_raises [OF _ assms, of pre P P1 "[]"] show ?thesis by blast
  qed
qed

lemma transform_tasks_some_raise:
  fixes X :: "'a list list"
  assumes "prep_for prep cse = Inr trs"
    and "priv_slice_array X (None :: 'a list option) (fst idx) = Inr (x0, u, t)"
    and "transform_loop x0 trs cse (be_name self) = Inr x"
    and "call_attr est attr x = Inl e"
  shows "\<exists>e'. transform_tasks self prep attr X (pre @ (cse, (inst_name, est, idx)) # rest) P
           = (Inl e', [])"
proof -
  obtain r ws where pr: "transform_tasks self prep attr X pre P = (r, ws)"
    by (cases "transform_tasks self prep attr X pre P")
  have ws: "ws = []" using transform_tasks_quiet [of self prep attr X pre P] pr by simp
  show ?thesis
  proof (cases r)
    case (Inl e0)
    then show ?thesis by (simp add: transform_tasks_append pr ws res_bind_simps)
  next
    case (Inr P1)
    with pr ws transform_tasks_raises [OF _ assms, of pre P P1 "[]"] show ?thesis by blast
  qed
qed

text \<open>
  Claim C10. A call \<^verbatim>\<open>getattr(est, attr)(x)\<close> that raises ends a task of \<^verbatim>\<open>predict\<close>
  (\<^verbatim>\<open>predict_est\<close>) and a task of \<^verbatim>\<open>transform\<close> (\<^verbatim>\<open>predict_fold_est\<close>) with
  \<^verbatim>\<open>PredictFailedError\<close> and without a warning, once the input is sliced and transformed: the
  functions take no raising flag and pass \<^verbatim>\<open>True\<close> to \<^verbatim>\<open>_predict_est\<close>. So do the public
  operations: when the fitted check passes and the tasks before it have succeeded, the task
  at which the call raises ends \<^verbatim>\<open>BaseEstimator.predict\<close>, and \<^verbatim>\<open>BaseEstimator.transform\<close>,
  with \<^verbatim>\<open>PredictFailedError\<close>. The result of either operation is the same whatever the
  engine's \<^verbatim>\<open>raise_\<close> and the layer's \<^verbatim>\<open>raise_on_exception\<close> are set to, and neither
  operation ever emits a warning. Whatever the tasks before it do, an operation with a task
  whose call raises ends with an exception: it never returns a prediction matrix.
\<close>

theorem predict_failure_always_raises:
  fixes xtest :: "'a list list" and X :: "'a list list"
  shows "(transform_loop xtest tr_list cse name = Inr x \<and> call_attr est attr x = Inl e \<longrightarrow>
      (\<exists>msg. predict_est cse tr_list inst_name est xtest pred col name attr
               = (Inl (PyExc PredictFailedError msg), [])))
   \<and> (priv_slice_array xtest (None :: 'a list option) (fst idx) = Inr (x0, u, t)
        \<and> transform_loop x0 tr_list cse name = Inr x \<and> call_attr est attr x = Inl e \<longrightarrow>
      (\<exists>msg. predict_fold_est cse tr_list inst_name est xtest pred idx name attr
               = (Inl (PyExc PredictFailedError msg), [])))
   \<and> BaseEstimator_predict
        (self\<lparr>be_raise := r, be_layer := (be_layer self)\<lparr>layer_raise_on_exception := r'\<rparr>\<rparr>) X P
      = BaseEstimator_predict self X P
   \<and> BaseEstimator_transform
        (self\<lparr>be_raise := r, be_layer := (be_layer self)\<lparr>layer_raise_on_exception := r'\<rparr>\<rparr>) X P
      = BaseEstimator_transform self X P
   \<and> (BaseEstimator_check_fitted self = Inr ()
        \<and> BaseEstimator_retrieve self ''full'' = Inr (prep, pre @ (c1, (n1, est1, (u1, col1))) # post)
        \<and> predict_tasks self prep (if \<not> be_proba self then ''predict'' else ''predict_proba'')
              X pre P = (Inr P1, ws1)
        \<and> prep_for prep c1 = Inr trs1
        \<and> transform_loop X trs1 c1 (be_name self) = Inr x1
        \<and> call_attr est1 (if \<not> be_proba self then ''predict'' else ''predict_proba'') x1 = Inl e1
      \<longrightarrow> (\<exists>msg. BaseEstimator_predict self X P = (Inl (PyExc PredictFailedError msg), ws1)))
   \<and> (BaseEstimator_check_fitted self = Inr ()
        \<and> BaseEstimator_retrieve self ''fold'' = Inr (prep2, pre2 @ (c2, (n2, est2, idx2)) # post2)
        \<and> transform_tasks self prep2 (if \<not> be_proba self then ''predict'' else ''predict_proba'')
              X pre2 P = (Inr P2, ws2)
        \<and> prep_for prep2 c2 = Inr trs2
        \<and> priv_slice_array X (None :: 'a list option) (fst idx2) = Inr (x02, u2, t2)
        \<and> transform_loop x02 trs2 c2 (be_name self) = Inr x2
        \<and> call_attr est2 (if \<not> be_proba self then ''predict'' else ''predict_proba'') x2 = Inl e2
      \<longrightarrow> (\<exists>msg. BaseEstimator_transform self X P = (Inl (PyExc PredictFailedError msg), ws2)))
   \<and> snd (BaseEstimator_predict self X P) = []
   \<and> snd (BaseEstimator_transform self X P) = []
   \<and> (BaseEstimator_check_fitted self = Inr ()
        \<and> BaseEstimator_retrieve self ''full'' = Inr (prep, pre @ (c1, (n1, est1, (u1, col1))) # post)
        \<and> prep_for prep c1 = Inr trs1
        \<and> transform_loop X trs1 c1 (be_name self) = Inr x1
        \<and> call_attr est1 (if \<not> be_proba self then ''predict'' else ''predict_proba'') x1 = Inl e1
      \<longrightarrow> (\<exists>e'. BaseEstimator_predict self X P = (Inl e', [])))
   \<and> (BaseEstimator_check_fitted self = Inr ()
        \<and> BaseEstimator_retrieve self ''fold'' = Inr (prep2, pre2 @ (c2, (n2, est2, idx2)) # post2)
        \<and> prep_for prep2 c2 = Inr trs2
        \<and> priv_slice_array X (None :: 'a list option) (fst idx2) = Inr (x02, u2, t2)
        \<and> transform_loop x02 trs2 c2 (be_name self) = Inr x2
        \<and> call_attr est2 (if \<not> be_proba self then ''predict'' else ''predict_proba'') x2 = Inl e2
      \<longrightarrow> (\<exists>e'. BaseEstimator_transform self X P = (Inl e', [])))"
proof (intro conjI impI)
  assume h: "transform_loop xtest tr_list cse name = Inr x \<and> call_attr est attr x = Inl e"
  then show "\<exists>msg. predict_est cse tr_list inst_name est xtest pred col name attr
               = (Inl (PyExc PredictFailedError msg), [])"
    using predict_est_raises by blast
next
  assume h: "priv_slice_array xtest (None :: 'a list option) (fst idx) = Inr (x0, u, t)
        \<and> transform_loop x0 tr_list cse name = Inr x \<and> call_attr est attr x = Inl e"
  then show "\<exists>msg. predict_fold_est cse tr_list inst_name est xtest pred idx name attr
               = (Inl (PyExc PredictFailedError msg), [])"
    using predict_fold_est_raises by blast
next
  show "BaseEstimator_predict
        (self\<lparr>be_raise := r, be_layer := (be_layer self)\<lparr>layer_raise_on_exception := r'\<rparr>\<rparr>) X P
      = BaseEstimator_predict self X P"
    unfolding BaseEstimator_predict_def check_fitted_flag retrieve_flag predict_tasks_flag
    by simp
next
  show "BaseEstimator_transform
        (self\<lparr>be_raise := r, be_layer := (be_layer self)\<lparr>layer_raise_on_exception := r'\<rparr>\<rparr>) X P
      = BaseEstimator_transform self X P"
    unfolding BaseEstimator_transform_def check_fitted_flag retrieve_flag transform_tasks_flag
    by simp
next
  assume h: "BaseEstimator_check_fitted self = Inr ()
        \<and> BaseEstimator_retrieve self ''full'' = Inr (prep, pre @ (c1, (n1, est1, (u1, col1))) # post)
        \<and> predict_tasks self prep (if \<not> be_proba self then ''predict'' else ''predict_proba'')
              X pre P = (Inr P1, ws1)
        \<and> prep_for prep c1 = Inr trs1
        \<and> transform_loop X trs1 c1 (be_name self) = Inr x1
        \<and> call_attr est1 (if \<not> be_proba self then ''predict'' else ''predict_proba'') x1 = Inl e1"
  then obtain msg where
    "predict_tasks self prep (if \<not> be_proba self then ''predict'' else ''predict_proba'') X
       (pre @ (c1, (n1, est1, (u1, col1))) # post) P = (Inl (PyExc PredictFailedError msg), ws1)"
    using predict_tasks_raises [of self prep _ X pre P P1 ws1 c1 trs1 x1 est1 e1 n1 u1 col1 post]
    by blast
  with h have "BaseEstimator_predict self X P = (Inl (PyExc PredictFailedError msg), ws1)"
    by (simp add: BaseEstimator_predict_def res_bind_simps res_lift_def)
  then show "\<exists>msg. BaseEstimator_predict self X P = (Inl (PyExc PredictFailedError msg), ws1)"
    by blast
next
  assume h: "BaseEstimator_check_fitted self = Inr ()
        \<and> BaseEstimator_retrieve self ''fold'' = Inr (prep2, pre2 @ (c2, (n2, est2, idx2)) # post2)
        \<and> transform_tasks self prep2 (if \<not> be_proba self then ''predict'' else ''predict_proba'')
              X pre2 P = (Inr P2, ws2)
        \<and> prep_for prep2 c2 = Inr trs2
        \<and> priv_slice_array X (None :: 'a list option) (fst idx2) = Inr (x02, u2, t2)
        \<and> transform_loop x02 trs2 c2 (be_name self) = Inr x2
        \<and> call_attr est2 (if \<not> be_proba self then ''predict'' else ''predict_proba'') x2 = Inl e2"
  then obtain msg where
    "transform_tasks self prep2 (if \<not> be_proba self then ''predict'' else ''predict_proba'') X
       (pre2 @ (c2, (n2, est2, idx2)) # post2) P = (Inl (PyExc PredictFailedError msg), ws2)"
    using transform_tasks_raises [of self prep2 _ X pre2 P P2 ws2 c2 trs2 idx2 x02 u2 t2 x2 est2 e2
        n2 post2]
    by blast
  with h have "BaseEstimator_transform self X P = (Inl (PyExc PredictFailedError msg), ws2)"
    by (simp add: BaseEstimator_transform_def res_bind_simps res_lift_def)
  then show "\<exists>msg. BaseEstimator_transform self X P = (Inl (PyExc PredictFailedError msg), ws2)"
    by blast
next
  show "snd (BaseEstimator_predict self X P) = []" by (rule public_quiet)
next
  show "snd (BaseEstimator_transform self X P) = []" by (rule public_quiet)
next
  assume h: "BaseEstimator_check_fitted self = Inr ()
        \<and> BaseEstimator_retrieve self ''full'' = Inr (prep, pre @ (c1, (n1, est1, (u1, col1))) # post)
        \<and> prep_for prep c1 = Inr trs1
        \<and> transform_loop X trs1 c1 (be_name self) = Inr x1
        \<and> call_attr est1 (if \<not> be_proba self then ''predict'' else ''predict_proba'') x1 = Inl e1"
  then obtain e' where
    "predict_tasks self prep (if \<not> be_proba self then ''predict'' else ''predict_proba'') X
       (pre @ (c1, (n1, est1, (u1, col1))) # post) P = (Inl e', [])"
    using predict_tasks_some_raise [of prep c1 trs1 X self x1 est1 _ e1 pre n1 u1 col1 post P]
    by blast
  with h have "BaseEstimator_predict self X P = (Inl e', [])"
    by (simp add: BaseEstimator_predict_def res_bind_simps res_lift_def)
  then show "(\<exists>e'. BaseEstimator_predict self X P = (Inl e', []))" by blast
next
  assume h: "BaseEstimator_check_fitted self = Inr ()
        \<and> BaseEstimator_retrieve self ''fold'' = Inr (prep2, pre2 @ (c2, (n2, est2, idx2)) # post2)
        \<and> prep_for prep2 c2 = Inr trs2
        \<and> priv_slice_array X (None :: 'a list option) (fst idx2) = Inr (x02, u2, t2)
        \<and> transform_loop x02 trs2 c2 (be_name self) = Inr x2
        \<and> call_attr est2 (if \<not> be_proba self then ''predict'' else ''predict_proba'') x2 = Inl e2"
  then obtain e' where
    "transform_tasks self prep2 (if \<not> be_proba self then ''predict'' else ''predict_proba'') X
       (pre2 @ (c2, (n2, est2, idx2)) # post2) P = (Inl e', [])"
    using transform_tasks_some_raise [of prep2 c2 trs2 X idx2 x02 u2 t2 self x2 est2 _ e2 pre2 n2
        post2 P]
    by blast
  with h have "BaseEstimator_transform self X P = (Inl e', [])"
    by (simp add: BaseEstimator_transform_def res_bind_simps res_lift_def)
  then show "(\<exists>e'. BaseEstimator_transform self X P = (Inl e', []))" by blast
qed

lemma fitted_engine_predict_hyps:
  "BaseEstimator_check_fitted fitted_engine = Inr ()
   \<and> BaseEstimator_retrieve fitted_engine ''full''
       = Inr (Some [Some ''case-1'' \<mapsto> [(''id'', fitted_identity)]],
              [(Some ''case-1'', (''good'', Some fitted_constant, (None, 0)))]
              @ (Some ''case-1'', (''bad'', Some broken_predictor, (None, 1))) # [])
   \<and> predict_tasks fitted_engine (Some [Some ''case-1'' \<mapsto> [(''id'', fitted_identity)]])
        (if \<not> be_proba fitted_engine then ''predict'' else ''predict_proba'')
        [[1], [2]] [(Some ''case-1'', (''good'', Some fitted_constant, (None, 0)))] [[0, 0], [0, 0]]
       = (Inr [[7, 0], [7, 0]], [])
   \<and> prep_for (Some [Some ''case-1'' \<mapsto> [(''id'', fitted_identity)]]) (Some ''case-1'')
       = Inr [(''id'', fitted_identity)]
   \<and> transform_loop [[1], [2]] [(''id'', fitted_identity)] (Some ''case-1'') (be_name fitted_engine)
       = Inr [[1], [2]]
   \<and> call_attr (Some broken_predictor)
        (if \<not> be_proba fitted_engine then ''predict'' else ''predict_proba'') [[1], [2]]
       = Inl (PyExc ValueError ''cannot predict'')"
  apply (intro conjI)
  subgoal by (simp add: BaseEstimator_check_fitted_def check_is_fitted_def fitted_engine_def
        BaseEstimator_init_def fitted_layer_def example_layer_def exc_bind_simps)
  subgoal by (simp add: BaseEstimator_retrieve_def fitted_engine_def
        BaseEstimator_init_def fitted_layer_def example_layer_def Let_def)
  subgoal by (simp add: fitted_engine_def BaseEstimator_init_def fitted_layer_def example_layer_def
        prep_for_def res_lift_def res_bind_simps predict_est_def priv_transform_tr_def
        fitted_identity_def priv_predict_est_def call_attr_def fitted_constant_def res_return_def
        write_full_pred_def np_set_col_def np_arange_def upto_rec1 np_index_def n_cols_def
        np_broadcast_def set_cell_def exc_bind_simps)
  subgoal by (simp add: prep_for_def)
  subgoal by (simp add: priv_transform_tr_def fitted_identity_def exc_bind_simps)
  subgoal by (simp add: call_attr_def broken_predictor_def)
  done

lemma fitted_engine_transform_hyps:
  "BaseEstimator_check_fitted fitted_engine = Inr ()
   \<and> BaseEstimator_retrieve fitted_engine ''fold''
       = Inr (Some [Some ''case-1__0'' \<mapsto> [(''id'', fitted_identity)]],
              [(Some ''case-1__0'', (''good'', Some fitted_constant, (Some (Range 0 1), 0)))]
              @ (Some ''case-1__0'', (''bad'', Some broken_predictor, (Some (Range 0 1), 1))) # [])
   \<and> transform_tasks fitted_engine (Some [Some ''case-1__0'' \<mapsto> [(''id'', fitted_identity)]])
        (if \<not> be_proba fitted_engine then ''predict'' else ''predict_proba'')
        [[1], [2]] [(Some ''case-1__0'', (''good'', Some fitted_constant, (Some (Range 0 1), 0)))]
        [[0, 0], [0, 0]]
       = (Inr [[7, 0], [0, 0]], [])
   \<and> prep_for (Some [Some ''case-1__0'' \<mapsto> [(''id'', fitted_identity)]]) (Some ''case-1__0'')
       = Inr [(''id'', fitted_identity)]
   \<and> priv_slice_array [[1], [2 :: int]] (None :: int list option) (fst (Some (Range 0 1), 1 :: int))
       = Inr ([[1]], None, Some [0])
   \<and> transform_loop [[1]] [(''id'', fitted_identity)] (Some ''case-1__0'') (be_name fitted_engine)
       = Inr [[1]]
   \<and> call_attr (Some broken_predictor)
        (if \<not> be_proba fitted_engine then ''predict'' else ''predict_proba'') [[1]]
       = Inl (PyExc ValueError ''cannot predict'')"
  apply (intro conjI)
  subgoal by (simp add: BaseEstimator_check_fitted_def check_is_fitted_def fitted_engine_def
        BaseEstimator_init_def fitted_layer_def example_layer_def exc_bind_simps)
  subgoal by (simp add: BaseEstimator_retrieve_def fitted_engine_def
        BaseEstimator_init_def fitted_layer_def example_layer_def Let_def)
  subgoal by (simp add: fitted_engine_def BaseEstimator_init_def fitted_layer_def example_layer_def
        prep_for_def res_lift_def res_bind_simps predict_fold_est_def priv_transform_tr_def
        fitted_identity_def priv_predict_est_def call_attr_def fitted_constant_def res_return_def
        write_fold_pred_def np_set_col_def np_arange_def upto_rec1 np_index_def n_cols_def
        np_broadcast_def set_cell_def exc_bind_simps priv_slice_array_def Let_def)
  subgoal by (simp add: prep_for_def)
  subgoal by (simp add: priv_slice_array_def np_arange_def upto_rec1 np_index_def exc_bind_simps)
  subgoal by (simp add: priv_transform_tr_def fitted_identity_def exc_bind_simps)
  subgoal by (simp add: call_attr_def broken_predictor_def)
  done

theorem predict_failure_always_raises_witness:
  "(\<exists>msg. predict_est (Some ''case-1'') [] ''bad'' (Some broken_predictor)
       [[1 :: int]] [[0]] 0 (Some ''layer-1'') ''predict''
     = (Inl (PyExc PredictFailedError msg), []))
   \<and> (\<exists>msg. predict_fold_est (Some ''case-1'') [] ''bad'' (Some broken_predictor)
       [[1 :: int]] [[0]] (Some (Range 0 1), 0) (Some ''layer-1'') ''predict''
     = (Inl (PyExc PredictFailedError msg), []))
   \<and> (\<exists>msg. BaseEstimator_predict fitted_engine [[1], [2]] [[0, 0], [0, 0]]
     = (Inl (PyExc PredictFailedError msg), []))
   \<and> (\<exists>msg. BaseEstimator_transform fitted_engine [[1], [2]] [[0, 0], [0, 0]]
     = (Inl (PyExc PredictFailedError msg), []))
   \<and> (\<exists>e'. BaseEstimator_predict fitted_engine [[1], [2]] [[0, 0], [0, 0]] = (Inl e', []))
   \<and> (\<exists>e'. BaseEstimator_transform fitted_engine [[1], [2]] [[0, 0], [0, 0]] = (Inl e', []))
   \<and> be_raise fitted_engine = False"
proof -
  note inst = predict_failure_always_raises [where xtest = "[[1 :: int]]" and tr_list = "[]"
      and cse = "Some ''case-1''" and name = "Some ''layer-1''" and x = "[[1 :: int]]"
      and est = "Some broken_predictor" and attr = "''predict''"
      and e = "PyExc ValueError ''cannot predict''" and inst_name = "''bad''" and pred = "[[0]]"
      and col = 0 and idx = "(Some (Range 0 1), 0)" and ?x0.0 = "[[1 :: int]]" and u = None
      and t = "Some [0]"
      and self = fitted_engine and X = "[[1], [2]]" and P = "[[0, 0], [0, 0]]"
      and prep = "Some [Some ''case-1'' \<mapsto> [(''id'', fitted_identity)]]"
      and pre = "[(Some ''case-1'', (''good'', Some fitted_constant, (None, 0)))]"
      and ?c1.0 = "Some ''case-1''" and ?n1.0 = "''bad''" and ?est1.0 = "Some broken_predictor"
      and ?u1.0 = None and ?col1.0 = 1 and post = "[]" and ?P1.0 = "[[7, 0], [7, 0]]"
      and ?ws1.0 = "[]" and ?trs1.0 = "[(''id'', fitted_identity)]" and ?x1.0 = "[[1], [2]]"
      and ?e1.0 = "PyExc ValueError ''cannot predict''"
      and ?prep2.0 = "Some [Some ''case-1__0'' \<mapsto> [(''id'', fitted_identity)]]"
      and ?pre2.0 = "[(Some ''case-1__0'', (''good'', Some fitted_constant, (Some (Range 0 1), 0)))]"
      and ?c2.0 = "Some ''case-1__0''" and ?n2.0 = "''bad''" and ?est2.0 = "Some broken_predictor"
      and ?idx2.0 = "(Some (Range 0 1), 1)" and ?post2.0 = "[]" and ?P2.0 = "[[7, 0], [0, 0]]"
      and ?ws2.0 = "[]" and ?trs2.0 = "[(''id'', fitted_identity)]" and ?x02.0 = "[[1]]"
      and ?u2.0 = None and ?t2.0 = "Some [0]" and ?x2.0 = "[[1]]"
      and ?e2.0 = "PyExc ValueError ''cannot predict''"]
  have a: "\<exists>msg. predict_est (Some ''case-1'') [] ''bad'' (Some broken_predictor)
       [[1 :: int]] [[0]] 0 (Some ''layer-1'') ''predict''
     = (Inl (PyExc PredictFailedError msg), [])"
    using inst [THEN conjunct1] by (simp add: call_attr_def broken_predictor_def)
  have b: "\<exists>msg. predict_fold_est (Some ''case-1'') [] ''bad'' (Some broken_predictor)
       [[1 :: int]] [[0]] (Some (Range 0 1), 0) (Some ''layer-1'') ''predict''
     = (Inl (PyExc PredictFailedError msg), [])"
    using inst [THEN conjunct2, THEN conjunct1]
    by (simp add: call_attr_def broken_predictor_def priv_slice_array_def np_arange_def
        np_index_def upto_rec1)
  have c: "\<exists>msg. BaseEstimator_predict fitted_engine [[1], [2]] [[0, 0], [0, 0]]
     = (Inl (PyExc PredictFailedError msg), [])"
    by (rule inst [THEN conjunct2, THEN conjunct2, THEN conjunct2, THEN conjunct2, THEN conjunct1,
        THEN mp, OF fitted_engine_predict_hyps])
  have d: "\<exists>msg. BaseEstimator_transform fitted_engine [[1], [2]] [[0, 0], [0, 0]]
     = (Inl (PyExc PredictFailedError msg), [])"
    by (rule inst [THEN conjunct2, THEN conjunct2, THEN conjunct2, THEN conjunct2, THEN conjunct2,
        THEN conjunct1, THEN mp, OF fitted_engine_transform_hyps])
  have e: "be_raise fitted_engine = False"
    by (simp add: fitted_engine_def BaseEstimator_init_def fitted_layer_def example_layer_def)
  note p = fitted_engine_predict_hyps
  have f: "\<exists>e'. BaseEstimator_predict fitted_engine [[1], [2]] [[0, 0], [0, 0]] = (Inl e', [])"
    by (rule inst [THEN conjunct2, THEN conjunct2, THEN conjunct2, THEN conjunct2, THEN conjunct2,
        THEN conjunct2, THEN conjunct2, THEN conjunct2, THEN conjunct1, THEN mp])
       (intro conjI p [THEN conjunct1] p [THEN conjunct2, THEN conjunct1]
         p [THEN conjunct2, THEN conjunct2, THEN conjunct2, THEN conjunct1]
         p [THEN conjunct2, THEN conjunct2, THEN conjunct2, THEN conjunct2, THEN conjunct1]
         p [THEN conjunct2, THEN conjunct2, THEN conjunct2, THEN conjunct2, THEN conjunct2])
  note t = fitted_engine_transform_hyps
  have g: "\<exists>e'. BaseEstimator_transform fitted_engine [[1], [2]] [[0, 0], [0, 0]] = (Inl e', [])"
    by (rule inst [THEN conjunct2, THEN conjunct2, THEN conjunct2, THEN conjunct2, THEN conjunct2,
        THEN conjunct2, THEN conjunct2, THEN conjunct2, THEN conjunct2, THEN mp])
       (intro conjI t [THEN conjunct1] t [THEN conjunct2, THEN conjunct1]
         t [THEN conjunct2, THEN conjunct2, THEN conjunct2, THEN conjunct1]
         t [THEN conjunct2, THEN conjunct2, THEN conjunct2, THEN conjunct2, THEN conjunct1]
         t [THEN conjunct2, THEN conjunct2, THEN conjunct2, THEN conjunct2, THEN conjunct2,
            THEN conjunct1]
         t [THEN conjunct2, THEN conjunct2, THEN conjunct2, THEN conjunct2, THEN conjunct2,
            THEN conjunct2])
  from a b c d e f g show ?thesis by blast
qed

section \<open>Runs in which a wrapper returns None\<close>

lemmas eval_defs = fit_est_def fit_est_from_def fit_est_predict_def priv_slice_array_def np_arange_def np_index_def
  upto_rec1 priv_fit_est_def priv_predict_est_def call_attr_def write_fold_pred_def
  res_bind_simps res_bind_warn res_return_def res_raise_def res_lift_def priv_name_def
  py_format.simps fmt_flag_def exc_bind_simps Let_def failing_estimator_def failing_predictor_def

lemma fit_keeps_failed_instance:
  "\<exists>layer' P' cache' w.
     BaseEstimator_fit example_numpy
       (BaseEstimator_init example_layer
          [(Some ''case-1'', None, None, [(''bad'', failing_estimator)])] None
          [(Some ''case-1'', ''bad'') \<mapsto> 0] True)
       [[1], [2]] [1, 2] [[0], [0]] ''dir'' Map.empty
     = Some (Inr (layer', P', cache'), [PyWarning FitFailedWarning w])
     \<and> layer_estimators layer' = Some (PySeq [(Some ''case-1'', (''bad'', None, (None, 0)))])"
  by (simp add: eval_defs BaseEstimator_fit_def BaseEstimator_init_def example_layer_def
      ores_bind_def BaseEstimator_assemble_def priv_assemble_t_def priv_assemble_e_def
      pickle_save_def pickle_load_def path_join_def)

lemma fit_fold_crashes:
  "\<exists>w w'.
     BaseEstimator_fit example_numpy
       (BaseEstimator_init example_layer
          [(Some ''case-1'', None, Some (Range 0 1), [(''bad'', failing_estimator)])] None
          [(Some ''case-1'', ''bad'') \<mapsto> 0] True)
       [[1], [2]] [1, 2] [[0], [0]] ''dir'' Map.empty
     = Some (Inl (PyExc AttributeError ''NoneType object has no attribute shape''),
             [PyWarning FitFailedWarning w, PyWarning PredictFailedWarning w'])"
  by (simp add: eval_defs BaseEstimator_fit_def BaseEstimator_init_def example_layer_def
      ores_bind_def)

text \<open>
  Claim C1, which the code does not meet. The layer has \<^verbatim>\<open>raise_on_exception=False\<close>, no
  preprocessing and one estimator, whose \<^verbatim>\<open>fit\<close> raises. With a full-data entry
  (\<open>tei = None\<close>) \<^verbatim>\<open>fit\<close> completes and one \<^verbatim>\<open>FitFailedWarning\<close> is emitted, but the assembled
  \<^verbatim>\<open>estimators_\<close> list holds the failing instance, with \<^verbatim>\<open>None\<close> for its estimator: \<^verbatim>\<open>fit_est\<close>
  pickles the tuple all the same and \<^verbatim>\<open>_assemble\<close> loads every key of the task list. With a
  fold entry (\<open>tei = (0, 1)\<close>) \<^verbatim>\<open>fit\<close> does not complete: after the two warnings,
  \<^verbatim>\<open>len(p.shape)\<close> raises \<^verbatim>\<open>AttributeError\<close>.
\<close>

theorem fit_failing_estimator_run:
  "(\<exists>layer' P' cache' w.
     BaseEstimator_fit example_numpy
       (BaseEstimator_init example_layer
          [(Some ''case-1'', None, None, [(''bad'', failing_estimator)])] None
          [(Some ''case-1'', ''bad'') \<mapsto> 0] True)
       [[1], [2]] [1, 2] [[0], [0]] ''dir'' Map.empty
     = Some (Inr (layer', P', cache'), [PyWarning FitFailedWarning w])
     \<and> layer_estimators layer' = Some (PySeq [(Some ''case-1'', (''bad'', None, (None, 0)))]))
   \<and> (\<exists>w w'.
     BaseEstimator_fit example_numpy
       (BaseEstimator_init example_layer
          [(Some ''case-1'', None, Some (Range 0 1), [(''bad'', failing_estimator)])] None
          [(Some ''case-1'', ''bad'') \<mapsto> 0] True)
       [[1], [2]] [1, 2] [[0], [0]] ''dir'' Map.empty
     = Some (Inl (PyExc AttributeError ''NoneType object has no attribute shape''),
             [PyWarning FitFailedWarning w, PyWarning PredictFailedWarning w']))"
  using fit_keeps_failed_instance fit_fold_crashes by (rule conjI)

text \<open>
  Claim C2, which the code does not meet. \<^verbatim>\<open>fit_est\<close> runs with
  \<^verbatim>\<open>raise_on_exception=False\<close> on a fold (\<open>tei = (0, 2)\<close>, column 0, a zero matrix for
  \<open>pred\<close>) with an estimator whose \<^verbatim>\<open>fit\<close> succeeds and whose \<^verbatim>\<open>predict\<close> raises.
  \<^verbatim>\<open>_predict_est\<close> emits the \<^verbatim>\<open>PredictFailedWarning\<close> and returns \<^verbatim>\<open>None\<close>; the task then
  raises \<^verbatim>\<open>AttributeError\<close> at \<^verbatim>\<open>len(p.shape)\<close> instead of going on with a zero-filled
  region.
\<close>

theorem fit_est_failing_predict_run:
  "\<exists>w. fit_est (\<lambda>k. Map.empty) ''dir'' (Some ''case-1'') ''ols'' failing_predictor
        [[1], [2]] (Some [1, 2]) (Some [[0], [0]]) (None, Some (Range 0 2), 0) False False
        (Some ''layer-1'') (1, 600) ''predict'' None
      = Some (Inl (PyExc AttributeError ''NoneType object has no attribute shape''),
              [PyWarning PredictFailedWarning w])"
  by (simp add: eval_defs)

section \<open>The wait protocol at a missing file\<close>

text \<open>
  Claim C3, which the code does not meet. The file is absent and never appears; the polling
  interval is one second and the limit two. With \<^verbatim>\<open>raise_on_exception=True\<close> the call raises
  at once, without a warning, and with \<^verbatim>\<open>raise_on_exception=False\<close> it raises after exactly
  one \<^verbatim>\<open>ParallelProcessingWarning\<close>; but the exception is the \<^verbatim>\<open>TypeError\<close> of
  \<^verbatim>\<open>error_msg % msg\<close>, whose format has three conversion specifiers for one argument, and not
  a \<^verbatim>\<open>ParallelProcessingError\<close>.
\<close>

theorem load_trans_missing_file_run:
  "priv_load_trans (\<lambda>k. Map.empty :: int cache) ''dir/case-1__t'' (Some ''case-1'') (1, 2) True
     = Some (Inl (PyExc TypeError ''not enough arguments for format string''), [])
   \<and> (\<exists>w. priv_load_trans (\<lambda>k. Map.empty :: int cache) ''dir/case-1__t'' (Some ''case-1'') (1, 2)
            False
     = Some (Inl (PyExc TypeError ''not enough arguments for format string''),
             [PyWarning ParallelProcessingWarning w]))"
  by (simp add: priv_load_trans_def pickle_load_def fmt_error_msg exc_bind_simps path_exists_def
      load_trans_wait.simps py_format.simps fmt_flag_def)

section \<open>The fitted check\<close>

text \<open>
  Claim C7, which the code does not meet on a \<^verbatim>\<open>dict\<close>. With
  \<^verbatim>\<open>estimators_ = {'a': [one fitted entry], 'b': []}\<close> a fitted estimator exists, and
  \<^verbatim>\<open>_check_fitted\<close> raises \<^verbatim>\<open>NotFittedError\<close>, because the branch asks whether any value is
  empty. With \<^verbatim>\<open>estimators_ = {}\<close> there is no fitted estimator, and the check passes.
\<close>

theorem check_fitted_dict_run:
  "BaseEstimator_check_fitted
     (BaseEstimator_init
        (example_layer\<lparr> layer_estimators :=
           Some (PyDict [(''a'', [(Some ''case-1'', (''ols'', Some fitted_constant, (None, 0)))]),
                         (''b'', [])]) \<rparr>)
        [] None Map.empty True)
     = Inl (PyExc NotFittedError ''Cannot predict as no estimators weresuccessfully fitted.'')
   \<and> BaseEstimator_check_fitted
     (BaseEstimator_init (example_layer\<lparr> layer_estimators := Some (PyDict []) \<rparr>)
        [] None Map.empty True)
     = Inr ()"
  by (simp add: BaseEstimator_check_fitted_def check_is_fitted_def BaseEstimator_init_def
      example_layer_def exc_bind_simps)

section \<open>Score aggregation with a failing reduction\<close>

lemma fmt_score:
  "\<exists>m. py_format ''%sCould not score instance %s. Details\<newline>%r'' [s, k, r] = Inr m"
  by (simp add: py_format.simps fmt_flag_def)

lemma mean_score_ok:
  "None \<notin> set v \<Longrightarrow>
     priv_mean_score np v r k name
       = (Inr (Some (np_mean np (map the v), np_std np (map the v))), [])"
  by (simp add: priv_mean_score_def res_return_def)

lemma mean_score_warns:
  assumes "None \<in> set v"
  shows "\<exists>m. priv_mean_score np v False k name = (Inr None, [PyWarning ParallelProcessingWarning m])"
proof -
  obtain s where s: "priv_name name None = Inr s" using priv_name_ok by blast
  obtain m where m: "py_format ''%sCould not score instance %s. Details\<newline>%r''
      [s, k, repr_exc (PyExc TypeError ''unsupported operand type(s)'')] = Inr m"
    using fmt_score by blast
  show ?thesis
    by (simp add: priv_mean_score_def assms s m res_bind_simps res_bind_warn res_return_def)
qed

lemma mean_score_raises:
  assumes "None \<in> set v"
  shows "\<exists>m. priv_mean_score np v True k name = (Inl (PyExc ParallelProcessingError m), [])"
proof -
  obtain s where s: "priv_name name None = Inr s" using priv_name_ok by blast
  obtain m where m: "py_format ''%sCould not score instance %s. Details\<newline>%r''
      [s, k, repr_exc (PyExc TypeError ''unsupported operand type(s)'')] = Inr m"
    using fmt_score by blast
  show ?thesis
    by (simp add: priv_mean_score_def assms s m res_bind_simps res_raise_def)
qed

lemma scores_aggregate_warn:
  "\<exists>ws. scores_aggregate np False name groups
          = (Inr (map (\<lambda>(k, v). (k, (if None \<in> set v then None
              else Some (np_mean np (map the v), np_std np (map the v))))) groups), ws)
       \<and> length ws = length (filter (\<lambda>(k, v). None \<in> set v) groups)
       \<and> list_all (\<lambda>w. warn_class_of w = ParallelProcessingWarning) ws"
proof (induction groups)
  case Nil
  show ?case by (simp add: res_return_def)
next
  case (Cons a groups)
  obtain k v where a: "a = (k, v)" by (cases a)
  from Cons.IH obtain ws where ih:
    "scores_aggregate np False name groups = (Inr (map (\<lambda>(k, v). (k, (if None \<in> set v then None
              else Some (np_mean np (map the v), np_std np (map the v))))) groups), ws)"
    "length ws = length (filter (\<lambda>(k, v). None \<in> set v) groups)"
    "list_all (\<lambda>w. warn_class_of w = ParallelProcessingWarning) ws" by blast
  show ?case
  proof (cases "None \<in> set v")
    case True
    from mean_score_warns [OF True, of np k name] obtain m where
      m: "priv_mean_score np v False k name = (Inr None, [PyWarning ParallelProcessingWarning m])"
      by blast
    show ?thesis
      using True ih by (simp add: a m res_bind_simps res_return_def)
  next
    case False
    show ?thesis
      using False ih
      by (simp add: a mean_score_ok res_bind_simps res_return_def)
  qed
qed

lemma scores_aggregate_raise:
  "(k, v) \<in> set groups \<Longrightarrow> None \<in> set v \<Longrightarrow>
     \<exists>m. scores_aggregate np True name groups = (Inl (PyExc ParallelProcessingError m), [])"
proof (induction groups)
  case Nil
  then show ?case by simp
next
  case (Cons a groups)
  obtain k' v' where a: "a = (k', v')" by (cases a)
  show ?case
  proof (cases "None \<in> set v'")
    case True
    from mean_score_raises [OF True, of np k' name] obtain m where
      "priv_mean_score np v' True k' name = (Inl (PyExc ParallelProcessingError m), [])" by blast
    then show ?thesis by (simp add: a res_bind_simps)
  next
    case False
    with Cons.prems a have "(k, v) \<in> set groups" by auto
    from Cons.IH [OF this Cons.prems(2)] obtain m where
      "scores_aggregate np True name groups = (Inl (PyExc ParallelProcessingError m), [])" by blast
    then show ?thesis using False by (simp add: a mean_score_ok res_bind_simps)
  qed
qed

lemma dict_set_keys_old: "k \<in> fst ` set d \<Longrightarrow> map fst (dict_set d k v) = map fst d"
proof (induction d)
  case Nil
  then show ?case by simp
next
  case (Cons a d)
  obtain k' v' where a: "a = (k', v')" by (cases a)
  show ?case
  proof (cases "k' = k")
    case True
    then show ?thesis by (simp add: a)
  next
    case False
    with Cons.prems a have "k \<in> fst ` set d" by auto
    from Cons.IH [OF this] False show ?thesis by (simp add: a)
  qed
qed

lemma dict_set_keys_new: "k \<notin> fst ` set d \<Longrightarrow> map fst (dict_set d k v) = map fst d @ [k]"
  by (induction d) auto

lemma dict_set_distinct: "distinct (map fst d) \<Longrightarrow> distinct (map fst (dict_set d k v))"
  by (cases "k \<in> fst ` set d") (simp_all add: dict_set_keys_old dict_set_keys_new)

lemma scores_shell_distinct:
  "scores_shell s d = Inr d' \<Longrightarrow> distinct (map fst d) \<Longrightarrow> distinct (map fst d')"
proof (induction s arbitrary: d)
  case Nil
  then show ?case by simp
next
  case (Cons a s)
  obtain k v where a: "a = (k, v)" by (cases a)
  from Cons.prems(1) obtain name where
    "scores_shell s (dict_set d name []) = Inr d'"
    by (auto simp: a exc_bind_def split: sum.splits prod.splits)
  from Cons.IH [OF this] Cons.prems(2) show ?case by (simp add: dict_set_distinct)
qed

lemma scores_populate_distinct:
  "scores_populate s d = Inr d' \<Longrightarrow> distinct (map fst d) \<Longrightarrow> distinct (map fst d')"
proof (induction s arbitrary: d)
  case Nil
  then show ?case by simp
next
  case (Cons a s)
  obtain k v where a: "a = (k, v)" by (cases a)
  from Cons.prems(1) obtain name l where
    "scores_populate s (dict_set d name l) = Inr d'"
    by (auto simp: a exc_bind_def Let_def split: sum.splits prod.splits option.splits)
  from Cons.IH [OF this] Cons.prems(2) show ?case by (simp add: dict_set_distinct)
qed

text \<open>
  Claim C9, as the code has it. \<open>groups\<close> is the table after the second loop of
  \<^verbatim>\<open>_build_scores\<close>: every instance with the list of its fold scores. For a group whose
  reduction fails (one of its scores is \<^verbatim>\<open>None\<close>): with the raising policy
  \<^verbatim>\<open>_build_scores\<close> raises \<^verbatim>\<open>ParallelProcessingError\<close>; without it the call returns a table
  with the same keys as \<open>groups\<close>, in which the instance is mapped to \<^verbatim>\<open>None\<close>, and it has
  emitted one \<^verbatim>\<open>ParallelProcessingWarning\<close> for every group whose reduction fails and no
  other warning.
\<close>

theorem build_scores_failed_reduction:
  assumes "scores_shell (take n_pred s) [] = Inr shell"
    and "scores_populate (drop n_pred s) shell = Inr groups"
    and "(k, v) \<in> set groups" and "None \<in> set v"
  shows "(\<exists>msg. BaseEstimator_build_scores np n_pred True name s
                = (Inl (PyExc ParallelProcessingError msg), []))
       \<and> (\<exists>tbl ws. BaseEstimator_build_scores np n_pred False name s = (Inr tbl, ws)
            \<and> map_of tbl k = Some None \<and> map fst tbl = map fst groups
            \<and> length ws = length (filter (\<lambda>(k, v). None \<in> set v) groups)
            \<and> list_all (\<lambda>w. warn_class_of w = ParallelProcessingWarning) ws)"
proof
  from scores_aggregate_raise [OF assms(3,4), of np name] obtain m where
    "scores_aggregate np True name groups = (Inl (PyExc ParallelProcessingError m), [])" by blast
  then show "\<exists>msg. BaseEstimator_build_scores np n_pred True name s
                = (Inl (PyExc ParallelProcessingError msg), [])"
    by (simp add: BaseEstimator_build_scores_def assms(1,2) res_bind_simps)
next
  let ?tbl = "map (\<lambda>(k, v). (k, (if None \<in> set v then None
              else Some (np_mean np (map the v), np_std np (map the v))))) groups"
  from scores_aggregate_warn [of np name groups] obtain ws where ws:
    "scores_aggregate np False name groups = (Inr ?tbl, ws)"
    "length ws = length (filter (\<lambda>(k, v). None \<in> set v) groups)"
    "list_all (\<lambda>w. warn_class_of w = ParallelProcessingWarning) ws" by blast
  have d: "distinct (map fst groups)"
    using scores_populate_distinct [OF assms(2)] scores_shell_distinct [OF assms(1)] by simp
  have "map_of groups k = Some v" using d assms(3) by simp
  then have m: "map_of ?tbl k = Some None"
    using assms(4) by (simp add: map_of_map)
  have k: "map fst ?tbl = map fst groups" by (simp add: case_prod_unfold comp_def)
  have "BaseEstimator_build_scores np n_pred False name s = (Inr ?tbl, ws)"
    by (simp add: BaseEstimator_build_scores_def assms(1,2) res_bind_simps ws(1))
  with m k ws(2,3)
  show "\<exists>tbl ws. BaseEstimator_build_scores np n_pred False name s = (Inr tbl, ws)
            \<and> map_of tbl k = Some None \<and> map fst tbl = map fst groups
            \<and> length ws = length (filter (\<lambda>(k, v). None \<in> set v) groups)
            \<and> list_all (\<lambda>w. warn_class_of w = ParallelProcessingWarning) ws" by blast
qed

theorem build_scores_failed_reduction_witness:
  "(\<exists>msg. BaseEstimator_build_scores example_numpy 1 True (Some ''layer-1'')
            [(''case-1___ols'', None), (''case-1__f0___ols__f0'', None)]
          = (Inl (PyExc ParallelProcessingError msg), []))
   \<and> (\<exists>tbl ws. BaseEstimator_build_scores example_numpy 1 False (Some ''layer-1'')
            [(''case-1___ols'', None), (''case-1__f0___ols__f0'', None)]
          = (Inr tbl, ws)
        \<and> map_of tbl ''case-1__ols'' = Some None \<and> map fst tbl = [''case-1__ols'']
        \<and> length ws = 1
        \<and> list_all (\<lambda>w. warn_class_of w = ParallelProcessingWarning) ws)"
proof -
  let ?s = "[(''case-1___ols'', None), (''case-1__f0___ols__f0'', None :: int option)]"
  have a1: "scores_shell (take 1 ?s) [] = Inr [(''case-1__ols'', [])]"
    by (simp add: split_key_def py_split_def exc_bind_simps fmt_key_suffix)
  have a2: "scores_populate (drop 1 ?s) [(''case-1__ols'', [])] = Inr [(''case-1__ols'', [None])]"
    by (simp add: split_key_def py_split_def exc_bind_simps fmt_key_suffix Let_def)
  have a3: "(''case-1__ols'', [None :: int option]) \<in> set [(''case-1__ols'', [None])]" by simp
  have a4: "None \<in> set [None :: int option]" by simp
  from build_scores_failed_reduction [OF a1 a2 a3 a4, of example_numpy "Some ''layer-1''"]
  show ?thesis by simp
qed

text \<open>
  Claim C9 as stated fails: with the non-raising policy, one instance and one fold whose
  score is \<^verbatim>\<open>None\<close>, the table \<^verbatim>\<open>_build_scores\<close> returns has an entry for the instance, with
  the value \<^verbatim>\<open>None\<close> that \<^verbatim>\<open>_mean_score\<close> returned after its warning.
\<close>

theorem build_scores_keeps_failed_instance:
  "\<exists>w. BaseEstimator_build_scores example_numpy 1 False (Some ''layer-1'')
        [(''case-1___ols'', None), (''case-1__f0___ols__f0'', None)]
      = (Inr [(''case-1__ols'', None)], [PyWarning ParallelProcessingWarning w])"
  by (simp add: BaseEstimator_build_scores_def split_key_def py_split_def exc_bind_simps
      res_bind_simps res_bind_warn res_return_def fmt_key_suffix priv_mean_score_def
      priv_name_def py_format.simps fmt_flag_def Let_def)

section \<open>Cache keys\<close>



lemma exc_bind_InrD: "exc_bind m f = Inr v \<Longrightarrow> \<exists>a. m = Inr a \<and> f a = Inr v"
  by (cases m) (simp_all add: exc_bind_def)







lemma priv_load_trans_present:
  "fs 0 f = Some obj \<Longrightarrow> priv_load_trans fs f cse ivals r = Some (Inr (obj, 0), [])"
  by (simp add: priv_load_trans_def pickle_load_def Let_def)

lemma priv_fit_est_ok:
  "est_fit inst x z = Inr f \<Longrightarrow> priv_fit_est x z inst r inst_name cse lname = (Inr (Some f), [])"
  by (simp add: priv_fit_est_def res_return_def)

lemma priv_predict_est_ok:
  "call_attr est attr x = Inr p
     \<Longrightarrow> priv_predict_est x est r inst_name cse name attr = (Inr (Some p), [])"
  by (simp add: priv_predict_est_def res_return_def)


lemma fit_est_from_fold:
  assumes "transform_loop x tr_list cse name = Inr x1" and "est_fit inst x1 z = Inr f"
    and "priv_slice_array X y (Some spec) = Inr (x2, z2, tei')"
    and "transform_loop x2 tr_list cse name = Inr x3"
    and "call_attr (Some f) attr x3 = Inr p"
    and "write_fold_pred (length X) pred tei' col (Some p) = Inr pm'"
  shows "fit_est_from cache dir cse inst_name inst X y pred (tri, Some spec, col) r name attr
           scorer tr_list x z
         = (Inr (cache(path_join dir (py_str cse @ ''__'' @ inst_name @ ''__e'')
                   \<mapsto> EstPayload inst_name (Some f) (Some spec, col)
                         (call_scorer scorer z2 (Some p))), Some pm'), [])"
  by (simp add: fit_est_from_def Let_def assms res_bind_simps priv_fit_est_ok [OF assms(2)]
      priv_predict_est_ok [OF assms(5)]
      fit_est_predict_def res_return_def fmt_key_e pickle_save_def)

lemma fit_est_reaches_from:
  assumes "priv_slice_array X y (fst idx) = Inr (x, z, ix0)"
    and "if pp then fs 0 (path_join dir (py_str cse @ ''__t'')) = Some (TransPayload tr_list)
         else tr_list = []"
  shows "fit_est fs dir cse inst_name inst X y pred idx r pp name ivals attr scorer
         = Some (fit_est_from (fs 0) dir cse inst_name inst X y pred idx r name attr scorer
                   tr_list x z)"
proof (cases pp)
  case True
  with assms(2) have "priv_load_trans fs (path_join dir (py_str cse @ ''__t'')) cse ivals r
      = Some (Inr (TransPayload tr_list, 0), [])"
    by (simp add: priv_load_trans_present)
  with True assms(1) show ?thesis
    by (simp add: fit_est_def fmt_key_t res_bind_simps split: prod.splits)
next
  case False
  with assms show ?thesis by (simp add: fit_est_def)
qed









section \<open>The writeback of a fold\<close>

lemma fold_update_length:
  assumes step: "\<And>i a xs. i < length xs \<Longrightarrow> f (i, a) xs = xs[i := h a (xs ! i)]"
  shows "\<forall>i \<in> fst ` set zs. i < length xs \<Longrightarrow> length (fold f zs xs) = length xs"
proof (induction zs arbitrary: xs)
  case Nil
  show ?case by simp
next
  case (Cons z zs)
  obtain i a where z: "z = (i, a)" by (cases z)
  from Cons.prems z have i: "i < length xs" by simp
  have l: "length (f (i, a) xs) = length xs" by (simp add: step [OF i])
  have "\<forall>j \<in> fst ` set zs. j < length (f (i, a) xs)" using Cons.prems l by simp
  from Cons.IH [OF this] l show ?case by (simp add: z)
qed

lemma fold_update_other:
  assumes step: "\<And>i a xs. i < length xs \<Longrightarrow> f (i, a) xs = xs[i := h a (xs ! i)]"
  shows "\<forall>i \<in> fst ` set zs. i < length xs \<Longrightarrow> j \<notin> fst ` set zs \<Longrightarrow> fold f zs xs ! j = xs ! j"
proof (induction zs arbitrary: xs)
  case Nil
  show ?case by simp
next
  case (Cons z zs)
  obtain i a where z: "z = (i, a)" by (cases z)
  from Cons.prems z have i: "i < length xs" and ji: "j \<noteq> i" and jz: "j \<notin> fst ` set zs" by auto
  have l: "length (f (i, a) xs) = length xs" by (simp add: step [OF i])
  have "\<forall>j \<in> fst ` set zs. j < length (f (i, a) xs)" using Cons.prems l by simp
  from Cons.IH [OF this jz] have "fold f zs (f (i, a) xs) ! j = f (i, a) xs ! j" .
  also have "\<dots> = xs ! j" using ji by (simp add: step [OF i])
  finally show ?case by (simp add: z)
qed

lemma fold_update_nth:
  assumes step: "\<And>i a xs. i < length xs \<Longrightarrow> f (i, a) xs = xs[i := h a (xs ! i)]"
  shows "distinct (map fst zs) \<Longrightarrow> \<forall>i \<in> fst ` set zs. i < length xs \<Longrightarrow> (j, b) \<in> set zs
           \<Longrightarrow> fold f zs xs ! j = h b (xs ! j)"
proof (induction zs arbitrary: xs)
  case Nil
  then show ?case by simp
next
  case (Cons z zs)
  obtain i a where z: "z = (i, a)" by (cases z)
  from Cons.prems z have i: "i < length xs" and iz: "i \<notin> fst ` set zs"
    and d: "distinct (map fst zs)" by auto
  have l: "length (f (i, a) xs) = length xs" by (simp add: step [OF i])
  have r: "\<forall>j \<in> fst ` set zs. j < length (f (i, a) xs)" using Cons.prems l by simp
  show ?case
  proof (cases "(j, b) = (i, a)")
    case True
    from fold_update_other [of f h, OF step r iz]
    have "fold f zs (f (i, a) xs) ! i = f (i, a) xs ! i" by simp
    also have "\<dots> = h a (xs ! i)" using i by (simp add: step [OF i])
    finally show ?thesis using True by (simp add: z)
  next
    case False
    with Cons.prems(3) z have m: "(j, b) \<in> set zs" by auto
    then have "j \<in> fst ` set zs" by force
    with iz have ji: "j \<noteq> i" by auto
    from Cons.IH [OF d r m] have "fold f zs (f (i, a) xs) ! j = h b (f (i, a) xs ! j)" .
    also have "f (i, a) xs ! j = xs ! j" using ji by (simp add: step [OF i])
    finally show ?thesis by (simp add: z)
  qed
qed

lemma set_cell_step:
  "r < length m \<Longrightarrow> (case (r, a) of (r, a) \<Rightarrow> \<lambda>m. set_cell m r c a) m = m[r := (\<lambda>a row. row[c := a]) a (m ! r)]"
  by (simp add: set_cell_def)

lemma list_update_step:
  "i < length xs \<Longrightarrow> (case (i, a) of (c, a) \<Rightarrow> \<lambda>row. row[c := a]) xs = xs[i := (\<lambda>a old. a) a (xs ! i)]"
  by simp

lemma set_row_cells:
  "r < length m \<Longrightarrow>
     fold (\<lambda>(c, a) m'. set_cell m' r c a) zs m
       = m[r := fold (\<lambda>(c, a) row. row[c := a]) zs (m ! r)]"
proof (induction zs arbitrary: m)
  case Nil
  show ?case by simp
next
  case (Cons z zs)
  obtain c a where z: "z = (c, a)" by (cases z)
  have l: "r < length (set_cell m r c a)" using Cons.prems by (simp add: set_cell_def)
  from Cons.IH [OF l] Cons.prems show ?case by (simp add: z set_cell_def)
qed

lemma np_index_all_nonneg:
  "np_index_all n ix = Inr rs \<Longrightarrow> list_all (\<lambda>i. 0 \<le> i) ix
     \<Longrightarrow> rs = map nat ix \<and> list_all (\<lambda>i. i < int n) ix"
proof (induction ix arbitrary: rs)
  case Nil
  then show ?case by simp
next
  case (Cons i ix)
  from Cons.prems(1) obtain j js where
    j: "np_index n i = Inr j" and js: "np_index_all n ix = Inr js" and rs: "rs = j # js"
    by (auto dest!: exc_bind_InrD)
  from Cons.prems(2) have i0: "0 \<le> i" and r0: "list_all (\<lambda>i. 0 \<le> i) ix" by simp_all
  from j i0 have "j = nat i \<and> i < int n" by (auto simp: np_index_def split: if_splits)
  with Cons.IH [OF js r0] rs show ?case by simp
qed


lemma distinct_map_nat:
  "distinct ix \<Longrightarrow> list_all (\<lambda>i. 0 \<le> i) ix \<Longrightarrow> distinct (map nat ix)"
  by (auto simp: distinct_map list_all_iff inj_on_def eq_nat_nat_iff)

lemma np_broadcast_nth:
  "np_broadcast v n = Inr vs \<Longrightarrow> j < n
     \<Longrightarrow> length vs = n \<and> vs ! j = (if length v = n then v ! j else v ! 0)"
  by (cases v) (auto simp: np_broadcast_def split: if_splits)

lemma rect_row: "list_all (\<lambda>row. length row = n) pm \<Longrightarrow> r < length pm \<Longrightarrow> length (pm ! r) = n"
  by (simp add: list_all_length)

lemma np_set_col_cells:
  assumes w: "np_set_col pm ix col v = Inr pm'"
    and d: "distinct ix" and nn: "list_all (\<lambda>i. 0 \<le> i) ix" and c0: "0 \<le> col"
    and rect: "list_all (\<lambda>row. length row = n_cols pm) pm"
    and j: "j < length ix"
  shows "pm' ! nat (ix ! j) ! nat col = (if length v = length ix then v ! j else v ! 0)"
proof -
  from w obtain rs c vs where
    rs: "np_index_all (length pm) ix = Inr rs" and
    c: "np_index (n_cols pm) col = Inr c" and
    vs: "np_broadcast v (length ix) = Inr vs" and
    pm': "pm' = fold (\<lambda>(r, a) m. set_cell m r c a) (zip rs vs) pm"
    unfolding np_set_col_def by (auto dest!: exc_bind_InrD)
  from np_index_all_nonneg [OF rs nn] have rsm: "rs = map nat ix"
    and inr: "list_all (\<lambda>i. i < int (length pm)) ix" by simp_all
  from c c0 have cn: "c = nat col" and cl: "c < n_cols pm"
    by (auto simp: np_index_def split: if_splits)
  from np_broadcast_nth [OF vs j] have lv: "length vs = length ix"
    and vj: "vs ! j = (if length v = length ix then v ! j else v ! 0)" by simp_all
  have lr: "length rs = length vs" using rsm lv by simp
  have dz: "distinct (map fst (zip rs vs))"
    using distinct_map_nat [OF d nn] lr rsm by simp
  have rng: "\<forall>i \<in> fst ` set (zip rs vs). i < length pm"
  proof
    fix i assume "i \<in> fst ` set (zip rs vs)"
    then have "i \<in> set rs" by (auto dest: set_zip_leftD)
    then obtain k where "k \<in> set ix" and "i = nat k" using rsm by auto
    with inr nn show "i < length pm" by (auto simp: list_all_iff nat_less_iff)
  qed
  have mem: "(rs ! j, vs ! j) \<in> set (zip rs vs)"
    using j lr lv by (auto simp: set_zip)
  have step: "\<And>i a xs. i < length xs \<Longrightarrow>
      (\<lambda>(r, a) m. set_cell m r c a) (i, a) xs = xs[i := (\<lambda>a row. row[c := a]) a (xs ! i)]"
    by (simp add: set_cell_def)
  from fold_update_nth [of "\<lambda>(r, a) m. set_cell m r c a" "\<lambda>a row. row[c := a]", OF step dz rng mem]
  have row: "pm' ! (rs ! j) = (pm ! (rs ! j))[c := vs ! j]" by (simp add: pm')
  have rj: "rs ! j = nat (ix ! j)" using rsm j by simp
  have "rs ! j < length pm" using rng mem by force
  from rect_row [OF rect this] cl have "c < length (pm ! (rs ! j))" by simp
  with row vj show ?thesis by (simp add: rj [symmetric] cn [symmetric])
qed

lemma np_set_block_cells:
  assumes w: "np_set_block pm ix cols v = Inr pm'"
    and d: "distinct ix" and nn: "list_all (\<lambda>i. 0 \<le> i) ix"
    and dc: "distinct cols" and nc: "list_all (\<lambda>i. 0 \<le> i) cols"
    and rect: "list_all (\<lambda>row. length row = n_cols pm) pm"
    and vrect: "list_all (\<lambda>row. length row = length cols) v"
    and j: "j < length ix" and k: "k < length cols"
  shows "pm' ! nat (ix ! j) ! nat (cols ! k)
           = (if length v = length ix then v ! j ! k else v ! 0 ! k)"
proof -
  from w obtain rs cs vrows where
    rs: "np_index_all (length pm) ix = Inr rs" and
    cs: "np_index_all (n_cols pm) cols = Inr cs" and
    vs: "np_broadcast v (length ix) = Inr vrows" and
    pm': "pm' = fold (\<lambda>(r, vrow) m. fold (\<lambda>(c, a) m'. set_cell m' r c a) (zip cs vrow) m)
                  (zip rs vrows) pm"
    unfolding np_set_block_def by (auto dest!: exc_bind_InrD)
  from np_index_all_nonneg [OF rs nn] have rsm: "rs = map nat ix"
    and inr: "list_all (\<lambda>i. i < int (length pm)) ix" by simp_all
  from np_index_all_nonneg [OF cs nc] have csm: "cs = map nat cols"
    and inc: "list_all (\<lambda>i. i < int (n_cols pm)) cols" by simp_all
  from np_broadcast_nth [OF vs j] have lv: "length vrows = length ix"
    and vj: "vrows ! j = (if length v = length ix then v ! j else v ! 0)" by simp_all
  have lr: "length rs = length vrows" using rsm lv by simp
  have dz: "distinct (map fst (zip rs vrows))"
    using distinct_map_nat [OF d nn] lr rsm by simp
  have rng: "\<forall>i \<in> fst ` set (zip rs vrows). i < length pm"
  proof
    fix i assume "i \<in> fst ` set (zip rs vrows)"
    then have "i \<in> set rs" by (auto dest: set_zip_leftD)
    then obtain k where "k \<in> set ix" and "i = nat k" using rsm by auto
    with inr nn show "i < length pm" by (auto simp: list_all_iff nat_less_iff)
  qed
  have mem: "(rs ! j, vrows ! j) \<in> set (zip rs vrows)"
    using j lr lv by (auto simp: set_zip)
  let ?h = "\<lambda>vrow row. fold (\<lambda>(c, a) row. row[c := a]) (zip cs vrow) row"
  have step: "\<And>i a xs. i < length xs \<Longrightarrow>
      (\<lambda>(r, vrow) m. fold (\<lambda>(c, a) m'. set_cell m' r c a) (zip cs vrow) m) (i, a) xs
        = xs[i := ?h a (xs ! i)]"
    by (simp add: set_row_cells)
  from fold_update_nth [of "\<lambda>(r, vrow) m. fold (\<lambda>(c, a) m'. set_cell m' r c a) (zip cs vrow) m"
      ?h, OF step dz rng mem]
  have row: "pm' ! (rs ! j) = ?h (vrows ! j) (pm ! (rs ! j))" by (simp add: pm')
  have rj: "rs ! j = nat (ix ! j)" using rsm j by simp
  have rl: "rs ! j < length pm" using rng mem by force
  have rowlen: "length (pm ! (rs ! j)) = n_cols pm" by (rule rect_row [OF rect rl])
  have vin: "vrows ! j \<in> set v"
  proof (cases "length v = length ix")
    case True
    with vj j show ?thesis by simp
  next
    case False
    with vs have "length v = 1" by (auto simp: np_broadcast_def split: if_splits)
    with vj False show ?thesis by simp
  qed
  with vrect have lvr: "length (vrows ! j) = length cols" by (auto simp: list_all_iff)
  have lc: "length cs = length (vrows ! j)" using csm lvr by simp
  have dzc: "distinct (map fst (zip cs (vrows ! j)))"
    using distinct_map_nat [OF dc nc] lc csm by simp
  have rngc: "\<forall>i \<in> fst ` set (zip cs (vrows ! j)). i < length (pm ! (rs ! j))"
  proof
    fix i assume "i \<in> fst ` set (zip cs (vrows ! j))"
    then have "i \<in> set cs" by (auto dest: set_zip_leftD)
    then obtain q where "q \<in> set cols" and "i = nat q" using csm by auto
    with inc nc rowlen show "i < length (pm ! (rs ! j))"
      by (auto simp: list_all_iff nat_less_iff)
  qed
  have memc: "(cs ! k, vrows ! j ! k) \<in> set (zip cs (vrows ! j))"
    using k lc lvr by (auto simp: set_zip)
  have stepc: "\<And>i a xs. i < length xs \<Longrightarrow>
      (\<lambda>(c, a) row. row[c := a]) (i, a) xs = xs[i := (\<lambda>a old. a) a (xs ! i)]"
    by simp
  from fold_update_nth [of "\<lambda>(c, a) row. row[c := a]" "\<lambda>a old. a", OF stepc dzc rngc memc]
  have "?h (vrows ! j) (pm ! (rs ! j)) ! (cs ! k) = vrows ! j ! k" by simp
  moreover have "cs ! k = nat (cols ! k)" using csm k by simp
  ultimately show ?thesis using row vj by (simp add: rj [symmetric])
qed


lemma write_fold_pred_cells:
  assumes w: "write_fold_pred n (Some pm) (Some ix) col (Some p) = Inr pm'"
    and d: "distinct ix"
    and lb: "list_all (\<lambda>i. int n - int (length pm) \<le> i) ix"
    and c0: "0 \<le> col"
    and rect: "list_all (\<lambda>row. length row = n_cols pm) pm"
  shows "case p of
           Arr1 v \<Rightarrow>
             (\<forall>j<length ix. pm' ! nat (ix ! j - (int n - int (length pm))) ! nat col
                = (if length v = length ix then v ! j else v ! 0))
         | Arr2 v \<Rightarrow>
             (list_all (\<lambda>row. length row = n_cols v) v \<longrightarrow>
              (\<forall>j<length ix. \<forall>k<n_cols v.
                 pm' ! nat (ix ! j - (int n - int (length pm))) ! nat (col + int k)
                   = (if length v = length ix then v ! j ! k else v ! 0 ! k)))"
proof -
  let ?rb = "int n - int (length pm)"
  let ?ix = "map (\<lambda>i. i - ?rb) ix"
  have d': "distinct ?ix" using d by (simp add: distinct_map inj_on_def)
  have nn': "list_all (\<lambda>i. 0 \<le> i) ?ix" using lb by (simp add: list_all_iff)
  show ?thesis
  proof (cases p)
    case (Arr1 v)
    with w have w': "np_set_col pm ?ix col v = Inr pm'"
      by (simp add: write_fold_pred_def Let_def)
    have "\<forall>j<length ix. pm' ! nat (ix ! j - ?rb) ! nat col
                = (if length v = length ix then v ! j else v ! 0)"
    proof (intro allI impI)
      fix j assume j: "j < length ix"
      then have "j < length ?ix" by simp
      from np_set_col_cells [OF w' d' nn' c0 rect this] j
      show "pm' ! nat (ix ! j - ?rb) ! nat col = (if length v = length ix then v ! j else v ! 0)"
        by simp
    qed
    with Arr1 show ?thesis by simp
  next
    case (Arr2 v)
    let ?cols = "np_arange col (col + int (n_cols v))"
    from Arr2 w have w': "np_set_block pm ?ix ?cols v = Inr pm'"
      by (simp add: write_fold_pred_def Let_def)
    have dc: "distinct ?cols" by (simp add: np_arange_def)
    have nc: "list_all (\<lambda>i. 0 \<le> i) ?cols" using c0 by (simp add: np_arange_def list_all_iff)
    have lc: "length ?cols = n_cols v" by (simp add: np_arange_def)
    have "list_all (\<lambda>row. length row = n_cols v) v \<longrightarrow>
              (\<forall>j<length ix. \<forall>k<n_cols v.
                 pm' ! nat (ix ! j - ?rb) ! nat (col + int k)
                   = (if length v = length ix then v ! j ! k else v ! 0 ! k))"
    proof (intro allI impI)
      fix j k
      assume vr: "list_all (\<lambda>row. length row = n_cols v) v" and j: "j < length ix"
        and k: "k < n_cols v"
      from vr lc have vr': "list_all (\<lambda>row. length row = length ?cols) v" by simp
      from j have j': "j < length ?ix" by simp
      from k lc have k': "k < length ?cols" by simp
      have ck: "?cols ! k = col + int k" using k by (simp add: np_arange_def)
      from np_set_block_cells [OF w' d' nn' dc nc rect vr' j' k'] j ck
      show "pm' ! nat (ix ! j - ?rb) ! nat (col + int k)
                   = (if length v = length ix then v ! j ! k else v ! 0 ! k)"
        by simp
    qed
    with Arr2 show ?thesis by simp
  qed
qed


lemma np_index_all_in_range:
  "list_all (\<lambda>i. 0 \<le> i \<and> i < int n) ix \<Longrightarrow> np_index_all n ix = Inr (map nat ix)"
  by (induction ix) (simp_all add: np_index_def exc_bind_simps)

lemma write_fold_pred_total:
  assumes len: "length pm \<le> n"
    and rng: "list_all (\<lambda>i. int n - int (length pm) \<le> i \<and> i < int n) ix"
    and c0: "0 \<le> col"
    and fits: "case p of
                 Arr1 v \<Rightarrow> length v = length ix \<and> col < int (n_cols pm)
               | Arr2 v \<Rightarrow> length v = length ix \<and> col + int (n_cols v) \<le> int (n_cols pm)"
  shows "\<exists>pm'. write_fold_pred n (Some pm) (Some ix) col (Some p) = Inr pm'"
proof -
  let ?rb = "int n - int (length pm)"
  let ?ix = "map (\<lambda>i. i - ?rb) ix"
  have "list_all (\<lambda>i. 0 \<le> i \<and> i < int (length pm)) ?ix"
    using rng len by (auto simp: list_all_iff)
  then have rows: "np_index_all (length pm) ?ix = Inr (map nat ?ix)"
    by (rule np_index_all_in_range)
  show ?thesis
  proof (cases p)
    case (Arr1 v)
    with fits c0 have "np_index (n_cols pm) col = Inr (nat col)" and "length v = length ix"
      by (simp_all add: np_index_def)
    with Arr1 rows show ?thesis
      by (simp add: write_fold_pred_def Let_def np_set_col_def np_broadcast_def exc_bind_simps)
  next
    case (Arr2 v)
    with fits have lv: "length v = length ix" and w: "col + int (n_cols v) \<le> int (n_cols pm)"
      by simp_all
    have "list_all (\<lambda>i. 0 \<le> i \<and> i < int (n_cols pm)) (np_arange col (col + int (n_cols v)))"
      using c0 w by (auto simp: np_arange_def list_all_iff)
    then have "np_index_all (n_cols pm) (np_arange col (col + int (n_cols v)))
        = Inr (map nat (np_arange col (col + int (n_cols v))))"
      by (rule np_index_all_in_range)
    with Arr2 rows lv show ?thesis
      by (simp add: write_fold_pred_def Let_def np_set_block_def np_broadcast_def exc_bind_simps)
  qed
qed

lemma write_fold_pred_rebased:
  assumes len: "length pm \<le> n"
    and rect: "list_all (\<lambda>row. length row = n_cols pm) pm"
    and d: "distinct ix"
    and rng: "list_all (\<lambda>i. int n - int (length pm) \<le> i \<and> i < int n) ix"
    and c0: "0 \<le> col"
    and fits: "case p of
                 Arr1 v \<Rightarrow> length v = length ix \<and> col < int (n_cols pm)
               | Arr2 v \<Rightarrow> length v = length ix \<and> col + int (n_cols v) \<le> int (n_cols pm)
                    \<and> list_all (\<lambda>row. length row = n_cols v) v"
  shows "\<exists>pm'. write_fold_pred n (Some pm) (Some ix) col (Some p) = Inr pm'
           \<and> (case p of
                 Arr1 v \<Rightarrow>
                   (\<forall>j<length ix.
                      pm' ! nat (ix ! j - (int n - int (length pm))) ! nat col = v ! j)
               | Arr2 v \<Rightarrow>
                   (\<forall>j<length ix. \<forall>k<n_cols v.
                      pm' ! nat (ix ! j - (int n - int (length pm))) ! nat (col + int k)
                        = v ! j ! k))"
proof -
  have fits': "case p of
                 Arr1 v \<Rightarrow> length v = length ix \<and> col < int (n_cols pm)
               | Arr2 v \<Rightarrow> length v = length ix \<and> col + int (n_cols v) \<le> int (n_cols pm)"
    using fits by (cases p) simp_all
  from write_fold_pred_total [OF len rng c0 fits'] obtain pm' where
    w: "write_fold_pred n (Some pm) (Some ix) col (Some p) = Inr pm'" by blast
  have lb: "list_all (\<lambda>i. int n - int (length pm) \<le> i) ix" using rng by (simp add: list_all_iff)
  from write_fold_pred_cells [OF w d lb c0 rect] fits
  have "case p of
          Arr1 v \<Rightarrow>
            (\<forall>j<length ix. pm' ! nat (ix ! j - (int n - int (length pm))) ! nat col = v ! j)
        | Arr2 v \<Rightarrow>
            (\<forall>j<length ix. \<forall>k<n_cols v.
               pm' ! nat (ix ! j - (int n - int (length pm))) ! nat (col + int k) = v ! j ! k)"
    by (cases p) simp_all
  with w show ?thesis by blast
qed

lemma set_cell_col_length:
  "length (fold (\<lambda>(r, a) m. set_cell m r c a) zs m) = length m"
  by (induction zs arbitrary: m) (auto simp: set_cell_def)

lemma set_cell_col_other_col:
  "r < length m \<Longrightarrow> c' \<noteq> c \<Longrightarrow> fold (\<lambda>(r, a) m. set_cell m r c a) zs m ! r ! c' = m ! r ! c'"
proof (induction zs arbitrary: m)
  case Nil
  show ?case by simp
next
  case (Cons z zs)
  obtain r0 a where z: "z = (r0, a)" by (cases z)
  have l: "r < length (set_cell m r0 c a)" using Cons.prems by (simp add: set_cell_def)
  have "set_cell m r0 c a ! r ! c' = m ! r ! c'"
    using Cons.prems by (cases "r = r0") (simp_all add: set_cell_def)
  with Cons.IH [OF l Cons.prems(2)] show ?case by (simp add: z)
qed

lemma set_cell_col_other_row:
  "r < length m \<Longrightarrow> r \<notin> fst ` set zs \<Longrightarrow> fold (\<lambda>(r, a) m. set_cell m r c a) zs m ! r = m ! r"
proof (induction zs arbitrary: m)
  case Nil
  show ?case by simp
next
  case (Cons z zs)
  obtain r0 a where z: "z = (r0, a)" by (cases z)
  from Cons.prems z have ne: "r \<noteq> r0" and rest: "r \<notin> fst ` set zs" by auto
  have l: "r < length (set_cell m r0 c a)" using Cons.prems by (simp add: set_cell_def)
  have "set_cell m r0 c a ! r = m ! r" using ne by (simp add: set_cell_def)
  with Cons.IH [OF l rest] show ?case by (simp add: z)
qed

lemma set_cell_row_length:
  "length (fold (\<lambda>(c, a) m'. set_cell m' r c a) zs m) = length m"
  by (induction zs arbitrary: m) (auto simp: set_cell_def)

lemma set_cell_row_other_row:
  "r' \<noteq> r \<Longrightarrow> fold (\<lambda>(c, a) m'. set_cell m' r c a) zs m ! r' = m ! r'"
  by (induction zs arbitrary: m) (auto simp: set_cell_def)

lemma set_cell_row_other_col:
  "r' < length m \<Longrightarrow> c' \<notin> fst ` set zs
     \<Longrightarrow> fold (\<lambda>(c, a) m'. set_cell m' r c a) zs m ! r' ! c' = m ! r' ! c'"
proof (induction zs arbitrary: m)
  case Nil
  show ?case by simp
next
  case (Cons z zs)
  obtain c a where z: "z = (c, a)" by (cases z)
  from Cons.prems z have ne: "c' \<noteq> c" and rest: "c' \<notin> fst ` set zs" by auto
  have l: "r' < length (set_cell m r c a)" using Cons.prems by (simp add: set_cell_def)
  have "set_cell m r c a ! r' ! c' = m ! r' ! c'"
    using Cons.prems ne by (cases "r' = r") (simp_all add: set_cell_def)
  with Cons.IH [OF l rest] show ?case by (simp add: z)
qed

lemma set_block_length:
  "length (fold (\<lambda>(r, vrow) m. fold (\<lambda>(c, a) m'. set_cell m' r c a) (zip cs vrow) m) zs m)
     = length m"
  by (induction zs arbitrary: m) (auto simp: set_cell_row_length)

lemma set_block_other_row:
  "r' \<notin> fst ` set zs \<Longrightarrow>
     fold (\<lambda>(r, vrow) m. fold (\<lambda>(c, a) m'. set_cell m' r c a) (zip cs vrow) m) zs m ! r'
       = m ! r'"
proof (induction zs arbitrary: m)
  case Nil
  show ?case by simp
next
  case (Cons z zs)
  obtain r vrow where z: "z = (r, vrow)" by (cases z)
  from Cons.prems z have ne: "r' \<noteq> r" and rest: "r' \<notin> fst ` set zs" by auto
  from Cons.IH [OF rest] set_cell_row_other_row [OF ne] show ?case by (simp add: z)
qed

lemma set_block_other_col:
  "r' < length m \<Longrightarrow> c' \<notin> set cs \<Longrightarrow>
     fold (\<lambda>(r, vrow) m. fold (\<lambda>(c, a) m'. set_cell m' r c a) (zip cs vrow) m) zs m ! r' ! c'
       = m ! r' ! c'"
proof (induction zs arbitrary: m)
  case Nil
  show ?case by simp
next
  case (Cons z zs)
  obtain r vrow where z: "z = (r, vrow)" by (cases z)
  have nc: "c' \<notin> fst ` set (zip cs vrow)" using Cons.prems(2) by (auto dest: set_zip_leftD)
  let ?m = "fold (\<lambda>(c, a) m'. set_cell m' r c a) (zip cs vrow) m"
  have l: "r' < length ?m" using Cons.prems(1) by (simp add: set_cell_row_length)
  from Cons.IH [OF l Cons.prems(2)] set_cell_row_other_col [OF Cons.prems(1) nc]
  show ?case by (simp add: z)
qed

lemma write_fold_pred_frame:
  assumes w: "write_fold_pred n (Some pm) (Some ix) col (Some p) = Inr pm'"
    and lb: "list_all (\<lambda>i. int n - int (length pm) \<le> i) ix"
    and c0: "0 \<le> col"
  shows "length pm' = length pm
     \<and> (\<forall>r<length pm. \<forall>c.
          \<not> (r \<in> (\<lambda>i. nat (i - (int n - int (length pm)))) ` set ix
              \<and> nat col \<le> c \<and> c < nat col + (case p of Arr1 v \<Rightarrow> 1 | Arr2 v \<Rightarrow> n_cols v))
          \<longrightarrow> pm' ! r ! c = pm ! r ! c)"
proof -
  let ?rb = "int n - int (length pm)"
  let ?ix = "map (\<lambda>i. i - ?rb) ix"
  have nn: "list_all (\<lambda>i. 0 \<le> i) ?ix" using lb by (simp add: list_all_iff)
  have rows: "set (map nat ?ix) = (\<lambda>i. nat (i - ?rb)) ` set ix" by auto
  show ?thesis
  proof (cases p)
    case (Arr1 v)
    with w have "np_set_col pm ?ix col v = Inr pm'" by (simp add: write_fold_pred_def Let_def)
    then obtain rs c vs where
      rs: "np_index_all (length pm) ?ix = Inr rs" and
      c: "np_index (n_cols pm) col = Inr c" and
      pm': "pm' = fold (\<lambda>(r, a) m. set_cell m r c a) (zip rs vs) pm"
      unfolding np_set_col_def by (auto dest!: exc_bind_InrD)
    from np_index_all_nonneg [OF rs nn] have rsm: "rs = map nat ?ix" by simp
    from c c0 have cn: "c = nat col" by (auto simp: np_index_def split: if_splits)
    have len: "length pm' = length pm" by (simp add: pm' set_cell_col_length)
    have "pm' ! r ! c' = pm ! r ! c'"
      if r: "r < length pm"
        and out: "\<not> (r \<in> (\<lambda>i. nat (i - ?rb)) ` set ix \<and> nat col \<le> c' \<and> c' < nat col + 1)"
      for r c'
    proof (cases "c' = c")
      case False
      from set_cell_col_other_col [OF r False] show ?thesis by (simp add: pm')
    next
      case True
      with out cn have "r \<notin> set rs" unfolding rsm rows by auto
      then have "r \<notin> fst ` set (zip rs vs)" by (auto dest: set_zip_leftD)
      from set_cell_col_other_row [OF r this] show ?thesis by (simp add: pm')
    qed
    with len Arr1 show ?thesis by simp
  next
    case (Arr2 v)
    let ?cols = "np_arange col (col + int (n_cols v))"
    from Arr2 w have "np_set_block pm ?ix ?cols v = Inr pm'"
      by (simp add: write_fold_pred_def Let_def)
    then obtain rs cs vrows where
      rs: "np_index_all (length pm) ?ix = Inr rs" and
      cs: "np_index_all (n_cols pm) ?cols = Inr cs" and
      pm': "pm' = fold (\<lambda>(r, vrow) m. fold (\<lambda>(c, a) m'. set_cell m' r c a) (zip cs vrow) m)
                    (zip rs vrows) pm"
      unfolding np_set_block_def by (auto dest!: exc_bind_InrD)
    from np_index_all_nonneg [OF rs nn] have rsm: "rs = map nat ?ix" by simp
    have nc: "list_all (\<lambda>i. 0 \<le> i) ?cols" using c0 by (simp add: np_arange_def list_all_iff)
    from np_index_all_nonneg [OF cs nc] have csm: "cs = map nat ?cols" by simp
    have cset: "c' \<in> set cs \<Longrightarrow> nat col \<le> c' \<and> c' < nat col + n_cols v" for c'
      unfolding csm using c0 by (auto simp: np_arange_def)
    have len: "length pm' = length pm" by (simp add: pm' set_block_length)
    have "pm' ! r ! c' = pm ! r ! c'"
      if r: "r < length pm"
        and out: "\<not> (r \<in> (\<lambda>i. nat (i - ?rb)) ` set ix \<and> nat col \<le> c'
                     \<and> c' < nat col + n_cols v)"
      for r c'
    proof (cases "c' \<in> set cs")
      case False
      from set_block_other_col [OF r False] show ?thesis by (simp add: pm')
    next
      case True
      with out cset have "r \<notin> set rs" unfolding rsm rows by blast
      then have "r \<notin> fst ` set (zip rs vrows)" by (auto dest: set_zip_leftD)
      from set_block_other_row [OF this] show ?thesis by (simp add: pm')
    qed
    with len Arr2 show ?thesis by simp
  qed
qed

lemma slice_rows:
  assumes "build_index spec = Inr ix"
    and "length pm \<le> length X"
    and "list_all (\<lambda>i. int (length X) - int (length pm) \<le> i \<and> i < int (length X)) ix"
    and "case y of None \<Rightarrow> True | Some yv \<Rightarrow> length yv = length X"
  shows "priv_slice_array X y (Some spec)
           = Inr (map (\<lambda>i. X ! nat i) ix, map_option (\<lambda>yv. map (\<lambda>i. yv ! nat i) ix) y, Some ix)"
proof -
  have "list_all (\<lambda>i. 0 \<le> i \<and> i < int (length X)) ix"
    using assms(2,3) by (auto simp: list_all_iff)
  from slice_in_range [OF assms(1) this assms(4)] show ?thesis .
qed

text \<open>
  Claim C6. \<open>X\<close> has at least as many rows as the prediction matrix, the matrix is
  rectangular, the rows that the test index names are distinct and, shifted down by
  \<open>X.rows - P.rows\<close>, rows of the matrix, and the prediction has one row per index and
  fits into the columns from \<open>col\<close> on. Then a fold task of \<^verbatim>\<open>transform\<close>
  (\<^verbatim>\<open>predict_fold_est\<close>) whose preprocessing and prediction succeed returns, and the matrix
  it returns holds the \<open>j\<close>-th prediction in row \<open>tei[j] - (X.rows - P.rows)\<close>, in column
  \<open>col\<close> for a one-dimensional prediction and in columns \<open>col, col + 1, ...\<close> for a
  two-dimensional one; it has the rows of the matrix it was given, and every cell outside
  those rows, or outside those columns, is as it was. The same holds of an estimator task
  of \<^verbatim>\<open>fit\<close> (\<^verbatim>\<open>fit_est\<close>) with a test index, whose training slice, preprocessing and \<^verbatim>\<open>fit\<close>
  succeed as well.
\<close>

theorem fold_writeback_rebased:
  "(build_index spec = Inr ix
        \<and> length pm \<le> length X
        \<and> list_all (\<lambda>row. length row = n_cols pm) pm
        \<and> distinct ix
        \<and> list_all (\<lambda>i. int (length X) - int (length pm) \<le> i \<and> i < int (length X)) ix
        \<and> 0 \<le> col
        \<and> transform_loop (map (\<lambda>i. X ! nat i) ix) tr_list cse name = Inr x
        \<and> call_attr est attr x = Inr p
        \<and> (case p of
              Arr1 v \<Rightarrow> length v = length ix \<and> col < int (n_cols pm)
            | Arr2 v \<Rightarrow> length v = length ix \<and> col + int (n_cols v) \<le> int (n_cols pm)
                 \<and> list_all (\<lambda>row. length row = n_cols v) v) \<longrightarrow>
      (\<exists>pm'. predict_fold_est cse tr_list inst_name est X pm (Some spec, col) name attr
                = (Inr pm', [])
           \<and> (case p of
                 Arr1 v \<Rightarrow>
                   (\<forall>j<length ix.
                      pm' ! nat (ix ! j - (int (length X) - int (length pm))) ! nat col = v ! j)
               | Arr2 v \<Rightarrow>
                   (\<forall>j<length ix. \<forall>k<n_cols v.
                      pm' ! nat (ix ! j - (int (length X) - int (length pm))) ! nat (col + int k)
                        = v ! j ! k))
           \<and> length pm' = length pm
           \<and> (\<forall>r<length pm. \<forall>c.
                \<not> (r \<in> (\<lambda>i. nat (i - (int (length X) - int (length pm)))) ` set ix
                    \<and> nat col \<le> c
                    \<and> c < nat col + (case p of Arr1 v \<Rightarrow> 1 | Arr2 v \<Rightarrow> n_cols v))
                \<longrightarrow> pm' ! r ! c = pm ! r ! c)))
   \<and> (priv_slice_array X y tri = Inr (xa, za, ixa)
        \<and> (if pp then fs 0 (path_join dir (py_str cse @ ''__t'')) = Some (TransPayload tr_list)
            else tr_list = [])
        \<and> transform_loop xa tr_list cse name = Inr x1
        \<and> est_fit est0 x1 za = Inr f
        \<and> (case y of None \<Rightarrow> True | Some yv \<Rightarrow> length yv = length X)
        \<and> build_index spec = Inr ix
        \<and> length pm \<le> length X
        \<and> list_all (\<lambda>row. length row = n_cols pm) pm
        \<and> distinct ix
        \<and> list_all (\<lambda>i. int (length X) - int (length pm) \<le> i \<and> i < int (length X)) ix
        \<and> 0 \<le> col
        \<and> transform_loop (map (\<lambda>i. X ! nat i) ix) tr_list cse name = Inr x2
        \<and> call_attr (Some f) attr x2 = Inr q
        \<and> (case q of
              Arr1 v \<Rightarrow> length v = length ix \<and> col < int (n_cols pm)
            | Arr2 v \<Rightarrow> length v = length ix \<and> col + int (n_cols v) \<le> int (n_cols pm)
                 \<and> list_all (\<lambda>row. length row = n_cols v) v) \<longrightarrow>
      (\<exists>cache' pm'.
           fit_est fs dir cse inst_name est0 X y (Some pm) (tri, Some spec, col) r pp name ivals
             attr scorer
             = Some (Inr (cache', Some pm'), [])
           \<and> (case q of
                 Arr1 v \<Rightarrow>
                   (\<forall>j<length ix.
                      pm' ! nat (ix ! j - (int (length X) - int (length pm))) ! nat col = v ! j)
               | Arr2 v \<Rightarrow>
                   (\<forall>j<length ix. \<forall>k<n_cols v.
                      pm' ! nat (ix ! j - (int (length X) - int (length pm))) ! nat (col + int k)
                        = v ! j ! k))
           \<and> length pm' = length pm
           \<and> (\<forall>r<length pm. \<forall>c.
                \<not> (r \<in> (\<lambda>i. nat (i - (int (length X) - int (length pm)))) ` set ix
                    \<and> nat col \<le> c
                    \<and> c < nat col + (case q of Arr1 v \<Rightarrow> 1 | Arr2 v \<Rightarrow> n_cols v))
                \<longrightarrow> pm' ! r ! c = pm ! r ! c)))"
proof (intro conjI impI)
  assume h: "build_index spec = Inr ix
        \<and> length pm \<le> length X
        \<and> list_all (\<lambda>row. length row = n_cols pm) pm
        \<and> distinct ix
        \<and> list_all (\<lambda>i. int (length X) - int (length pm) \<le> i \<and> i < int (length X)) ix
        \<and> 0 \<le> col
        \<and> transform_loop (map (\<lambda>i. X ! nat i) ix) tr_list cse name = Inr x
        \<and> call_attr est attr x = Inr p
        \<and> (case p of
              Arr1 v \<Rightarrow> length v = length ix \<and> col < int (n_cols pm)
            | Arr2 v \<Rightarrow> length v = length ix \<and> col + int (n_cols v) \<le> int (n_cols pm)
                 \<and> list_all (\<lambda>row. length row = n_cols v) v)"
  let ?n = "length X"
  from h have fits: "(case p of
              Arr1 v \<Rightarrow> length v = length ix \<and> col < int (n_cols pm)
            | Arr2 v \<Rightarrow> length v = length ix \<and> col + int (n_cols v) \<le> int (n_cols pm)
                 \<and> list_all (\<lambda>row. length row = n_cols v) v)" by blast
  from h have bi: "build_index spec = Inr ix" and len: "length pm \<le> ?n"
    and rect: "list_all (\<lambda>row. length row = n_cols pm) pm" and d: "distinct ix"
    and rng: "list_all (\<lambda>i. int ?n - int (length pm) \<le> i \<and> i < int ?n) ix"
    and c0: "0 \<le> col"
    and tl: "transform_loop (map (\<lambda>i. X ! nat i) ix) tr_list cse name = Inr x"
    and ca: "call_attr est attr x = Inr p"
    by blast+
  from write_fold_pred_rebased [OF len rect d rng c0 fits] obtain pm' where
    w: "write_fold_pred ?n (Some pm) (Some ix) col (Some p) = Inr pm'"
    and cells: "(case p of
                 Arr1 v \<Rightarrow>
                   (\<forall>j<length ix.
                      pm' ! nat (ix ! j - (int (length X) - int (length pm))) ! nat col = v ! j)
               | Arr2 v \<Rightarrow>
                   (\<forall>j<length ix. \<forall>k<n_cols v.
                      pm' ! nat (ix ! j - (int (length X) - int (length pm))) ! nat (col + int k)
                        = v ! j ! k))" by blast
  have lb: "list_all (\<lambda>i. int ?n - int (length pm) \<le> i) ix" using rng by (simp add: list_all_iff)
  from write_fold_pred_frame [OF w lb c0] have frame: "length pm' = length pm
           \<and> (\<forall>r<length pm. \<forall>c.
                \<not> (r \<in> (\<lambda>i. nat (i - (int (length X) - int (length pm)))) ` set ix
                    \<and> nat col \<le> c
                    \<and> c < nat col + (case p of Arr1 v \<Rightarrow> 1 | Arr2 v \<Rightarrow> n_cols v))
                \<longrightarrow> pm' ! r ! c = pm ! r ! c)" .
  have sl: "priv_slice_array X (None :: 'a list option) (Some spec)
              = Inr (map (\<lambda>i. X ! nat i) ix, None, Some ix)"
    using slice_rows [OF bi len rng, of "None :: 'a list option"] by simp
  have "predict_fold_est cse tr_list inst_name est X pm (Some spec, col) name attr = (Inr pm', [])"
    by (simp add: predict_fold_est_def Let_def sl tl res_bind_simps priv_predict_est_ok [OF ca] w
        res_lift_def)
  with cells frame show "(\<exists>pm'. predict_fold_est cse tr_list inst_name est X pm (Some spec, col) name attr
                = (Inr pm', [])
           \<and> (case p of
                 Arr1 v \<Rightarrow>
                   (\<forall>j<length ix.
                      pm' ! nat (ix ! j - (int (length X) - int (length pm))) ! nat col = v ! j)
               | Arr2 v \<Rightarrow>
                   (\<forall>j<length ix. \<forall>k<n_cols v.
                      pm' ! nat (ix ! j - (int (length X) - int (length pm))) ! nat (col + int k)
                        = v ! j ! k))
           \<and> length pm' = length pm
           \<and> (\<forall>r<length pm. \<forall>c.
                \<not> (r \<in> (\<lambda>i. nat (i - (int (length X) - int (length pm)))) ` set ix
                    \<and> nat col \<le> c
                    \<and> c < nat col + (case p of Arr1 v \<Rightarrow> 1 | Arr2 v \<Rightarrow> n_cols v))
                \<longrightarrow> pm' ! r ! c = pm ! r ! c))" by blast
next
  assume h: "priv_slice_array X y tri = Inr (xa, za, ixa)
        \<and> (if pp then fs 0 (path_join dir (py_str cse @ ''__t'')) = Some (TransPayload tr_list)
            else tr_list = [])
        \<and> transform_loop xa tr_list cse name = Inr x1
        \<and> est_fit est0 x1 za = Inr f
        \<and> (case y of None \<Rightarrow> True | Some yv \<Rightarrow> length yv = length X)
        \<and> build_index spec = Inr ix
        \<and> length pm \<le> length X
        \<and> list_all (\<lambda>row. length row = n_cols pm) pm
        \<and> distinct ix
        \<and> list_all (\<lambda>i. int (length X) - int (length pm) \<le> i \<and> i < int (length X)) ix
        \<and> 0 \<le> col
        \<and> transform_loop (map (\<lambda>i. X ! nat i) ix) tr_list cse name = Inr x2
        \<and> call_attr (Some f) attr x2 = Inr q
        \<and> (case q of
              Arr1 v \<Rightarrow> length v = length ix \<and> col < int (n_cols pm)
            | Arr2 v \<Rightarrow> length v = length ix \<and> col + int (n_cols v) \<le> int (n_cols pm)
                 \<and> list_all (\<lambda>row. length row = n_cols v) v)"
  let ?n = "length X"
  from h have fits: "(case q of
              Arr1 v \<Rightarrow> length v = length ix \<and> col < int (n_cols pm)
            | Arr2 v \<Rightarrow> length v = length ix \<and> col + int (n_cols v) \<le> int (n_cols pm)
                 \<and> list_all (\<lambda>row. length row = n_cols v) v)" by blast
  from h have tr: "priv_slice_array X y tri = Inr (xa, za, ixa)"
    and pp: "if pp then fs 0 (path_join dir (py_str cse @ ''__t'')) = Some (TransPayload tr_list)
            else tr_list = []"
    and t1: "transform_loop xa tr_list cse name = Inr x1"
    and ft: "est_fit est0 x1 za = Inr f"
    and yl: "case y of None \<Rightarrow> True | Some yv \<Rightarrow> length yv = length X"
    and bi: "build_index spec = Inr ix" and len: "length pm \<le> ?n"
    and rect: "list_all (\<lambda>row. length row = n_cols pm) pm" and d: "distinct ix"
    and rng: "list_all (\<lambda>i. int ?n - int (length pm) \<le> i \<and> i < int ?n) ix"
    and c0: "0 \<le> col"
    and tl: "transform_loop (map (\<lambda>i. X ! nat i) ix) tr_list cse name = Inr x2"
    and ca: "call_attr (Some f) attr x2 = Inr q"
    by blast+
  from write_fold_pred_rebased [OF len rect d rng c0 fits] obtain pm' where
    w: "write_fold_pred ?n (Some pm) (Some ix) col (Some q) = Inr pm'"
    and cells: "(case q of
                 Arr1 v \<Rightarrow>
                   (\<forall>j<length ix.
                      pm' ! nat (ix ! j - (int (length X) - int (length pm))) ! nat col = v ! j)
               | Arr2 v \<Rightarrow>
                   (\<forall>j<length ix. \<forall>k<n_cols v.
                      pm' ! nat (ix ! j - (int (length X) - int (length pm))) ! nat (col + int k)
                        = v ! j ! k))" by blast
  have lb: "list_all (\<lambda>i. int ?n - int (length pm) \<le> i) ix" using rng by (simp add: list_all_iff)
  from write_fold_pred_frame [OF w lb c0] have frame: "length pm' = length pm
           \<and> (\<forall>r<length pm. \<forall>c.
                \<not> (r \<in> (\<lambda>i. nat (i - (int (length X) - int (length pm)))) ` set ix
                    \<and> nat col \<le> c
                    \<and> c < nat col + (case q of Arr1 v \<Rightarrow> 1 | Arr2 v \<Rightarrow> n_cols v))
                \<longrightarrow> pm' ! r ! c = pm ! r ! c)" .
  note sl = slice_rows [OF bi len rng yl]
  have "fit_est fs dir cse inst_name est0 X y (Some pm) (tri, Some spec, col) r pp name ivals
          attr scorer
        = Some (fit_est_from (fs 0) dir cse inst_name est0 X y (Some pm) (tri, Some spec, col) r
                  name attr scorer tr_list xa za)"
    by (rule fit_est_reaches_from [of X y "(tri, Some spec, col)" xa za ixa])
       (use tr pp in simp_all)
  also have "fit_est_from (fs 0) dir cse inst_name est0 X y (Some pm) (tri, Some spec, col) r
                  name attr scorer tr_list xa za
        = (Inr ((fs 0)(path_join dir (py_str cse @ ''__'' @ inst_name @ ''__e'')
                   \<mapsto> EstPayload inst_name (Some f) (Some spec, col)
                         (call_scorer scorer (map_option (\<lambda>yv. map (\<lambda>i. yv ! nat i) ix) y)
                            (Some q))), Some pm'), [])"
    by (rule fit_est_from_fold [OF t1 ft sl tl ca w])
  finally show "(\<exists>cache' pm'.
           fit_est fs dir cse inst_name est0 X y (Some pm) (tri, Some spec, col) r pp name ivals
             attr scorer
             = Some (Inr (cache', Some pm'), [])
           \<and> (case q of
                 Arr1 v \<Rightarrow>
                   (\<forall>j<length ix.
                      pm' ! nat (ix ! j - (int (length X) - int (length pm))) ! nat col = v ! j)
               | Arr2 v \<Rightarrow>
                   (\<forall>j<length ix. \<forall>k<n_cols v.
                      pm' ! nat (ix ! j - (int (length X) - int (length pm))) ! nat (col + int k)
                        = v ! j ! k))
           \<and> length pm' = length pm
           \<and> (\<forall>r<length pm. \<forall>c.
                \<not> (r \<in> (\<lambda>i. nat (i - (int (length X) - int (length pm)))) ` set ix
                    \<and> nat col \<le> c
                    \<and> c < nat col + (case q of Arr1 v \<Rightarrow> 1 | Arr2 v \<Rightarrow> n_cols v))
                \<longrightarrow> pm' ! r ! c = pm ! r ! c))" using cells frame by blast
qed

theorem fold_writeback_rebased_witness:
  "(\<exists>pm'. predict_fold_est (Some ''case-1__0'') [] ''ols'' (Some fitted_echo) [[10], [20], [30]] [[0, 0, 0], [0, 0, 0]]
             (Some (Range 1 3), 1) (Some ''layer-1'') ''predict'' = (Inr pm', [])
        \<and> pm' ! 0 ! 1 = 20 \<and> pm' ! 1 ! 1 = 30)
   \<and> (\<exists>cache' pm'. fit_est (\<lambda>k. Map.empty) ''dir'' (Some ''case-1__0'') ''ols'' echo_estimator [[10], [20], [30]]
             (Some [1, 2, 3]) (Some [[0, 0, 0], [0, 0, 0]]) (Some (Range 0 1), Some (Range 1 3), 1) False False
             (Some ''layer-1'') (1, 600) ''predict'' None
           = Some (Inr (cache', Some pm'), [])
        \<and> pm' ! 0 ! 1 = 20 \<and> pm' ! 1 ! 1 = 30)
   \<and> (\<exists>pm'. predict_fold_est (Some ''case-1__0'') [] ''ols'' (Some fitted_pair) [[10], [20], [30]] [[0, 0, 0], [0, 0, 0]]
             (Some (Range 1 3), 1) (Some ''layer-1'') ''predict'' = (Inr pm', [])
        \<and> pm' ! 0 ! 1 = 20 \<and> pm' ! 0 ! 2 = 21 \<and> pm' ! 1 ! 1 = 30 \<and> pm' ! 1 ! 2 = 31)
   \<and> predict_fold_est (Some ''case-1__0'') [] ''ols'' (Some fitted_echo) [[10], [20], [30]] [[0, 0, 0], [0, 0, 0]]
        (Some (Range 1 3), 1) (Some ''layer-1'') ''predict''
      = (Inr [[0, 20, 0], [0, 30, 0]], [])"
proof -
  note inst1 = fold_writeback_rebased [where spec = "Range 1 3" and ix = "[1, 2]"
      and pm = "[[0, 0, 0], [0, 0, 0]]" and X = "[[10], [20], [30]]" and col = 1 and tr_list = "[]"
      and cse = "Some ''case-1__0''" and name = "Some ''layer-1''" and x = "[[20], [30]]"
      and est = "Some fitted_echo" and attr = "''predict''" and p = "Arr1 [20, 30]"
      and inst_name = "''ols''" and y = "Some [1, 2, 3]" and tri = "Some (Range 0 1)"
      and xa = "[[10]]" and za = "Some [1]" and ixa = "Some [0]" and pp = False
      and fs = "\<lambda>k. Map.empty" and dir = "''dir''" and ?x1.0 = "[[10]]"
      and ?est0.0 = echo_estimator and f = fitted_echo and ?x2.0 = "[[20], [30]]"
      and q = "Arr1 [20, 30]" and r = False and ivals = "(1, 600)" and scorer = None]
  note inst2 = fold_writeback_rebased [where spec = "Range 1 3" and ix = "[1, 2]"
      and pm = "[[0, 0, 0], [0, 0, 0]]" and X = "[[10], [20], [30]]" and col = 1 and tr_list = "[]"
      and cse = "Some ''case-1__0''" and name = "Some ''layer-1''" and x = "[[20], [30]]"
      and est = "Some fitted_pair" and attr = "''predict''" and p = "Arr2 [[20, 21], [30, 31]]"
      and inst_name = "''ols''", THEN conjunct1]
  have a1: "(\<exists>pm'. predict_fold_est (Some ''case-1__0'') [] ''ols'' (Some fitted_echo) [[10], [20], [30]] [[0, 0, 0], [0, 0, 0]]
             (Some (Range 1 3), 1) (Some ''layer-1'') ''predict'' = (Inr pm', [])
        \<and> pm' ! 0 ! 1 = 20 \<and> pm' ! 1 ! 1 = 30)"
    using inst1 [THEN conjunct1]
    by (auto simp: np_arange_def upto_rec1 n_cols_def call_attr_def fitted_echo_def All_less_Suc)
  have b1: "(\<exists>cache' pm'. fit_est (\<lambda>k. Map.empty) ''dir'' (Some ''case-1__0'') ''ols'' echo_estimator [[10], [20], [30]]
             (Some [1, 2, 3]) (Some [[0, 0, 0], [0, 0, 0]]) (Some (Range 0 1), Some (Range 1 3), 1) False False
             (Some ''layer-1'') (1, 600) ''predict'' None
           = Some (Inr (cache', Some pm'), [])
        \<and> pm' ! 0 ! 1 = 20 \<and> pm' ! 1 ! 1 = 30)"
    using inst1 [THEN conjunct2]
    by (auto simp: np_arange_def upto_rec1 n_cols_def call_attr_def fitted_echo_def
        echo_estimator_def priv_slice_array_def np_index_def All_less_Suc)
  have a2: "(\<exists>pm'. predict_fold_est (Some ''case-1__0'') [] ''ols'' (Some fitted_pair) [[10], [20], [30]] [[0, 0, 0], [0, 0, 0]]
             (Some (Range 1 3), 1) (Some ''layer-1'') ''predict'' = (Inr pm', [])
        \<and> pm' ! 0 ! 1 = 20 \<and> pm' ! 0 ! 2 = 21 \<and> pm' ! 1 ! 1 = 30 \<and> pm' ! 1 ! 2 = 31)"
    using inst2
    by (auto simp: np_arange_def upto_rec1 n_cols_def call_attr_def fitted_pair_def All_less_Suc)
  have r1: "predict_fold_est (Some ''case-1__0'') [] ''ols'' (Some fitted_echo) [[10], [20], [30]] [[0, 0, 0], [0, 0, 0]]
        (Some (Range 1 3), 1) (Some ''layer-1'') ''predict''
      = (Inr [[0, 20, 0], [0, 30, 0]], [])"
    by (simp add: predict_fold_est_def priv_slice_array_def np_arange_def upto_rec1 np_index_def
        exc_bind_simps res_bind_simps res_lift_def res_return_def priv_predict_est_def
        call_attr_def fitted_echo_def write_fold_pred_def np_set_col_def n_cols_def
        np_broadcast_def set_cell_def Let_def)
  from a1 b1 a2 r1 show ?thesis by blast
qed

end
